theory Spec2Isabelle
  imports Main "HOL-Library.Sublist" "HOL-Library.Word"
begin

section \<open>The data access layer of wolfAI: \<^verbatim>\<open>backend/services/data_access_layer.py\<close>\<close>

text \<open>
  The module is a class \<^verbatim>\<open>DataAccessLayer\<close> over two SQLite files. Everything it does
  beyond computing a value is an effect on the outside world: it tests and creates a
  directory, opens a store file, runs one SQL statement, commits, and writes log records.
  The embedding makes that world a value: each method takes the world and returns its
  outcome together with the world it leaves behind, also when it raises
  (\<open>(error + 'a) \<times> world\<close>, \<open>Inl\<close> the exception). The flow of control is sequential,
  as it is inside one \<^verbatim>\<open>await\<close> chain.
\<close>

subsection \<open>Python and SQLite values\<close>

text \<open>
  The scalars that cross the \<^verbatim>\<open>sqlite3\<close> boundary: \<^verbatim>\<open>None\<close>/NULL, integers and
  text. \<open>VTime t\<close> is the text \<^verbatim>\<open>YYYY-MM-DD HH:MM:SS\<close> that SQLite's
  \<^verbatim>\<open>CURRENT_TIMESTAMP\<close> yields at second \<open>t\<close>: it is kept apart from \<open>VStr\<close> so that two
  timestamps compare by their second, which is how their texts compare.
\<close>

datatype val = VNone | VInt int | VStr string | VTime nat

text \<open>
  Python's integers are unbounded, SQLite's are signed 64-bit words: \<^verbatim>\<open>sqlite3\<close> raises
  \<^verbatim>\<open>OverflowError\<close> when it is given an integer outside that range to bind to a
  statement. Every other scalar can be bound.
\<close>

definition int64 :: "int \<Rightarrow> bool" where
  "int64 i = (- (2 ^ 63) \<le> i \<and> i < 2 ^ 63)"

fun bindable :: "val \<Rightarrow> bool" where
  "bindable (VInt i) = int64 i"
| "bindable VNone = True"
| "bindable (VStr s) = True"
| "bindable (VTime t) = True"

text \<open>What \<^verbatim>\<open>_execute_query\<close> returns: a scalar (\<^verbatim>\<open>None\<close> or the row id), one row, or a
  list of rows.\<close>

datatype result = Scalar val | Row "val list" | Rows "val list list"

datatype error =
    OSError
  | OperationalError string
  | IntegrityError string
  | ProgrammingError string
  | OverflowError
  | JSONDecodeError
  | AttributeError
  | TypeError

fun error_str :: "error \<Rightarrow> string" where
  "error_str OSError = ''os.makedirs failed''"
| "error_str (OperationalError m) = m"
| "error_str (IntegrityError m) = m"
| "error_str (ProgrammingError m) = m"
| "error_str OverflowError = ''Python int too large to convert to SQLite INTEGER''"
| "error_str JSONDecodeError = ''Expecting value''"
| "error_str AttributeError = ''object has no attribute update''"
| "error_str TypeError = ''the JSON object must be str, bytes or bytearray''"

subsection \<open>Strings: the few \<^verbatim>\<open>str\<close> and \<^verbatim>\<open>os.path\<close> functions the module calls\<close>

definition is_space :: "char \<Rightarrow> bool" where
  "is_space c = (c \<in> set [CHR 0x09, CHR 0x0A, CHR 0x0B, CHR 0x0C, CHR 0x0D,
                           CHR 0x1C, CHR 0x1D, CHR 0x1E, CHR 0x1F, CHR 0x20, CHR 0x85, CHR 0xA0])"

definition strip :: "string \<Rightarrow> string" where
  "strip s = rev (dropWhile is_space (rev (dropWhile is_space s)))"

text \<open>\<^verbatim>\<open>str.upper\<close> on the letters a to z; the other characters of an 8-bit text are left
  as they are (none of them is mapped to a letter of \<^verbatim>\<open>INSERT\<close> by Python either).\<close>

definition upper_char :: "char \<Rightarrow> char" where
  "upper_char c =
     (case map_of (zip ''abcdefghijklmnopqrstuvwxyz'' ''ABCDEFGHIJKLMNOPQRSTUVWXYZ'') c of
        Some u \<Rightarrow> u
      | None \<Rightarrow> c)"

definition upper :: "string \<Rightarrow> string" where
  "upper s = map upper_char s"

definition startswith :: "string \<Rightarrow> string \<Rightarrow> bool" where
  "startswith s p = (take (length p) s = p)"

fun join :: "string \<Rightarrow> string list \<Rightarrow> string" where
  "join sep [] = []"
| "join sep [x] = x"
| "join sep (x # y # ys) = x @ sep @ join sep (y # ys)"

text \<open>\<^verbatim>\<open>posixpath.dirname\<close>: the text up to and with the last slash, its trailing slashes
  removed unless it consists of slashes only.\<close>

definition posix_dirname :: "string \<Rightarrow> string" where
  "posix_dirname p =
     (let head = rev (dropWhile (\<lambda>c. c \<noteq> CHR ''/'') (rev p)) in
      if head \<noteq> [] \<and> head \<noteq> replicate (length head) (CHR ''/'')
      then rev (dropWhile (\<lambda>c. c = CHR ''/'') (rev head))
      else head)"

text \<open>The directories above \<open>d\<close>, which \<^verbatim>\<open>os.makedirs\<close> creates with it.\<close>

definition ancestors :: "string \<Rightarrow> string list" where
  "ancestors d = remdups (filter (\<lambda>a. a \<noteq> []) (map posix_dirname (prefixes d)))"

subsection \<open>The stores\<close>

text \<open>
  The two tables, with the columns of the \<^verbatim>\<open>CREATE TABLE\<close> statements. The integer key
  and the timestamp columns are typed, since only the store itself assigns them
  (\<^verbatim>\<open>AUTOINCREMENT\<close>, \<^verbatim>\<open>CURRENT_TIMESTAMP\<close>): the key is a signed 64-bit word, as
  every row id of SQLite is, and \<open>r_id\<close> and \<open>p_id\<close> read it as the integer Python
  sees. The other columns hold whatever value was bound, as SQLite's columns do. Values are stored and compared as they are bound,
  without SQLite's type-affinity conversions: the methods of this layer bind only the
  types their signatures declare.
\<close>

record report =
  r_key :: "64 word"
  r_original_filename :: val
  r_content :: val
  r_source_path :: val
  r_processed_at :: nat
  r_status :: val
  r_metadata :: val
  r_analysis_json :: val

record prompt_template =
  p_key :: "64 word"
  p_name :: val
  p_template_text :: val
  p_category :: val
  p_created_at :: nat
  p_updated_at :: nat

definition r_id :: "report \<Rightarrow> int" where
  "r_id r = sint (r_key r)"

definition p_id :: "prompt_template \<Rightarrow> int" where
  "p_id r = sint (p_key r)"

text \<open>A table is its rows in insertion order and the largest key ever assigned
  (\<^verbatim>\<open>sqlite_sequence\<close>, which \<^verbatim>\<open>AUTOINCREMENT\<close> keeps).\<close>

record 'r table =
  tbl_rows :: "'r list"
  tbl_seq :: int

text \<open>A store file: the tables it holds (a table is absent until it is created) and
  whether the file can be written.\<close>

record store =
  writable :: bool
  reports :: "report table option"
  prompt_templates :: "prompt_template table option"

definition empty_store :: store where
  "empty_store = \<lparr>writable = True, reports = None, prompt_templates = None\<rparr>"

subsection \<open>Cursors and the SQLite library\<close>

record cursor =
  description :: "string list"
  cur_rows :: "val list list"

text \<open>
  The store engine is SQLite, which is not code of this repository. The meaning of the
  statements the module itself issues is modelled below, statement by statement. What
  the library does with any other statement text is a parameter, so that whatever is
  proved of \<^verbatim>\<open>_execute_query\<close> holds for every text and every behaviour of the library:
  \<open>lib_execute\<close> is given the second, the store and the last row id of the connection,
  the text and the bound values, and either raises or yields the store as the statement
  leaves it, the last row id of the connection and the cursor; \<open>lib_autocommit\<close> tells
  whether a text runs outside a transaction (Python's \<^verbatim>\<open>sqlite3\<close> opens one before a
  statement that modifies rows, and decides that from the text).
\<close>

record library =
  lib_execute :: "nat \<Rightarrow> store \<Rightarrow> int \<Rightarrow> string \<Rightarrow> val list \<Rightarrow> error + store \<times> int \<times> cursor"
  lib_autocommit :: "string \<Rightarrow> bool"

subsection \<open>The world\<close>

datatype level = INFO | ERROR

text \<open>
  What the layer does to the outside, in the order it does it. A log record keeps its
  level, the method that wrote it and those of its \<^verbatim>\<open>props\<close> that are texts of the
  model (the rendered message, \<^verbatim>\<open>str(params)\<close> and the numeric ids are left out).
\<close>

datatype event =
    Log level string "(string \<times> string) list"
  | Makedirs string
  | Connect string
  | Execute string string
  | Commit string
  | Close string

text \<open>
  \<open>dirs\<close>: the directories that exist; \<open>no_mkdir\<close>: the directories \<^verbatim>\<open>os.makedirs\<close>
  cannot create; \<open>files\<close>: the store files; \<open>clock\<close>: the second \<^verbatim>\<open>CURRENT_TIMESTAMP\<close>
  reads (SQLite's timestamps have the resolution of one second); \<open>events\<close>: the trace;
  \<open>sqlite3\<close>: the SQLite library of the machine.
\<close>

record world =
  dirs :: "string list"
  no_mkdir :: "string list"
  files :: "string \<Rightarrow> store option"
  clock :: nat
  events :: "event list"
  sqlite3 :: library

definition emit :: "world \<Rightarrow> event \<Rightarrow> world" where
  "emit w e = w\<lparr>events := events w @ [e]\<rparr>"

definition path_exists :: "world \<Rightarrow> string \<Rightarrow> bool" where
  "path_exists w d = (d \<in> set (dirs w))"

text \<open>\<^verbatim>\<open>os.makedirs(d, exist_ok=True)\<close>: raises \<^verbatim>\<open>OSError\<close> where the directory cannot be
  created, and otherwise leaves \<open>d\<close> and every directory above it in existence.\<close>

definition makedirs :: "world \<Rightarrow> string \<Rightarrow> (error + unit) \<times> world" where
  "makedirs w d =
     (let w1 = emit w (Makedirs d) in
      if d \<in> set (no_mkdir w) then (Inl OSError, w1)
      else (Inr (), w1\<lparr>dirs := dirs w @ filter (\<lambda>a. a \<notin> set (dirs w)) (remdups (d # ancestors d))\<rparr>))"

subsection \<open>The statements the layer issues\<close>

text \<open>The SQL texts, as the methods write them. The two \<^verbatim>\<open>CREATE TABLE\<close> texts are
  triple-quoted in the source and keep its line breaks and indentation.\<close>

definition sql_create_reports :: string where
  "sql_create_reports = join [CHR 0x0A]
     ['''',
      ''        CREATE TABLE IF NOT EXISTS reports ('',
      ''            id INTEGER PRIMARY KEY AUTOINCREMENT,'',
      ''            original_filename TEXT NOT NULL,'',
      ''            content TEXT,'',
      ''            source_path TEXT,'',
      ''            processed_at TIMESTAMP DEFAULT CURRENT_TIMESTAMP,'',
      ''            status TEXT DEFAULT 'pending','',
      ''            metadata TEXT,'',
      ''            analysis_json TEXT'',
      ''        );'',
      ''        '']"

definition sql_create_prompts :: string where
  "sql_create_prompts = join [CHR 0x0A]
     ['''',
      ''        CREATE TABLE IF NOT EXISTS prompt_templates ('',
      ''            id INTEGER PRIMARY KEY AUTOINCREMENT,'',
      ''            name TEXT UNIQUE NOT NULL,'',
      ''            template_text TEXT NOT NULL,'',
      ''            category TEXT,'',
      ''            created_at TIMESTAMP DEFAULT CURRENT_TIMESTAMP,'',
      ''            updated_at TIMESTAMP DEFAULT CURRENT_TIMESTAMP'',
      ''        );'',
      ''        '']"

definition sql_insert_report :: string where
  "sql_insert_report =
     ''INSERT INTO reports (original_filename, content, source_path, metadata, status) VALUES (?, ?, ?, ?, ?)''"

definition sql_select_report :: string where
  "sql_select_report =
     ''SELECT id, original_filename, content, source_path, processed_at, status, metadata, analysis_json FROM reports WHERE id = ?''"

definition sql_update_status :: string where
  "sql_update_status =
     ''UPDATE reports SET status = ?, processed_at = CURRENT_TIMESTAMP WHERE id = ?''"

definition sql_update_status_content :: string where
  "sql_update_status_content =
     ''UPDATE reports SET status = ?, content = ?, processed_at = CURRENT_TIMESTAMP WHERE id = ?''"

definition sql_update_analysis :: string where
  "sql_update_analysis =
     ''UPDATE reports SET analysis_json = ?, status = ?, processed_at = CURRENT_TIMESTAMP WHERE id = ?''"

definition sql_update_metadata :: string where
  "sql_update_metadata =
     ''UPDATE reports SET metadata = ?, processed_at = CURRENT_TIMESTAMP WHERE id = ?''"

definition sql_exists_source_path :: string where
  "sql_exists_source_path = ''SELECT 1 FROM reports WHERE source_path = ? LIMIT 1''"

definition sql_insert_prompt :: string where
  "sql_insert_prompt =
     ''INSERT INTO prompt_templates (name, template_text, category) VALUES (?, ?, ?)''"

definition sql_select_prompt :: string where
  "sql_select_prompt =
     ''SELECT id, name, template_text, category, created_at, updated_at FROM prompt_templates WHERE name = ?''"

definition sql_list_prompts :: string where
  "sql_list_prompts =
     ''SELECT id, name, category, updated_at FROM prompt_templates ORDER BY updated_at DESC LIMIT ? OFFSET ?''"

definition sql_last_insert_rowid :: string where
  "sql_last_insert_rowid = ''SELECT last_insert_rowid()''"

datatype column = Status | Content | AnalysisJson | Metadata

datatype stmt =
    CreateReports
  | CreatePrompts
  | InsertReport
  | SelectReport
  | UpdateReport "column list"
  | ExistsSourcePath
  | InsertPrompt
  | SelectPrompt
  | ListPrompts
  | LastInsertRowid

text \<open>The statements above, as SQLite compiles them. A text that is none of them has no
  entry here: it is the library's to run.\<close>

definition statements :: "(string \<times> stmt) list" where
  "statements =
     [(sql_create_reports, CreateReports),
      (sql_create_prompts, CreatePrompts),
      (sql_insert_report, InsertReport),
      (sql_select_report, SelectReport),
      (sql_update_status, UpdateReport [Status]),
      (sql_update_status_content, UpdateReport [Status, Content]),
      (sql_update_analysis, UpdateReport [AnalysisJson, Status]),
      (sql_update_metadata, UpdateReport [Metadata]),
      (sql_exists_source_path, ExistsSourcePath),
      (sql_insert_prompt, InsertPrompt),
      (sql_select_prompt, SelectPrompt),
      (sql_list_prompts, ListPrompts),
      (sql_last_insert_rowid, LastInsertRowid)]"

definition sqlite_prepare :: "string \<Rightarrow> stmt option" where
  "sqlite_prepare query = map_of statements query"

subsection \<open>Connections and cursors\<close>

text \<open>A connection works on its own copy of the store; \<^verbatim>\<open>commit\<close> writes the copy back,
  and closing the connection without a commit drops it.\<close>

record conn =
  c_path :: string
  c_store :: store
  c_last_rowid :: int
  c_library :: library

definition no_rows :: cursor where
  "no_rows = \<lparr>description = [], cur_rows = []\<rparr>"

definition fetchone :: "cursor \<Rightarrow> val list option" where
  "fetchone cur = (case cur_rows cur of [] \<Rightarrow> None | r # rs \<Rightarrow> Some r)"

definition fetchall :: "cursor \<Rightarrow> val list list" where
  "fetchall cur = cur_rows cur"

definition no_such_table :: "string \<Rightarrow> error" where
  "no_such_table t = OperationalError (''no such table: '' @ t)"

definition readonly_database :: error where
  "readonly_database = OperationalError ''attempt to write a readonly database''"

definition wrong_bindings :: error where
  "wrong_bindings = ProgrammingError ''Incorrect number of bindings supplied''"

text \<open>An \<^verbatim>\<open>AUTOINCREMENT\<close> table whose largest key is the largest 64-bit integer takes no
  further row: the insert fails with \<^verbatim>\<open>SQLITE_FULL\<close>.\<close>

definition database_full :: error where
  "database_full = OperationalError ''database or disk is full''"

text \<open>\<^verbatim>\<open>AUTOINCREMENT\<close>: one more than the largest key that is or ever was in the table.\<close>

definition next_rowid :: "int list \<Rightarrow> int \<Rightarrow> int" where
  "next_rowid ids seq = fold max ids seq + 1"

text \<open>SQL's \<open>=\<close>: a comparison with NULL is never true.\<close>

definition sql_eq :: "val \<Rightarrow> val \<Rightarrow> bool" where
  "sql_eq a b = (a \<noteq> VNone \<and> b \<noteq> VNone \<and> a = b)"

definition exec_create_reports :: "conn \<Rightarrow> val list \<Rightarrow> error + conn \<times> cursor" where
  "exec_create_reports c ps =
     (case ps of
        [] \<Rightarrow>
          (case reports (c_store c) of
             Some t \<Rightarrow> Inr (c, no_rows)
           | None \<Rightarrow>
               if \<not> writable (c_store c) then Inl readonly_database
               else Inr (c\<lparr>c_store := (c_store c)\<lparr>reports := Some \<lparr>tbl_rows = [], tbl_seq = 0\<rparr>\<rparr>\<rparr>,
                         no_rows))
      | p # qs \<Rightarrow> Inl wrong_bindings)"

definition exec_create_prompts :: "conn \<Rightarrow> val list \<Rightarrow> error + conn \<times> cursor" where
  "exec_create_prompts c ps =
     (case ps of
        [] \<Rightarrow>
          (case prompt_templates (c_store c) of
             Some t \<Rightarrow> Inr (c, no_rows)
           | None \<Rightarrow>
               if \<not> writable (c_store c) then Inl readonly_database
               else Inr (c\<lparr>c_store := (c_store c)\<lparr>prompt_templates := Some \<lparr>tbl_rows = [], tbl_seq = 0\<rparr>\<rparr>\<rparr>,
                         no_rows))
      | p # qs \<Rightarrow> Inl wrong_bindings)"

definition exec_insert_report :: "nat \<Rightarrow> conn \<Rightarrow> val list \<Rightarrow> error + conn \<times> cursor" where
  "exec_insert_report now c ps =
     (case reports (c_store c) of
        None \<Rightarrow> Inl (no_such_table ''reports'')
      | Some t \<Rightarrow>
          (case ps of
             [original_filename, content, source_path, metadata, status] \<Rightarrow>
               if \<not> list_all bindable ps then Inl OverflowError
               else if \<not> writable (c_store c) then Inl readonly_database
               else if \<not> int64 (next_rowid (map r_id (tbl_rows t)) (tbl_seq t))
               then Inl database_full
               else if original_filename = VNone
               then Inl (IntegrityError ''NOT NULL constraint failed: reports.original_filename'')
               else
                 (let i = next_rowid (map r_id (tbl_rows t)) (tbl_seq t);
                      row = \<lparr>r_key = word_of_int i, r_original_filename = original_filename,
                             r_content = content, r_source_path = source_path,
                             r_processed_at = now, r_status = status,
                             r_metadata = metadata, r_analysis_json = VNone\<rparr>
                  in Inr (c\<lparr>c_store := (c_store c)\<lparr>reports :=
                                 Some \<lparr>tbl_rows = tbl_rows t @ [row], tbl_seq = i\<rparr>\<rparr>,
                            c_last_rowid := i\<rparr>,
                          no_rows))
           | _ \<Rightarrow> Inl wrong_bindings))"

definition report_columns :: "string list" where
  "report_columns = [''id'', ''original_filename'', ''content'', ''source_path'',
                     ''processed_at'', ''status'', ''metadata'', ''analysis_json'']"

definition report_values :: "report \<Rightarrow> val list" where
  "report_values r = [VInt (r_id r), r_original_filename r, r_content r, r_source_path r,
                      VTime (r_processed_at r), r_status r, r_metadata r, r_analysis_json r]"

definition exec_select_report :: "conn \<Rightarrow> val list \<Rightarrow> error + conn \<times> cursor" where
  "exec_select_report c ps =
     (case reports (c_store c) of
        None \<Rightarrow> Inl (no_such_table ''reports'')
      | Some t \<Rightarrow>
          (case ps of
             [report_id] \<Rightarrow>
               if \<not> list_all bindable ps then Inl OverflowError
               else
               Inr (c, \<lparr>description = report_columns,
                        cur_rows = map report_values
                                     (filter (\<lambda>r. VInt (r_id r) = report_id) (tbl_rows t))\<rparr>)
           | _ \<Rightarrow> Inl wrong_bindings))"

fun assign :: "column \<Rightarrow> val \<Rightarrow> report \<Rightarrow> report" where
  "assign Status v r = r\<lparr>r_status := v\<rparr>"
| "assign Content v r = r\<lparr>r_content := v\<rparr>"
| "assign AnalysisJson v r = r\<lparr>r_analysis_json := v\<rparr>"
| "assign Metadata v r = r\<lparr>r_metadata := v\<rparr>"

text \<open>\<^verbatim>\<open>UPDATE reports SET c1 = ?, ..., processed_at = CURRENT_TIMESTAMP WHERE id = ?\<close>: the
  last parameter is the key, the others are the new values, in the order of the columns.\<close>

definition update_row :: "nat \<Rightarrow> column list \<Rightarrow> val list \<Rightarrow> report \<Rightarrow> report" where
  "update_row now cols ps r =
     (if VInt (r_id r) = last ps
      then (fold (\<lambda>(col, v). assign col v) (zip cols ps) r)\<lparr>r_processed_at := now\<rparr>
      else r)"

definition exec_update_report ::
  "nat \<Rightarrow> conn \<Rightarrow> column list \<Rightarrow> val list \<Rightarrow> error + conn \<times> cursor" where
  "exec_update_report now c cols ps =
     (case reports (c_store c) of
        None \<Rightarrow> Inl (no_such_table ''reports'')
      | Some t \<Rightarrow>
          if length ps \<noteq> length cols + 1 then Inl wrong_bindings
          else if \<not> list_all bindable ps then Inl OverflowError
          else if \<not> writable (c_store c) then Inl readonly_database
          else Inr (c\<lparr>c_store := (c_store c)\<lparr>reports :=
                         Some (t\<lparr>tbl_rows := map (update_row now cols ps) (tbl_rows t)\<rparr>)\<rparr>\<rparr>,
                    no_rows))"

definition exec_exists_source_path :: "conn \<Rightarrow> val list \<Rightarrow> error + conn \<times> cursor" where
  "exec_exists_source_path c ps =
     (case reports (c_store c) of
        None \<Rightarrow> Inl (no_such_table ''reports'')
      | Some t \<Rightarrow>
          (case ps of
             [source_path] \<Rightarrow>
               if \<not> list_all bindable ps then Inl OverflowError
               else
               Inr (c, \<lparr>description = [''1''],
                        cur_rows = take 1 (map (\<lambda>r. [VInt 1])
                                     (filter (\<lambda>r. sql_eq (r_source_path r) source_path)
                                        (tbl_rows t)))\<rparr>)
           | _ \<Rightarrow> Inl wrong_bindings))"

definition exec_insert_prompt :: "nat \<Rightarrow> conn \<Rightarrow> val list \<Rightarrow> error + conn \<times> cursor" where
  "exec_insert_prompt now c ps =
     (case prompt_templates (c_store c) of
        None \<Rightarrow> Inl (no_such_table ''prompt_templates'')
      | Some t \<Rightarrow>
          (case ps of
             [name, template_text, category] \<Rightarrow>
               if \<not> list_all bindable ps then Inl OverflowError
               else if \<not> writable (c_store c) then Inl readonly_database
               else if \<not> int64 (next_rowid (map p_id (tbl_rows t)) (tbl_seq t))
               then Inl database_full
               else if name = VNone
               then Inl (IntegrityError ''NOT NULL constraint failed: prompt_templates.name'')
               else if template_text = VNone
               then Inl (IntegrityError ''NOT NULL constraint failed: prompt_templates.template_text'')
               else if name \<in> set (map p_name (tbl_rows t))
               then Inl (IntegrityError ''UNIQUE constraint failed: prompt_templates.name'')
               else
                 (let i = next_rowid (map p_id (tbl_rows t)) (tbl_seq t);
                      row = \<lparr>p_key = word_of_int i, p_name = name, p_template_text = template_text,
                             p_category = category, p_created_at = now, p_updated_at = now\<rparr>
                  in Inr (c\<lparr>c_store := (c_store c)\<lparr>prompt_templates :=
                                 Some \<lparr>tbl_rows = tbl_rows t @ [row], tbl_seq = i\<rparr>\<rparr>,
                            c_last_rowid := i\<rparr>,
                          no_rows))
           | _ \<Rightarrow> Inl wrong_bindings))"

definition prompt_columns :: "string list" where
  "prompt_columns = [''id'', ''name'', ''template_text'', ''category'', ''created_at'', ''updated_at'']"

definition prompt_values :: "prompt_template \<Rightarrow> val list" where
  "prompt_values r = [VInt (p_id r), p_name r, p_template_text r, p_category r,
                      VTime (p_created_at r), VTime (p_updated_at r)]"

definition exec_select_prompt :: "conn \<Rightarrow> val list \<Rightarrow> error + conn \<times> cursor" where
  "exec_select_prompt c ps =
     (case prompt_templates (c_store c) of
        None \<Rightarrow> Inl (no_such_table ''prompt_templates'')
      | Some t \<Rightarrow>
          (case ps of
             [name] \<Rightarrow>
               if \<not> list_all bindable ps then Inl OverflowError
               else
               Inr (c, \<lparr>description = prompt_columns,
                        cur_rows = map prompt_values
                                     (filter (\<lambda>r. sql_eq (p_name r) name) (tbl_rows t))\<rparr>)
           | _ \<Rightarrow> Inl wrong_bindings))"

text \<open>
  \<^verbatim>\<open>ORDER BY updated_at DESC\<close>: SQL leaves the order of rows with equal timestamps open;
  the model keeps them in insertion order (a stable sort), so that the same table always
  lists in the same order. A negative \<^verbatim>\<open>LIMIT\<close> is no limit, a negative \<^verbatim>\<open>OFFSET\<close> is 0.
\<close>

definition order_by_updated_desc :: "prompt_template list \<Rightarrow> prompt_template list" where
  "order_by_updated_desc rs = sort_key (\<lambda>r. - int (p_updated_at r)) rs"

definition limit_offset :: "int \<Rightarrow> int \<Rightarrow> 'a list \<Rightarrow> 'a list" where
  "limit_offset l off xs = (if l < 0 then drop (nat off) xs else take (nat l) (drop (nat off) xs))"

definition listing_columns :: "string list" where
  "listing_columns = [''id'', ''name'', ''category'', ''updated_at'']"

definition listing_values :: "prompt_template \<Rightarrow> val list" where
  "listing_values r = [VInt (p_id r), p_name r, p_category r, VTime (p_updated_at r)]"

definition exec_list_prompts :: "conn \<Rightarrow> val list \<Rightarrow> error + conn \<times> cursor" where
  "exec_list_prompts c ps =
     (case prompt_templates (c_store c) of
        None \<Rightarrow> Inl (no_such_table ''prompt_templates'')
      | Some t \<Rightarrow>
          (case ps of
             [VInt l, VInt off] \<Rightarrow>
               if \<not> list_all bindable ps then Inl OverflowError
               else
               Inr (c, \<lparr>description = listing_columns,
                        cur_rows = map listing_values
                                     (limit_offset l off (order_by_updated_desc (tbl_rows t)))\<rparr>)
           | [l, off] \<Rightarrow>
               if \<not> list_all bindable ps then Inl OverflowError
               else Inl (IntegrityError ''datatype mismatch'')
           | _ \<Rightarrow> Inl wrong_bindings))"

definition exec_last_insert_rowid :: "conn \<Rightarrow> val list \<Rightarrow> error + conn \<times> cursor" where
  "exec_last_insert_rowid c ps =
     (case ps of
        [] \<Rightarrow> Inr (c, \<lparr>description = [''last_insert_rowid()''],
                       cur_rows = [[VInt (c_last_rowid c)]]\<rparr>)
      | p # qs \<Rightarrow> Inl wrong_bindings)"

fun run_stmt :: "nat \<Rightarrow> conn \<Rightarrow> stmt \<Rightarrow> val list \<Rightarrow> error + conn \<times> cursor" where
  "run_stmt now c CreateReports ps = exec_create_reports c ps"
| "run_stmt now c CreatePrompts ps = exec_create_prompts c ps"
| "run_stmt now c InsertReport ps = exec_insert_report now c ps"
| "run_stmt now c SelectReport ps = exec_select_report c ps"
| "run_stmt now c (UpdateReport cols) ps = exec_update_report now c cols ps"
| "run_stmt now c ExistsSourcePath ps = exec_exists_source_path c ps"
| "run_stmt now c InsertPrompt ps = exec_insert_prompt now c ps"
| "run_stmt now c SelectPrompt ps = exec_select_prompt c ps"
| "run_stmt now c ListPrompts ps = exec_list_prompts c ps"
| "run_stmt now c LastInsertRowid ps = exec_last_insert_rowid c ps"

definition sqlite_execute :: "nat \<Rightarrow> conn \<Rightarrow> string \<Rightarrow> val list \<Rightarrow> error + conn \<times> cursor" where
  "sqlite_execute now c query params =
     (case sqlite_prepare query of
        Some s \<Rightarrow> run_stmt now c s params
      | None \<Rightarrow>
          (case lib_execute (c_library c) now (c_store c) (c_last_rowid c) query params of
             Inl e \<Rightarrow> Inl e
           | Inr (st, rowid, cur) \<Rightarrow> Inr (c\<lparr>c_store := st, c_last_rowid := rowid\<rparr>, cur)))"

text \<open>A statement that defines a table is not part of a transaction under Python's
  \<^verbatim>\<open>sqlite3\<close>: it reaches the file at once. The inserts and updates of the module wait
  for the commit, and its selects change nothing.\<close>

definition autocommitted :: "library \<Rightarrow> string \<Rightarrow> bool" where
  "autocommitted lib query =
     (case sqlite_prepare query of
        Some s \<Rightarrow> s = CreateReports \<or> s = CreatePrompts
      | None \<Rightarrow> lib_autocommit lib query)"

text \<open>
  \<^verbatim>\<open>aiosqlite.connect(p)\<close>: fails where the directory of \<open>p\<close> does not exist (a path with
  no directory part lies in the working directory, which exists), and creates the file,
  empty, where there is none.
\<close>

definition connect :: "world \<Rightarrow> string \<Rightarrow> (error + conn) \<times> world" where
  "connect w p =
     (let d = posix_dirname p; w1 = emit w (Connect p) in
      if d \<noteq> [] \<and> \<not> path_exists w d
      then (Inl (OperationalError ''unable to open database file''), w1)
      else
        (case files w p of
           None \<Rightarrow> (Inr \<lparr>c_path = p, c_store = empty_store, c_last_rowid = 0,
                           c_library = sqlite3 w\<rparr>,
                     w1\<lparr>files := (files w)(p \<mapsto> empty_store)\<rparr>)
         | Some st \<Rightarrow> (Inr \<lparr>c_path = p, c_store = st, c_last_rowid = 0,
                              c_library = sqlite3 w\<rparr>, w1)))"

definition db_execute ::
  "world \<Rightarrow> conn \<Rightarrow> string \<Rightarrow> val list \<Rightarrow> (error + conn \<times> cursor) \<times> world" where
  "db_execute w c query params =
     (let w1 = emit w (Execute (c_path c) query) in
      case sqlite_execute (clock w) c query params of
        Inl e \<Rightarrow> (Inl e, w1)
      | Inr (c1, cur) \<Rightarrow>
          (Inr (c1, cur),
           if autocommitted (c_library c) query
           then w1\<lparr>files := (files w)(c_path c \<mapsto> c_store c1)\<rparr> else w1))"

definition db_commit :: "world \<Rightarrow> conn \<Rightarrow> world" where
  "db_commit w c = (emit w (Commit (c_path c)))\<lparr>files := (files w)(c_path c \<mapsto> c_store c)\<rparr>"

definition db_close :: "world \<Rightarrow> conn \<Rightarrow> world" where
  "db_close w c = emit w (Close (c_path c))"

subsection \<open>The query executor: \<^verbatim>\<open>_execute_query\<close>\<close>

text \<open>Lines 56 to 63: the directory of the store is created where it is missing, and a
  failure to create it is logged and raised again.\<close>

definition provision_directory :: "world \<Rightarrow> string \<Rightarrow> (error + unit) \<times> world" where
  "provision_directory w db_path =
     (let db_dir = posix_dirname db_path in
      if db_dir \<noteq> [] \<and> \<not> path_exists w db_dir then
        (case makedirs w db_dir of
           (Inr u, w1) \<Rightarrow>
             (Inr (), emit w1 (Log INFO ''_execute_query''
                                [(''db_path'', db_path), (''action'', ''create_directory'')]))
         | (Inl e_mkdir, w1) \<Rightarrow>
             (Inl e_mkdir, emit w1 (Log ERROR ''_execute_query''
                                     [(''db_path'', db_path), (''error'', error_str e_mkdir)])))
      else (Inr (), w))"

definition is_insert :: "string \<Rightarrow> bool" where
  "is_insert query = startswith (upper (strip query)) ''INSERT''"

text \<open>\<^verbatim>\<open>last_id_row[0] if last_id_row else None\<close>\<close>

definition first_column :: "val list option \<Rightarrow> val" where
  "first_column row = (case row of None \<Rightarrow> VNone | Some [] \<Rightarrow> VNone | Some (x # xs) \<Rightarrow> x)"

text \<open>Lines 66 to 86, the body of the \<^verbatim>\<open>try\<close>: the connection is a context manager, so
  it is closed on every way out.\<close>

definition run_query ::
  "world \<Rightarrow> string \<Rightarrow> string \<Rightarrow> val list \<Rightarrow> bool \<Rightarrow> bool \<Rightarrow> bool \<Rightarrow> (error + result) \<times> world" where
  "run_query w db_path query params fetch_one fetch_all commit =
     (case connect w db_path of
        (Inl e, w1) \<Rightarrow> (Inl e, w1)
      | (Inr db, w1) \<Rightarrow>
          (case db_execute w1 db query params of
             (Inl e, w2) \<Rightarrow> (Inl e, db_close w2 db)
           | (Inr (db1, cursor), w2) \<Rightarrow>
               if commit then
                 (let w3 = db_commit w2 db1 in
                  if is_insert query then
                    (case db_execute w3 db1 sql_last_insert_rowid [] of
                       (Inl e, w4) \<Rightarrow> (Inl e, db_close w4 db1)
                     | (Inr (db2, id_cursor), w4) \<Rightarrow>
                         (Inr (Scalar (first_column (fetchone id_cursor))), db_close w4 db2))
                  else (Inr (Scalar VNone), db_close w3 db1))
               else if fetch_one then
                 (Inr (case fetchone cursor of None \<Rightarrow> Scalar VNone | Some r \<Rightarrow> Row r),
                  db_close w2 db1)
               else if fetch_all then (Inr (Rows (fetchall cursor)), db_close w2 db1)
               else (Inr (Scalar VNone), db_close w2 db1)))"

text \<open>The whole method: provisioning, then the body under its \<^verbatim>\<open>except Exception\<close>
  (lines 87 to 94), which logs the store path and the first 100 characters of the
  statement and raises the error again.\<close>

definition execute_query ::
  "world \<Rightarrow> string \<Rightarrow> string \<Rightarrow> val list \<Rightarrow> bool \<Rightarrow> bool \<Rightarrow> bool \<Rightarrow> (error + result) \<times> world" where
  "execute_query w db_path query params fetch_one fetch_all commit =
     (case provision_directory w db_path of
        (Inl e, w1) \<Rightarrow> (Inl e, w1)
      | (Inr u, w1) \<Rightarrow>
          (case run_query w1 db_path query params fetch_one fetch_all commit of
             (Inr r, w2) \<Rightarrow> (Inr r, w2)
           | (Inl e_query, w2) \<Rightarrow>
               (Inl e_query,
                emit w2 (Log ERROR ''_execute_query''
                          [(''db_path'', db_path), (''query_snippet'', take 100 query),
                           (''error'', error_str e_query)]))))"

subsection \<open>JSON and Python dictionaries\<close>

text \<open>
  The metadata of a report is a Python dictionary with text keys, stored as JSON text.
  A dictionary is an association list in insertion order.
\<close>

datatype json =
    JNull
  | JBool bool
  | JInt int
  | JStr string
  | JList "json list"
  | JDict "(string \<times> json) list"

text \<open>
  \<^verbatim>\<open>json.dumps(_, ensure_ascii=False)\<close> and \<^verbatim>\<open>json.loads\<close> belong to Python's library.
  The methods take them as a parameter; \<open>loads\<close> yields \<open>None\<close> where \<^verbatim>\<open>json.loads\<close>
  raises \<^verbatim>\<open>JSONDecodeError\<close>.
\<close>

record json_codec =
  dumps :: "json \<Rightarrow> string"
  loads :: "string \<Rightarrow> json option"

text \<open>\<^verbatim>\<open>d[k] = v\<close> and \<^verbatim>\<open>d.update(u)\<close>: a key that is present keeps its place and takes
  the new value, a new key goes to the end.\<close>

fun dict_setitem :: "('k \<times> 'v) list \<Rightarrow> 'k \<Rightarrow> 'v \<Rightarrow> ('k \<times> 'v) list" where
  "dict_setitem [] k v = [(k, v)]"
| "dict_setitem ((k', v') # d) k v =
     (if k' = k then (k, v) # d else (k', v') # dict_setitem d k v)"

definition dict_update :: "('k \<times> 'v) list \<Rightarrow> ('k \<times> 'v) list \<Rightarrow> ('k \<times> 'v) list" where
  "dict_update d u = fold (\<lambda>(k, v) acc. dict_setitem acc k v) u d"

text \<open>\<^verbatim>\<open>d.get(k)\<close>\<close>

definition dict_get :: "(string \<times> val) list \<Rightarrow> string \<Rightarrow> val" where
  "dict_get d k = (case map_of d k of None \<Rightarrow> VNone | Some v \<Rightarrow> v)"

text \<open>Python's truth value of a scalar.\<close>

fun truthy :: "val \<Rightarrow> bool" where
  "truthy VNone = False"
| "truthy (VInt n) = (n \<noteq> 0)"
| "truthy (VStr s) = (s \<noteq> [])"
| "truthy (VTime t) = True"

text \<open>\<^verbatim>\<open>json.loads(v)\<close> on a value read from a column: a text is parsed, a timestamp text
  is no JSON, and a value that is no text at all is a \<^verbatim>\<open>TypeError\<close>.\<close>

definition json_loads :: "json_codec \<Rightarrow> val \<Rightarrow> error + json" where
  "json_loads js v =
     (case v of
        VStr s \<Rightarrow> (case loads js s of None \<Rightarrow> Inl JSONDecodeError | Some j \<Rightarrow> Inr j)
      | VTime t \<Rightarrow> Inl JSONDecodeError
      | _ \<Rightarrow> Inl TypeError)"

subsection \<open>The repositories\<close>

record dal =
  reports_db_path :: string
  prompts_db_path :: string

definition opt_str :: "string option \<Rightarrow> val" where
  "opt_str s = (case s of None \<Rightarrow> VNone | Some t \<Rightarrow> VStr t)"

definition create_reports_table :: "dal \<Rightarrow> world \<Rightarrow> (error + unit) \<times> world" where
  "create_reports_table self w =
     (let query = sql_create_reports in
      case execute_query w (reports_db_path self) query [] False False True of
        (Inl e, w1) \<Rightarrow> (Inl e, w1)
      | (Inr r, w1) \<Rightarrow>
          (Inr (), emit w1 (Log INFO ''_create_reports_table''
                             [(''db_table'', ''reports''), (''db_path'', reports_db_path self)])))"

definition create_prompts_table :: "dal \<Rightarrow> world \<Rightarrow> (error + unit) \<times> world" where
  "create_prompts_table self w =
     (let query = sql_create_prompts in
      case execute_query w (prompts_db_path self) query [] False False True of
        (Inl e, w1) \<Rightarrow> (Inl e, w1)
      | (Inr r, w1) \<Rightarrow>
          (Inr (), emit w1 (Log INFO ''_create_prompts_table''
                             [(''db_table'', ''prompt_templates''),
                              (''db_path'', prompts_db_path self)])))"

definition initialize_databases :: "dal \<Rightarrow> world \<Rightarrow> (error + unit) \<times> world" where
  "initialize_databases self w =
     (case create_reports_table self w of
        (Inl e, w1) \<Rightarrow> (Inl e, w1)
      | (Inr u, w1) \<Rightarrow>
          (case create_prompts_table self w1 of
             (Inl e, w2) \<Rightarrow> (Inl e, w2)
           | (Inr u', w2) \<Rightarrow>
               (Inr (), emit w2 (Log INFO ''initialize_databases''
                                  [(''operation'', ''initialize_databases''),
                                   (''status'', ''completed'')]))))"

text \<open>\<^verbatim>\<open>json.dumps(metadata, ensure_ascii=False) if metadata else None\<close>: a dictionary is
  true when it has an entry.\<close>

definition metadata_text :: "json_codec \<Rightarrow> (string \<times> json) list option \<Rightarrow> val" where
  "metadata_text js metadata =
     (case metadata of
        None \<Rightarrow> VNone
      | Some [] \<Rightarrow> VNone
      | Some (kv # kvs) \<Rightarrow> VStr (dumps js (JDict (kv # kvs))))"

definition insert_report_data ::
  "json_codec \<Rightarrow> dal \<Rightarrow> world \<Rightarrow> string \<Rightarrow> string option \<Rightarrow> string \<Rightarrow>
   (string \<times> json) list option \<Rightarrow> string \<Rightarrow> (error + result) \<times> world" where
  "insert_report_data js self w original_filename content source_path metadata status =
     (let metadata_str = metadata_text js metadata;
          query = sql_insert_report;
          log_props = [(''original_filename'', original_filename), (''source_path'', source_path),
                       (''status'', status), (''operation'', ''insert_report'')]
      in case execute_query w (reports_db_path self) query
                [VStr original_filename, opt_str content, VStr source_path, metadata_str,
                 VStr status]
                False False True of
           (Inr last_row_id, w1) \<Rightarrow>
             (Inr last_row_id,
              emit w1 (Log INFO ''insert_report_data''
                        (log_props @ [(''db_operation_status'', ''success'')])))
         | (Inl e, w1) \<Rightarrow>
             (Inr (Scalar VNone),
              emit w1 (Log ERROR ''insert_report_data''
                        (log_props @ [(''db_operation_status'', ''failure''),
                                      (''error_message'', error_str e)]))))"

text \<open>
  The three read methods below open their connection themselves, with
  \<^verbatim>\<open>row_factory = aiosqlite.Row\<close>, and do not call \<^verbatim>\<open>_execute_query\<close>:
  \<^verbatim>\<open>async with aiosqlite.connect(path) as db: cursor = await db.execute(query, params)\<close>,
  the rows fetched before the connection is closed.
\<close>

definition connect_and_execute ::
  "world \<Rightarrow> string \<Rightarrow> string \<Rightarrow> val list \<Rightarrow> (error + cursor) \<times> world" where
  "connect_and_execute w db_path query params =
     (case connect w db_path of
        (Inl e, w1) \<Rightarrow> (Inl e, w1)
      | (Inr db, w1) \<Rightarrow>
          (case db_execute w1 db query params of
             (Inl e, w2) \<Rightarrow> (Inl e, db_close w2 db)
           | (Inr (db1, cursor), w2) \<Rightarrow> (Inr cursor, db_close w2 db1)))"

text \<open>\<^verbatim>\<open>dict(row)\<close> of an \<^verbatim>\<open>aiosqlite.Row\<close>: the column names with the values.\<close>

definition row_dict :: "cursor \<Rightarrow> val list \<Rightarrow> (string \<times> val) list" where
  "row_dict cur row = zip (description cur) row"

definition get_report_by_id ::
  "dal \<Rightarrow> world \<Rightarrow> int \<Rightarrow> (error + (string \<times> val) list option) \<times> world" where
  "get_report_by_id self w report_id =
     (let query = sql_select_report in
      case connect_and_execute w (reports_db_path self) query [VInt report_id] of
        (Inr cursor, w1) \<Rightarrow>
          (case fetchone cursor of
             None \<Rightarrow> (Inr None, w1)
           | Some row \<Rightarrow> if row \<noteq> [] then (Inr (Some (row_dict cursor row)), w1) else (Inr None, w1))
      | (Inl e, w1) \<Rightarrow>
          (Inr None,
           emit w1 (Log ERROR ''get_report_by_id''
                     [(''operation'', ''get_report_by_id''), (''error'', error_str e)])))"

definition update_report_status ::
  "dal \<Rightarrow> world \<Rightarrow> int \<Rightarrow> string \<Rightarrow> string option \<Rightarrow> (error + bool) \<times> world" where
  "update_report_status self w report_id status processed_content =
     (let fields_to_update =
            (case processed_content of
               None \<Rightarrow> [(''status'', VStr status)]
             | Some c \<Rightarrow> dict_setitem [(''status'', VStr status)] ''content'' (VStr c));
          query_set_parts = map (\<lambda>field. field @ '' = ?'') (map fst fields_to_update);
          query_params = map snd fields_to_update @ [VInt report_id];
          query = ''UPDATE reports SET '' @ join '', '' query_set_parts
                    @ '', processed_at = CURRENT_TIMESTAMP WHERE id = ?'';
          log_props = [(''new_status'', status), (''operation'', ''update_report_status'')]
      in case execute_query w (reports_db_path self) query query_params False False True of
           (Inr r, w1) \<Rightarrow>
             (Inr True,
              emit w1 (Log INFO ''update_report_status''
                        (log_props @ [(''db_operation_status'', ''success'')])))
         | (Inl e, w1) \<Rightarrow>
             (Inr False,
              emit w1 (Log ERROR ''update_report_status''
                        (log_props @ [(''db_operation_status'', ''failure''),
                                      (''error_message'', error_str e)]))))"

definition update_report_analysis ::
  "dal \<Rightarrow> world \<Rightarrow> int \<Rightarrow> string \<Rightarrow> string \<Rightarrow> (error + bool) \<times> world" where
  "update_report_analysis self w report_id analysis_data status =
     (let query = sql_update_analysis;
          log_props = [(''new_status'', status), (''operation'', ''update_report_analysis'')]
      in case execute_query w (reports_db_path self) query
                [VStr analysis_data, VStr status, VInt report_id] False False True of
           (Inr r, w1) \<Rightarrow>
             (Inr True,
              emit w1 (Log INFO ''update_report_analysis''
                        (log_props @ [(''db_operation_status'', ''success'')])))
         | (Inl e, w1) \<Rightarrow>
             (Inr False,
              emit w1 (Log ERROR ''update_report_analysis''
                        (log_props @ [(''db_operation_status'', ''failure''),
                                      (''error_message'', error_str e)]))))"

text \<open>Lines 287 to 290: the stored text is parsed unless it is false (NULL or empty), the
  update is merged over it, and the result is written as text again. A parsed value that
  is no dictionary has no \<^verbatim>\<open>update\<close> method.\<close>

definition merged_metadata ::
  "json_codec \<Rightarrow> val \<Rightarrow> (string \<times> json) list \<Rightarrow> error + string" where
  "merged_metadata js current_metadata_str metadata_update =
     (case (if truthy current_metadata_str then json_loads js current_metadata_str
            else Inr (JDict [])) of
        Inl e \<Rightarrow> Inl e
      | Inr (JDict current_metadata) \<Rightarrow>
          Inr (dumps js (JDict (dict_update current_metadata metadata_update)))
      | Inr _ \<Rightarrow> Inl AttributeError)"

definition update_report_metadata ::
  "json_codec \<Rightarrow> dal \<Rightarrow> world \<Rightarrow> int \<Rightarrow> (string \<times> json) list \<Rightarrow> (error + bool) \<times> world" where
  "update_report_metadata js self w report_id metadata_update =
     (let log_props = [(''operation'', ''update_report_metadata'')] in
      case get_report_by_id self w report_id of
        (Inl e, w1) \<Rightarrow> (Inl e, w1)
      | (Inr None, w1) \<Rightarrow>
          (Inr False,
           emit w1 (Log ERROR ''update_report_metadata''
                     (log_props @ [(''error'', ''report_not_found'')])))
      | (Inr (Some current_report), w1) \<Rightarrow>
          if current_report = [] then
            (Inr False,
             emit w1 (Log ERROR ''update_report_metadata''
                       (log_props @ [(''error'', ''report_not_found'')])))
          else
            (case (case merged_metadata js (dict_get current_report ''metadata'')
                          metadata_update of
                     Inl e \<Rightarrow> (Inl e, w1)
                   | Inr new_metadata_str \<Rightarrow>
                       execute_query w1 (reports_db_path self) sql_update_metadata
                         [VStr new_metadata_str, VInt report_id] False False True) of
               (Inr r, w2) \<Rightarrow>
                 (Inr True,
                  emit w2 (Log INFO ''update_report_metadata''
                            (log_props @ [(''db_operation_status'', ''success'')])))
             | (Inl e, w2) \<Rightarrow>
                 if e = JSONDecodeError then
                   (Inr False,
                    emit w2 (Log ERROR ''update_report_metadata''
                              (log_props @ [(''error'', ''json_decode_error''),
                                            (''error_message'', error_str e)])))
                 else
                   (Inr False,
                    emit w2 (Log ERROR ''update_report_metadata''
                              (log_props @ [(''db_operation_status'', ''failure''),
                                            (''error_message'', error_str e)])))))"

definition check_report_exists_by_source_path ::
  "dal \<Rightarrow> world \<Rightarrow> string \<Rightarrow> (error + bool) \<times> world" where
  "check_report_exists_by_source_path self w source_path =
     (let query = sql_exists_source_path in
      case execute_query w (reports_db_path self) query [VStr source_path] True False False of
        (Inr r, w1) \<Rightarrow> (Inr (r \<noteq> Scalar VNone), w1)
      | (Inl e, w1) \<Rightarrow>
          (Inr False,
           emit w1 (Log ERROR ''check_report_exists_by_source_path''
                     [(''source_path'', source_path), (''operation'', ''check_report_exists''),
                      (''error'', error_str e)])))"

definition insert_prompt_template ::
  "dal \<Rightarrow> world \<Rightarrow> string \<Rightarrow> string \<Rightarrow> string option \<Rightarrow> (error + result) \<times> world" where
  "insert_prompt_template self w name template_text category =
     (let query = sql_insert_prompt;
          log_props = [(''prompt_name'', name), (''operation'', ''insert_prompt_template'')]
      in case execute_query w (prompts_db_path self) query
                [VStr name, VStr template_text, opt_str category] False False True of
           (Inr last_row_id, w1) \<Rightarrow>
             (Inr last_row_id,
              emit w1 (Log INFO ''insert_prompt_template''
                        (log_props @ [(''db_operation_status'', ''success'')])))
         | (Inl e, w1) \<Rightarrow>
             (Inr (Scalar VNone),
              emit w1 (Log ERROR ''insert_prompt_template''
                        (log_props @ [(''db_operation_status'', ''failure''),
                                      (''error_message'', error_str e)]))))"

definition get_prompt_template_by_name ::
  "dal \<Rightarrow> world \<Rightarrow> string \<Rightarrow> (error + (string \<times> val) list option) \<times> world" where
  "get_prompt_template_by_name self w name =
     (let query = sql_select_prompt in
      case connect_and_execute w (prompts_db_path self) query [VStr name] of
        (Inr cursor, w1) \<Rightarrow>
          (case fetchone cursor of
             None \<Rightarrow> (Inr None, w1)
           | Some row \<Rightarrow> if row \<noteq> [] then (Inr (Some (row_dict cursor row)), w1) else (Inr None, w1))
      | (Inl e, w1) \<Rightarrow>
          (Inr None,
           emit w1 (Log ERROR ''get_prompt_template_by_name''
                     [(''prompt_name'', name), (''operation'', ''get_prompt_by_name''),
                      (''error'', error_str e)])))"

definition get_all_prompt_templates ::
  "dal \<Rightarrow> world \<Rightarrow> int \<Rightarrow> int \<Rightarrow> (error + (string \<times> val) list list) \<times> world" where
  "get_all_prompt_templates self w limit offset =
     (let query = sql_list_prompts in
      case connect_and_execute w (prompts_db_path self) query [VInt limit, VInt offset] of
        (Inr cursor, w1) \<Rightarrow>
          (let rows = fetchall cursor in
           if rows \<noteq> [] then (Inr (map (row_dict cursor) rows), w1) else (Inr [], w1))
      | (Inl e, w1) \<Rightarrow>
          (Inr [],
           emit w1 (Log ERROR ''get_all_prompt_templates''
                     [(''operation'', ''get_all_prompts''), (''error'', error_str e)])))"

subsection \<open>A reference codec\<close>

text \<open>
  A small executable codec in Python's output format (\<^verbatim>\<open>", "\<close> and \<^verbatim>\<open>": "\<close> as
  separators), for the JSON texts of the examples: integers, strings with the short
  escapes, lists and dictionaries. It instantiates the codec parameter where a statement
  is evaluated on a concrete text; the general statements hold for every codec.
\<close>

fun show_nat :: "nat \<Rightarrow> string" where
  "show_nat n =
     (if n < 10 then [''0123456789'' ! n] else show_nat (n div 10) @ [''0123456789'' ! (n mod 10)])"

declare show_nat.simps [simp del]

definition show_int :: "int \<Rightarrow> string" where
  "show_int i = (if i < 0 then CHR ''-'' # show_nat (nat (- i)) else show_nat (nat i))"

definition escapes :: "(char \<times> char) list" where
  "escapes = [(CHR 0x22, CHR 0x22), (CHR 0x5C, CHR 0x5C), (CHR 0x0A, CHR ''n''),
              (CHR 0x0D, CHR ''r''), (CHR 0x09, CHR ''t''), (CHR 0x08, CHR ''b''),
              (CHR 0x0C, CHR ''f'')]"

definition quote :: "string \<Rightarrow> string" where
  "quote s =
     CHR 0x22 # concat (map (\<lambda>c. case map_of escapes c of None \<Rightarrow> [c] | Some e \<Rightarrow> [CHR 0x5C, e]) s)
     @ [CHR 0x22]"

fun mini_dumps :: "json \<Rightarrow> string" where
  "mini_dumps JNull = ''null''"
| "mini_dumps (JBool b) = (if b then ''true'' else ''false'')"
| "mini_dumps (JInt i) = show_int i"
| "mini_dumps (JStr s) = quote s"
| "mini_dumps (JList xs) = ''['' @ join '', '' (map mini_dumps xs) @ '']''"
| "mini_dumps (JDict kvs) =
     ''{'' @ join '', '' (map (\<lambda>kv. quote (fst kv) @ '': '' @ mini_dumps (snd kv)) kvs) @ ''}''"

definition skip_ws :: "string \<Rightarrow> string" where
  "skip_ws s = dropWhile (\<lambda>c. c \<in> set [CHR 0x20, CHR 0x09, CHR 0x0A, CHR 0x0D]) s"

fun parse_string :: "string \<Rightarrow> string \<Rightarrow> (string \<times> string) option" where
  "parse_string acc [] = None"
| "parse_string acc (c # cs) =
     (if c = CHR 0x22 then Some (rev acc, cs)
      else if c = CHR 0x5C then
        (case cs of
           [] \<Rightarrow> None
         | e # es \<Rightarrow>
             (case map_of (map (\<lambda>(a, b). (b, a)) escapes) e of
                None \<Rightarrow> None
              | Some a \<Rightarrow> parse_string (a # acc) es))
      else parse_string (c # acc) cs)"

definition digit_val :: "char \<Rightarrow> nat option" where
  "digit_val c = map_of (zip ''0123456789'' [0 ..< 10]) c"

fun parse_digits :: "nat \<Rightarrow> string \<Rightarrow> nat \<times> string" where
  "parse_digits acc [] = (acc, [])"
| "parse_digits acc (c # cs) =
     (case digit_val c of None \<Rightarrow> (acc, c # cs) | Some d \<Rightarrow> parse_digits (10 * acc + d) cs)"

text \<open>An integer literal: no leading zero, no fraction and no exponent.\<close>

definition parse_nat :: "string \<Rightarrow> (nat \<times> string) option" where
  "parse_nat s =
     (case s of
        [] \<Rightarrow> None
      | c # cs \<Rightarrow>
          (case digit_val c of
             None \<Rightarrow> None
           | Some d \<Rightarrow>
               (let (n, rest) = (if d = 0 then (0, cs) else parse_digits d cs) in
                case rest of
                  [] \<Rightarrow> Some (n, rest)
                | r # rs \<Rightarrow>
                    if r \<in> set ''.eE0123456789'' then None else Some (n, rest))))"

fun parse_value :: "nat \<Rightarrow> string \<Rightarrow> (json \<times> string) option"
  and parse_elems :: "nat \<Rightarrow> json list \<Rightarrow> string \<Rightarrow> (json \<times> string) option"
  and parse_members :: "nat \<Rightarrow> (string \<times> json) list \<Rightarrow> string \<Rightarrow> (json \<times> string) option"
where
  "parse_value 0 s = None"
| "parse_value (Suc n) s =
     (case skip_ws s of
        [] \<Rightarrow> None
      | c # cs \<Rightarrow>
          if startswith (c # cs) ''null'' then Some (JNull, drop 4 (c # cs))
          else if startswith (c # cs) ''true'' then Some (JBool True, drop 4 (c # cs))
          else if startswith (c # cs) ''false'' then Some (JBool False, drop 5 (c # cs))
          else if c = CHR 0x22 then
            (case parse_string [] cs of None \<Rightarrow> None | Some (t, rest) \<Rightarrow> Some (JStr t, rest))
          else if c = CHR ''['' then
            (case skip_ws cs of
               [] \<Rightarrow> None
             | d # ds \<Rightarrow> if d = CHR '']'' then Some (JList [], ds) else parse_elems n [] (d # ds))
          else if c = CHR ''{'' then
            (case skip_ws cs of
               [] \<Rightarrow> None
             | d # ds \<Rightarrow> if d = CHR ''}'' then Some (JDict [], ds) else parse_members n [] (d # ds))
          else if c = CHR ''-'' then
            (case parse_nat cs of None \<Rightarrow> None | Some (k, rest) \<Rightarrow> Some (JInt (- int k), rest))
          else
            (case parse_nat (c # cs) of None \<Rightarrow> None | Some (k, rest) \<Rightarrow> Some (JInt (int k), rest)))"
| "parse_elems 0 acc s = None"
| "parse_elems (Suc n) acc s =
     (case parse_value n s of
        None \<Rightarrow> None
      | Some (x, rest) \<Rightarrow>
          (case skip_ws rest of
             [] \<Rightarrow> None
           | c # cs \<Rightarrow>
               if c = CHR '','' then parse_elems n (acc @ [x]) cs
               else if c = CHR '']'' then Some (JList (acc @ [x]), cs)
               else None))"
| "parse_members 0 acc s = None"
| "parse_members (Suc n) acc s =
     (case skip_ws s of
        [] \<Rightarrow> None
      | q # qs \<Rightarrow>
          if q \<noteq> CHR 0x22 then None
          else
            (case parse_string [] qs of
               None \<Rightarrow> None
             | Some (k, rest) \<Rightarrow>
                 (case skip_ws rest of
                    [] \<Rightarrow> None
                  | c # cs \<Rightarrow>
                      if c \<noteq> CHR '':'' then None
                      else
                        (case parse_value n cs of
                           None \<Rightarrow> None
                         | Some (x, rest') \<Rightarrow>
                             (case skip_ws rest' of
                                [] \<Rightarrow> None
                              | d # ds \<Rightarrow>
                                  if d = CHR '','' then parse_members n (dict_setitem acc k x) ds
                                  else if d = CHR ''}'' then Some (JDict (dict_setitem acc k x), ds)
                                  else None)))))"

definition mini_loads :: "string \<Rightarrow> json option" where
  "mini_loads s =
     (case parse_value (Suc (length s)) s of
        None \<Rightarrow> None
      | Some (j, rest) \<Rightarrow> if skip_ws rest = [] then Some j else None)"

definition mini_json :: json_codec where
  "mini_json = \<lparr>dumps = mini_dumps, loads = mini_loads\<rparr>"

subsection \<open>Sample worlds\<close>

text \<open>Concrete inputs at which the statements below are evaluated: a layer over two store
  files in one directory; a machine on which nothing exists yet; one on which the
  directory cannot be created; and one that holds a report.\<close>

definition dal0 :: dal where
  "dal0 = \<lparr>reports_db_path = ''/srv/wolf/data/reports.sqlite'',
            prompts_db_path = ''/srv/wolf/data/prompts.sqlite''\<rparr>"

text \<open>The library of the sample machines runs, beyond the statements of the module, a
  \<^verbatim>\<open>DELETE\<close> by key and an insert written in lower case after two blanks, and refuses
  every other text.\<close>

definition sql_delete_report :: string where
  "sql_delete_report = ''DELETE FROM reports WHERE id = ?''"

definition sql_insert_lower :: string where
  "sql_insert_lower = ''  insert into reports (original_filename) values (?)''"

definition sample_execute ::
  "nat \<Rightarrow> store \<Rightarrow> int \<Rightarrow> string \<Rightarrow> val list \<Rightarrow> error + store \<times> int \<times> cursor" where
  "sample_execute now st rowid query params =
     (if query = sql_delete_report then
        (case reports st of
           None \<Rightarrow> Inl (no_such_table ''reports'')
         | Some t \<Rightarrow>
             (case params of
                [VInt i] \<Rightarrow>
                  Inr (st\<lparr>reports := Some (t\<lparr>tbl_rows := filter (\<lambda>r. r_id r \<noteq> i) (tbl_rows t)\<rparr>)\<rparr>,
                       rowid, no_rows)
              | _ \<Rightarrow> Inl wrong_bindings))
      else if query = sql_insert_lower then
        (case reports st of
           None \<Rightarrow> Inl (no_such_table ''reports'')
         | Some t \<Rightarrow>
             (case params of
                [VStr original_filename] \<Rightarrow>
                  (let i = next_rowid (map r_id (tbl_rows t)) (tbl_seq t);
                       row = \<lparr>r_key = word_of_int i, r_original_filename = VStr original_filename,
                              r_content = VNone, r_source_path = VNone, r_processed_at = now,
                              r_status = VStr ''pending'', r_metadata = VNone,
                              r_analysis_json = VNone\<rparr>
                   in Inr (st\<lparr>reports := Some \<lparr>tbl_rows = tbl_rows t @ [row], tbl_seq = i\<rparr>\<rparr>,
                           i, no_rows))
              | _ \<Rightarrow> Inl wrong_bindings))
      else Inl (OperationalError ''near: syntax error''))"

definition sample_sqlite3 :: library where
  "sample_sqlite3 = \<lparr>lib_execute = sample_execute, lib_autocommit = (\<lambda>query. False)\<rparr>"

definition fresh_world :: world where
  "fresh_world = \<lparr>dirs = [], no_mkdir = [], files = (\<lambda>p. None), clock = 1000, events = [],
                   sqlite3 = sample_sqlite3\<rparr>"

definition locked_world :: world where
  "locked_world = fresh_world\<lparr>no_mkdir := [''/srv/wolf/data'']\<rparr>"

definition report1 :: report where
  \<open>report1 = \<lparr>r_key = 1, r_original_filename = VStr ''weekly.docx'', r_content = VStr ''first draft'',
      r_source_path = VStr ''/drive/wolf_in/weekly.docx'', r_processed_at = 1000,
      r_status = VStr ''parsed'', r_metadata = VStr ''{"a": 1, "b": 2}'', r_analysis_json = VNone\<rparr>\<close>

definition store1 :: store where
  "store1 = \<lparr>writable = True, reports = Some \<lparr>tbl_rows = [report1], tbl_seq = 1\<rparr>,
             prompt_templates = None\<rparr>"

definition world1 :: world where
  "world1 = \<lparr>dirs = [''/srv/wolf/data'', ''/srv/wolf'', ''/srv'', ''/''], no_mkdir = [],
             files = [reports_db_path dal0 \<mapsto> store1,
                      prompts_db_path dal0 \<mapsto> \<lparr>writable = True, reports = None,
                         prompt_templates = Some \<lparr>tbl_rows = [], tbl_seq = 0\<rparr>\<rparr>],
             clock = 1000, events = [], sqlite3 = sample_sqlite3\<rparr>"

subsection \<open>Vocabulary of the statements below\<close>

text \<open>The directory of the store exists (a path with no directory part needs none), or
  it exists or can be created.\<close>

definition dir_there :: "world \<Rightarrow> string \<Rightarrow> bool" where
  "dir_there w p = (posix_dirname p = [] \<or> path_exists w (posix_dirname p))"

definition dir_ready :: "world \<Rightarrow> string \<Rightarrow> bool" where
  "dir_ready w p = (dir_there w p \<or> posix_dirname p \<notin> set (no_mkdir w))"

text \<open>The store a connection to \<open>p\<close> finds (an empty one where there is no file yet), and
  the connection as it is opened.\<close>

definition store_at :: "world \<Rightarrow> string \<Rightarrow> store" where
  "store_at w p = (case files w p of None \<Rightarrow> empty_store | Some st \<Rightarrow> st)"

definition opened :: "world \<Rightarrow> string \<Rightarrow> conn" where
  "opened w p = \<lparr>c_path = p, c_store = store_at w p, c_last_rowid = 0,
                  c_library = sqlite3 w\<rparr>"

text \<open>What a call that ran returns, by its flags (lines 68 to 86), and the trace the body
  of the \<^verbatim>\<open>try\<close> leaves.\<close>

definition returned :: "string \<Rightarrow> bool \<Rightarrow> bool \<Rightarrow> bool \<Rightarrow> conn \<Rightarrow> cursor \<Rightarrow> result" where
  "returned query fetch_one fetch_all commit db cur =
     (if commit then (if is_insert query then Scalar (VInt (c_last_rowid db)) else Scalar VNone)
      else if fetch_one then (case cur_rows cur of [] \<Rightarrow> Scalar VNone | row # rest \<Rightarrow> Row row)
      else if fetch_all then Rows (cur_rows cur)
      else Scalar VNone)"

definition trace_of :: "string \<Rightarrow> string \<Rightarrow> bool \<Rightarrow> event list" where
  "trace_of p q commit =
     [Connect p, Execute p q]
     @ (if commit then Commit p # (if is_insert q then [Execute p sql_last_insert_rowid] else [])
        else [])
     @ [Close p]"

text \<open>The world once the directory of \<open>p\<close> has been provisioned (lines 56 to 60).\<close>

definition provisioned :: "world \<Rightarrow> string \<Rightarrow> world" where
  "provisioned w p =
     (if dir_there w p then w
      else w\<lparr>events := events w @ [Makedirs (posix_dirname p),
                 Log INFO ''_execute_query'' [(''db_path'', p), (''action'', ''create_directory'')]],
             dirs := dirs w @ filter (\<lambda>a. a \<notin> set (dirs w))
                                (remdups (posix_dirname p # ancestors (posix_dirname p)))\<rparr>)"

text \<open>The statement \<^verbatim>\<open>update_report_status\<close> builds, the columns it sets and the values it
  binds, by whether a content is given.\<close>

definition status_statement :: "string option \<Rightarrow> string" where
  "status_statement processed_content =
     (case processed_content of None \<Rightarrow> sql_update_status | Some c \<Rightarrow> sql_update_status_content)"

definition status_columns :: "string option \<Rightarrow> column list" where
  "status_columns processed_content =
     (case processed_content of None \<Rightarrow> [Status] | Some c \<Rightarrow> [Status, Content])"

definition status_params :: "string \<Rightarrow> string option \<Rightarrow> int \<Rightarrow> val list" where
  "status_params status processed_content report_id =
     (case processed_content of
        None \<Rightarrow> [VStr status, VInt report_id]
      | Some c \<Rightarrow> [VStr status, VStr c, VInt report_id])"

text \<open>A write to the reports table can run: the directory can be provisioned, the table
  exists and the file can be written.\<close>

definition reports_writable :: "world \<Rightarrow> string \<Rightarrow> bool" where
  "reports_writable w p =
     (dir_ready w p \<and> reports (store_at w p) \<noteq> None \<and> writable (store_at w p))"

text \<open>A table has room for one more row: its next key is a 64-bit integer.\<close>

definition has_room :: "report table \<Rightarrow> bool" where
  "has_room t = int64 (next_rowid (map r_id (tbl_rows t)) (tbl_seq t))"

text \<open>The store with a function applied to every row of its reports table.\<close>

definition with_rows :: "store \<Rightarrow> (report \<Rightarrow> report) \<Rightarrow> store" where
  "with_rows st f =
     st\<lparr>reports := map_option (\<lambda>t. t\<lparr>tbl_rows := map f (tbl_rows t)\<rparr>) (reports st)\<rparr>"

text \<open>The row an \<^verbatim>\<open>INSERT INTO reports\<close> adds at second \<open>now\<close> to table \<open>t\<close>, and the store
  with a row added to its reports table.\<close>

definition added_report :: "nat \<Rightarrow> report table \<Rightarrow> val \<Rightarrow> val \<Rightarrow> val \<Rightarrow> val \<Rightarrow> val \<Rightarrow> report" where
  "added_report now t original_filename content source_path metadata status =
     \<lparr>r_key = word_of_int (next_rowid (map r_id (tbl_rows t)) (tbl_seq t)),
      r_original_filename = original_filename, r_content = content,
      r_source_path = source_path, r_processed_at = now, r_status = status,
      r_metadata = metadata, r_analysis_json = VNone\<rparr>"

definition with_report :: "store \<Rightarrow> report \<Rightarrow> store" where
  "with_report st r =
     st\<lparr>reports := map_option (\<lambda>t. \<lparr>tbl_rows = tbl_rows t @ [r], tbl_seq = r_id r\<rparr>) (reports st)\<rparr>"

text \<open>One timestamp is strictly later than another.\<close>

fun later :: "val \<Rightarrow> val \<Rightarrow> bool" where
  "later (VTime a) (VTime b) = (b < a)"
| "later a b = False"

text \<open>The fresh machine after \<^verbatim>\<open>initialize_databases\<close>, and then after one
  \<^verbatim>\<open>insert_report_data\<close>, all within the second 1000.\<close>

definition initialized_world :: world where
  "initialized_world = snd (initialize_databases dal0 fresh_world)"

definition inserted_world :: world where
  "inserted_world =
     snd (insert_report_data mini_json dal0 initialized_world
            ''weekly.docx'' (Some ''first draft'') ''/drive/wolf_in/weekly.docx''
            (Some [(''a'', JInt 1), (''b'', JInt 2)]) ''parsed'')"

text \<open>The record \<^verbatim>\<open>get_all_prompt_templates\<close> returns for a row, and the rows of the prompt
  table in listing order as a direct read finds them: none where the connection or the
  statement fails.\<close>

definition listing_dict :: "prompt_template \<Rightarrow> (string \<times> val) list" where
  "listing_dict r = [(''id'', VInt (p_id r)), (''name'', p_name r), (''category'', p_category r),
                     (''updated_at'', VTime (p_updated_at r))]"

definition listed :: "world \<Rightarrow> string \<Rightarrow> prompt_template list" where
  "listed w p =
     (if dir_there w p
      then (case prompt_templates (store_at w p) of
              None \<Rightarrow> []
            | Some t \<Rightarrow> order_by_updated_desc (tbl_rows t))
      else [])"

text \<open>A machine whose prompt store holds five templates, two of them updated in the same
  second.\<close>

definition prompt_rows :: "prompt_template list" where
  "prompt_rows =
     [\<lparr>p_key = 1, p_name = VStr ''summary'', p_template_text = VStr ''Summarise: {text}'',
       p_category = VStr ''report'', p_created_at = 1000, p_updated_at = 1000\<rparr>,
      \<lparr>p_key = 2, p_name = VStr ''risks'', p_template_text = VStr ''List the risks'',
       p_category = VNone, p_created_at = 1010, p_updated_at = 1040\<rparr>,
      \<lparr>p_key = 3, p_name = VStr ''actions'', p_template_text = VStr ''List the actions'',
       p_category = VStr ''report'', p_created_at = 1020, p_updated_at = 1020\<rparr>,
      \<lparr>p_key = 4, p_name = VStr ''title'', p_template_text = VStr ''Give a title'',
       p_category = VNone, p_created_at = 1040, p_updated_at = 1040\<rparr>,
      \<lparr>p_key = 5, p_name = VStr ''tone'', p_template_text = VStr ''Describe the tone'',
       p_category = VStr ''style'', p_created_at = 1050, p_updated_at = 1050\<rparr>]"

definition prompts_world :: world where
  "prompts_world =
     \<lparr>dirs = [''/srv/wolf/data''], no_mkdir = [],
      files = [prompts_db_path dal0 \<mapsto>
                 \<lparr>writable = True, reports = None,
                  prompt_templates = Some \<lparr>tbl_rows = prompt_rows, tbl_seq = 5\<rparr>\<rparr>],
      clock = 1060, events = [], sqlite3 = sample_sqlite3\<rparr>"

text \<open>The row \<^verbatim>\<open>get_report_by_id\<close> reads: the first of the table with that key, none where
  the connection or the statement fails. And the dictionary a stored metadata value
  stands for in \<^verbatim>\<open>update_report_metadata\<close>: the empty one for a false value (NULL, the
  empty text), the parsed one for a text that parses to a dictionary.\<close>

definition current_report :: "world \<Rightarrow> string \<Rightarrow> int \<Rightarrow> report option" where
  "current_report w p report_id =
     (if dir_there w p
      then (case reports (store_at w p) of
              None \<Rightarrow> None
            | Some t \<Rightarrow> find (\<lambda>r. r_id r = report_id) (tbl_rows t))
      else None)"

definition stored_metadata :: "json_codec \<Rightarrow> val \<Rightarrow> (string \<times> json) list option" where
  "stored_metadata js m =
     (if \<not> truthy m then Some []
      else (case json_loads js m of Inr (JDict d) \<Rightarrow> Some d | _ \<Rightarrow> None))"

text \<open>The fields a metadata update writes into a row.\<close>

definition set_metadata :: "int \<Rightarrow> string \<Rightarrow> nat \<Rightarrow> report \<Rightarrow> report" where
  "set_metadata report_id text now r =
     (if r_id r = report_id then r\<lparr>r_metadata := VStr text, r_processed_at := now\<rparr> else r)"

text \<open>The machine of \<open>world1\<close> with the metadata text of its report cut short.\<close>

definition broken_world :: world where
  \<open>broken_world =
     world1\<lparr>files := [reports_db_path dal0 \<mapsto>
        \<lparr>writable = True,
         reports = Some \<lparr>tbl_rows = [report1\<lparr>r_metadata := VStr ''{"a": 1, ''\<rparr>], tbl_seq = 1\<rparr>,
         prompt_templates = None\<rparr>]\<rparr>\<close>

section \<open>Properties\<close>

subsection \<open>Keys and bound values\<close>

lemma int64_sint: "int64 (sint (k :: 64 word))"
  using sint_ge[of k] sint_lt[of k] by (simp add: int64_def)

lemma sint_word_of_int64:
  assumes "int64 i"
  shows "sint (word_of_int i :: 64 word) = i"
proof -
  have "(i + 2 ^ 63) mod 2 ^ 64 = i + 2 ^ 63"
    using assms by (intro mod_pos_pos_trivial) (simp_all add: int64_def)
  then show ?thesis
    by (simp add: int_word_sint)
qed

lemma int64_r_id [simp]: "int64 (r_id r)"
  by (simp add: r_id_def int64_sint)

lemma int64_p_id [simp]: "int64 (p_id r)"
  by (simp add: p_id_def int64_sint)

lemma r_id_update [simp]:
  "r_id (r\<lparr>r_original_filename := a\<rparr>) = r_id r"
  "r_id (r\<lparr>r_content := a\<rparr>) = r_id r"
  "r_id (r\<lparr>r_source_path := a\<rparr>) = r_id r"
  "r_id (r\<lparr>r_processed_at := n\<rparr>) = r_id r"
  "r_id (r\<lparr>r_status := a\<rparr>) = r_id r"
  "r_id (r\<lparr>r_metadata := a\<rparr>) = r_id r"
  "r_id (r\<lparr>r_analysis_json := a\<rparr>) = r_id r"
  by (simp_all add: r_id_def)

lemma bindable_text [simp]:
  "bindable (opt_str s)"
  "bindable (metadata_text js md)"
  by (simp_all add: opt_str_def metadata_text_def split: option.splits list.splits)

lemma r_id_added_report:
  assumes "has_room t"
  shows "r_id (added_report now t fn content sp md status) =
           next_rowid (map r_id (tbl_rows t)) (tbl_seq t)"
  using assms by (simp add: r_id_def added_report_def has_room_def sint_word_of_int64)

lemma sample_keys [simp]:
  "r_id report1 = 1"
  by (simp add: r_id_def report1_def)

subsection \<open>The statements are told apart\<close>

lemma is_insert_simps:
  "is_insert sql_insert_report = True"
  "is_insert sql_select_report = False"
  "is_insert sql_update_status = False"
  "is_insert sql_update_status_content = False"
  "is_insert sql_update_analysis = False"
  "is_insert sql_update_metadata = False"
  "is_insert sql_exists_source_path = False"
  "is_insert sql_insert_prompt = True"
  "is_insert sql_select_prompt = False"
  "is_insert sql_list_prompts = False"
  "is_insert sql_last_insert_rowid = False"
  "is_insert sql_create_reports = False"
  "is_insert sql_create_prompts = False"
  by code_simp+

lemma prepare_simps:
  "sqlite_prepare sql_create_reports = Some CreateReports"
  "sqlite_prepare sql_create_prompts = Some CreatePrompts"
  "sqlite_prepare sql_insert_report = Some InsertReport"
  "sqlite_prepare sql_select_report = Some SelectReport"
  "sqlite_prepare sql_update_status = Some (UpdateReport [Status])"
  "sqlite_prepare sql_update_status_content = Some (UpdateReport [Status, Content])"
  "sqlite_prepare sql_update_analysis = Some (UpdateReport [AnalysisJson, Status])"
  "sqlite_prepare sql_update_metadata = Some (UpdateReport [Metadata])"
  "sqlite_prepare sql_exists_source_path = Some ExistsSourcePath"
  "sqlite_prepare sql_insert_prompt = Some InsertPrompt"
  "sqlite_prepare sql_select_prompt = Some SelectPrompt"
  "sqlite_prepare sql_list_prompts = Some ListPrompts"
  "sqlite_prepare sql_last_insert_rowid = Some LastInsertRowid"
  by code_simp+

lemma last_rowid_exec:
  "sqlite_execute now c sql_last_insert_rowid [] =
     Inr (c, \<lparr>description = [''last_insert_rowid()''], cur_rows = [[VInt (c_last_rowid c)]]\<rparr>)"
  by (simp add: sqlite_execute_def prepare_simps exec_last_insert_rowid_def)

lemma last_rowid_not_auto: "autocommitted lib sql_last_insert_rowid = False"
  by (simp add: autocommitted_def prepare_simps)

subsection \<open>Provisioning and connecting\<close>

lemma provision_ok:
  assumes "dir_ready w p"
  shows "\<exists>w1. provision_directory w p = (Inr (), w1) \<and> files w1 = files w \<and> clock w1 = clock w
            \<and> no_mkdir w1 = no_mkdir w \<and> dir_there w1 p \<and> set (dirs w) \<subseteq> set (dirs w1)
            \<and> (dir_there w p \<longrightarrow> w1 = w)"
  using assms
  by (auto simp: dir_ready_def dir_there_def provision_directory_def makedirs_def emit_def
      path_exists_def Let_def)

lemma provision_fail:
  assumes "\<not> dir_ready w p"
  shows "provision_directory w p =
           (Inl OSError, w\<lparr>events := events w @ [Makedirs (posix_dirname p),
               Log ERROR ''_execute_query'' [(''db_path'', p), (''error'', error_str OSError)]]\<rparr>)"
  using assms
  by (auto simp: dir_ready_def dir_there_def provision_directory_def makedirs_def emit_def
      path_exists_def Let_def)

lemma connect_there:
  assumes "dir_there w p"
  shows "connect w p = (Inr (opened w p),
            w\<lparr>events := events w @ [Connect p], files := (files w)(p \<mapsto> store_at w p)\<rparr>)"
  using assms
  by (auto simp: dir_there_def connect_def emit_def opened_def store_at_def Let_def fun_upd_idem
      split: option.splits)

lemma connect_not_there:
  assumes "\<not> dir_there w p"
  shows "connect w p = (Inl (OperationalError ''unable to open database file''),
            w\<lparr>events := events w @ [Connect p]\<rparr>)"
  using assms
  by (auto simp: dir_there_def connect_def emit_def Let_def)

subsection \<open>The executor, in one equation\<close>

lemma sqlite_execute_path:
  assumes "sqlite_execute now c q ps = Inr (c1, cur)"
  shows "c_path c1 = c_path c"
proof -
  show ?thesis
  proof (cases "sqlite_prepare q")
    case None
    with assms show ?thesis
      by (auto simp: sqlite_execute_def split: sum.splits prod.splits)
  next
    case (Some s)
    with assms have r: "run_stmt now c s ps = Inr (c1, cur)"
      by (simp add: sqlite_execute_def)
    show ?thesis
  proof (cases s)
    case CreateReports
    with r show ?thesis
      by (auto simp: exec_create_reports_def split: list.splits option.splits if_splits)
  next
    case CreatePrompts
    with r show ?thesis
      by (auto simp: exec_create_prompts_def split: list.splits option.splits if_splits)
  next
    case InsertReport
    with r show ?thesis
      by (auto simp: exec_insert_report_def Let_def split: list.splits option.splits if_splits)
  next
    case SelectReport
    with r show ?thesis
      by (auto simp: exec_select_report_def split: list.splits option.splits if_splits)
  next
    case (UpdateReport cols)
    with r show ?thesis
      by (auto simp: exec_update_report_def split: list.splits option.splits if_splits)
  next
    case ExistsSourcePath
    with r show ?thesis
      by (auto simp: exec_exists_source_path_def split: list.splits option.splits if_splits)
  next
    case InsertPrompt
    with r show ?thesis
      by (auto simp: exec_insert_prompt_def Let_def split: list.splits option.splits if_splits)
  next
    case SelectPrompt
    with r show ?thesis
      by (auto simp: exec_select_prompt_def split: list.splits option.splits if_splits)
  next
    case ListPrompts
    with r show ?thesis
      by (auto simp: exec_list_prompts_def split: list.splits option.splits if_splits val.splits)
  next
    case LastInsertRowid
    with r show ?thesis
      by (auto simp: exec_last_insert_rowid_def split: list.splits option.splits if_splits)
  qed
  qed
qed

lemma run_query_there:
  assumes "dir_there w p"
  shows "run_query w p q ps f1 fa c =
    (case sqlite_execute (clock w) (opened w p) q ps of
       Inl e \<Rightarrow> (Inl e, w\<lparr>events := events w @ [Connect p, Execute p q, Close p],
                          files := (files w)(p \<mapsto> store_at w p)\<rparr>)
     | Inr (db, cur) \<Rightarrow>
         (Inr (returned q f1 fa c db cur),
          w\<lparr>events := events w @ trace_of p q c,
            files := (files w)(p \<mapsto> (if c \<or> autocommitted (sqlite3 w) q then c_store db else store_at w p))\<rparr>))"
proof (cases "sqlite_execute (clock w) (opened w p) q ps")
  case (Inl e)
  then show ?thesis
    by (simp add: run_query_def connect_there[OF assms] db_execute_def db_close_def emit_def
        opened_def Let_def)
next
  case (Inr r)
  obtain db cur where r: "r = (db, cur)" by (cases r)
  have path: "c_path db = p"
    using sqlite_execute_path[of "clock w" "opened w p" q ps db cur] Inr r
    by (simp add: opened_def)
  show ?thesis
    using Inr r path
    by (simp add: run_query_def connect_there[OF assms] db_execute_def db_close_def db_commit_def
        emit_def Let_def returned_def trace_of_def last_rowid_exec last_rowid_not_auto
        first_column_def fetchone_def fetchall_def opened_def
        split: list.splits)
qed

lemma provision_ready:
  assumes "dir_ready w p"
  shows "provision_directory w p = (Inr (), provisioned w p)"
  using assms
  by (auto simp: dir_ready_def dir_there_def provision_directory_def makedirs_def emit_def
      path_exists_def Let_def provisioned_def)

lemma provisioned_simps [simp]:
  "files (provisioned w p) = files w"
  "clock (provisioned w p) = clock w"
  "no_mkdir (provisioned w p) = no_mkdir w"
  "store_at (provisioned w p) p' = store_at w p'"
  "sqlite3 (provisioned w p) = sqlite3 w"
  "opened (provisioned w p) p' = opened w p'"
  by (simp_all add: provisioned_def store_at_def opened_def)

lemma provisioned_there: "dir_ready w p \<Longrightarrow> dir_there (provisioned w p) p"
  by (auto simp: provisioned_def dir_there_def dir_ready_def path_exists_def)

lemma provisioned_dirs: "set (dirs w) \<subseteq> set (dirs (provisioned w p))"
  by (auto simp: provisioned_def)

lemma provisioned_ancestors:
  "\<not> dir_there w p \<Longrightarrow>
   set (posix_dirname p # ancestors (posix_dirname p)) \<subseteq> set (dirs (provisioned w p))"
  by (auto simp: provisioned_def)

lemma execute_query_eq:
  "execute_query w p q ps f1 fa c =
    (if \<not> dir_ready w p then
       (Inl OSError, w\<lparr>events := events w @ [Makedirs (posix_dirname p),
            Log ERROR ''_execute_query'' [(''db_path'', p), (''error'', error_str OSError)]]\<rparr>)
     else
       (case sqlite_execute (clock w) (opened w p) q ps of
          Inl e \<Rightarrow>
            (Inl e,
             (provisioned w p)\<lparr>events := events (provisioned w p) @
                 [Connect p, Execute p q, Close p,
                  Log ERROR ''_execute_query''
                    [(''db_path'', p), (''query_snippet'', take 100 q), (''error'', error_str e)]],
               files := (files w)(p \<mapsto> store_at w p)\<rparr>)
        | Inr (db, cur) \<Rightarrow>
            (Inr (returned q f1 fa c db cur),
             (provisioned w p)\<lparr>events := events (provisioned w p) @ trace_of p q c,
               files := (files w)(p \<mapsto> (if c \<or> autocommitted (sqlite3 w) q then c_store db
                                          else store_at w p))\<rparr>)))"
proof (cases "dir_ready w p")
  case False
  then show ?thesis
    by (simp add: execute_query_def provision_fail)
next
  case True
  show ?thesis
    using True
    by (simp add: execute_query_def provision_ready run_query_there[OF provisioned_there[OF True]]
        emit_def split: sum.splits prod.splits)
qed


subsection \<open>What the executor returns\<close>

lemma startswith_insert:
  assumes "startswith query ''INSERT''"
  shows "is_insert query"
proof -
  from assms have t: "take (length ''INSERT'') query = ''INSERT''"
    unfolding startswith_def .
  define rest where "rest = drop (length ''INSERT'') query"
  have q: "query = ''INSERT'' @ rest"
    unfolding rest_def by (metis append_take_drop_id t)
  have ns: "\<not> is_space (CHR ''I'')" "\<not> is_space (CHR ''T'')" by (simp_all add: is_space_def)
  have "strip query = ''INSERT'' @ rev (dropWhile is_space (rev rest))"
    using ns by (simp add: q strip_def dropWhile_append)
  then show ?thesis
    by (simp add: is_insert_def upper_def upper_char_def startswith_def)
qed

text \<open>
  Claim C1. For every call of \<^verbatim>\<open>_execute_query\<close>: the call raises when the directory
  cannot be provisioned or the store refuses the statement; otherwise, with \<open>commit\<close> it
  returns the connection's last row id for a statement that is an insert (one that
  starts with INSERT is) and \<^verbatim>\<open>None\<close> for any other, and the store file then holds what
  the statement wrote; without \<open>commit\<close>, \<open>fetch_one\<close> returns the first row or \<^verbatim>\<open>None\<close>,
  else \<open>fetch_all\<close> returns all rows in order, else the call returns \<^verbatim>\<open>None\<close>.
\<close>

theorem execute_query_returns_by_mode:
  "fst (execute_query w db_path query params fetch_one fetch_all commit) =
     (if \<not> dir_ready w db_path then Inl OSError
      else case sqlite_execute (clock w) (opened w db_path) query params of
             Inl e \<Rightarrow> Inl e
           | Inr (db, cur) \<Rightarrow>
               Inr (if commit then
                      (if is_insert query then Scalar (VInt (c_last_rowid db)) else Scalar VNone)
                    else if fetch_one then
                      (case cur_rows cur of [] \<Rightarrow> Scalar VNone | row # rest \<Rightarrow> Row row)
                    else if fetch_all then Rows (cur_rows cur)
                    else Scalar VNone))
   \<and> (dir_ready w db_path \<and> commit
        \<and> sqlite_execute (clock w) (opened w db_path) query params = Inr (db', cur')
      \<longrightarrow> files (snd (execute_query w db_path query params fetch_one fetch_all commit)) db_path
            = Some (c_store db'))
   \<and> (startswith query ''INSERT'' \<longrightarrow> is_insert query)"
  by (auto simp: execute_query_eq returned_def startswith_insert split: sum.splits)

theorem execute_query_returns_by_mode_witness:
  "fst (execute_query world1 (reports_db_path dal0) sql_insert_report
         [VStr ''monthly.pdf'', VNone, VStr ''/drive/wolf_in/monthly.pdf'', VNone, VStr ''new'']
         False False True) = Inr (Scalar (VInt 2))
   \<and> fst (execute_query world1 (reports_db_path dal0) sql_update_analysis
         [VStr ''{}'', VStr ''done'', VInt 1] True True True) = Inr (Scalar VNone)
   \<and> fst (execute_query world1 (reports_db_path dal0) sql_exists_source_path
         [VStr ''/drive/wolf_in/weekly.docx''] True True False) = Inr (Row [VInt 1])
   \<and> fst (execute_query world1 (reports_db_path dal0) sql_exists_source_path
         [VStr ''/drive/wolf_in/other.docx''] True False False) = Inr (Scalar VNone)
   \<and> fst (execute_query world1 (prompts_db_path dal0) sql_list_prompts
         [VInt 10, VInt 0] False True False) = Inr (Rows [])
   \<and> fst (execute_query world1 (reports_db_path dal0) sql_exists_source_path
         [VStr ''/drive/wolf_in/weekly.docx''] False False False) = Inr (Scalar VNone)
   \<and> map r_id (case reports (store_at (snd (execute_query world1 (reports_db_path dal0)
         sql_insert_report
         [VStr ''monthly.pdf'', VNone, VStr ''/drive/wolf_in/monthly.pdf'', VNone, VStr ''new'']
         False False True)) (reports_db_path dal0)) of None \<Rightarrow> [] | Some t \<Rightarrow> tbl_rows t) = [1, 2]
   \<and> startswith sql_insert_report ''INSERT''"
  unfolding execute_query_returns_by_mode[THEN conjunct1]
  by code_simp

subsection \<open>Provisioning the directory\<close>

text \<open>
  Claim C3. Where the directory of the store path does not exist, \<^verbatim>\<open>_execute_query\<close>
  creates it, with the directories above it, before it opens the store: the trace starts
  with the \<^verbatim>\<open>makedirs\<close> call and its log record, and the connection comes after. Where
  the creation fails, the call raises at once: nothing but the attempt and its error
  record is added to the world, so no store was reached, and the outcome is the raised
  error, not a value.
\<close>

theorem directory_provisioned_before_open:
  assumes "posix_dirname db_path \<noteq> []"
    and "\<not> path_exists w (posix_dirname db_path)"
  shows "(posix_dirname db_path \<notin> set (no_mkdir w) \<longrightarrow>
            (\<exists>rest. events (snd (execute_query w db_path query params fetch_one fetch_all commit)) =
               events w @ [Makedirs (posix_dirname db_path),
                           Log INFO ''_execute_query''
                             [(''db_path'', db_path), (''action'', ''create_directory'')],
                           Connect db_path] @ rest)
          \<and> list_all (path_exists (snd (execute_query w db_path query params fetch_one fetch_all commit)))
               (posix_dirname db_path # ancestors (posix_dirname db_path)))
       \<and> (posix_dirname db_path \<in> set (no_mkdir w) \<longrightarrow>
            execute_query w db_path query params fetch_one fetch_all commit =
              (Inl OSError,
               w\<lparr>events := events w @ [Makedirs (posix_dirname db_path),
                    Log ERROR ''_execute_query''
                      [(''db_path'', db_path), (''error'', error_str OSError)]]\<rparr>))"
proof -
  have nt: "\<not> dir_there w db_path"
    using assms by (simp add: dir_there_def)
  have fail: "posix_dirname db_path \<in> set (no_mkdir w) \<Longrightarrow> \<not> dir_ready w db_path"
    using nt by (simp add: dir_ready_def)
  have ok: "posix_dirname db_path \<notin> set (no_mkdir w) \<Longrightarrow> dir_ready w db_path"
    by (simp add: dir_ready_def)
  have anc: "list_all (\<lambda>d. d \<in> set (dirs (provisioned w db_path)))
               (posix_dirname db_path # ancestors (posix_dirname db_path))"
    using provisioned_ancestors[OF nt] by (simp add: list_all_iff subset_iff)
  have ev: "events (provisioned w db_path) =
              events w @ [Makedirs (posix_dirname db_path),
                Log INFO ''_execute_query'' [(''db_path'', db_path), (''action'', ''create_directory'')]]"
    using nt by (simp add: provisioned_def)
  show ?thesis
  proof (intro conjI impI)
    assume a: "posix_dirname db_path \<notin> set (no_mkdir w)"
    show "\<exists>rest. events (snd (execute_query w db_path query params fetch_one fetch_all commit)) =
               events w @ [Makedirs (posix_dirname db_path),
                           Log INFO ''_execute_query''
                             [(''db_path'', db_path), (''action'', ''create_directory'')],
                           Connect db_path] @ rest"
      using ok[OF a] ev
      by (cases "sqlite_execute (clock w) (opened w db_path) query params")
         (auto simp: execute_query_eq trace_of_def)
    show "list_all (path_exists (snd (execute_query w db_path query params fetch_one fetch_all commit)))
               (posix_dirname db_path # ancestors (posix_dirname db_path))"
      using ok[OF a] anc
      by (cases "sqlite_execute (clock w) (opened w db_path) query params")
         (auto simp: execute_query_eq path_exists_def list_all_iff)
  next
    assume "posix_dirname db_path \<in> set (no_mkdir w)"
    from fail[OF this] show "execute_query w db_path query params fetch_one fetch_all commit =
              (Inl OSError,
               w\<lparr>events := events w @ [Makedirs (posix_dirname db_path),
                    Log ERROR ''_execute_query''
                      [(''db_path'', db_path), (''error'', error_str OSError)]]\<rparr>)"
      by (simp add: execute_query_eq)
  qed
qed

theorem directory_provisioned_before_open_witness:
  "posix_dirname (reports_db_path dal0) = ''/srv/wolf/data''
   \<and> \<not> path_exists fresh_world ''/srv/wolf/data''
   \<and> take 3 (events (snd (execute_query fresh_world (reports_db_path dal0) sql_create_reports []
                            False False True))) =
       [Makedirs ''/srv/wolf/data'',
        Log INFO ''_execute_query''
          [(''db_path'', reports_db_path dal0), (''action'', ''create_directory'')],
        Connect (reports_db_path dal0)]
   \<and> list_all (path_exists (snd (execute_query fresh_world (reports_db_path dal0)
                                  sql_create_reports [] False False True)))
        [''/srv/wolf/data'', ''/'', ''/srv'', ''/srv/wolf'']
   \<and> \<not> path_exists locked_world ''/srv/wolf/data''
   \<and> fst (execute_query locked_world (reports_db_path dal0) sql_create_reports []
            False False True) = Inl OSError
   \<and> events (snd (execute_query locked_world (reports_db_path dal0) sql_create_reports []
                    False False True)) =
       [Makedirs ''/srv/wolf/data'',
        Log ERROR ''_execute_query''
          [(''db_path'', reports_db_path dal0), (''error'', ''os.makedirs failed'')]]
   \<and> files (snd (execute_query locked_world (reports_db_path dal0) sql_create_reports []
                   False False True)) (reports_db_path dal0) = None"
proof -
  have d: "posix_dirname (reports_db_path dal0) = ''/srv/wolf/data''" by code_simp
  have h1: "posix_dirname (reports_db_path dal0) \<noteq> []" by code_simp
  have h2: "\<not> path_exists fresh_world (posix_dirname (reports_db_path dal0))" by code_simp
  have h3: "\<not> path_exists locked_world (posix_dirname (reports_db_path dal0))" by code_simp
  have m1: "posix_dirname (reports_db_path dal0) \<notin> set (no_mkdir fresh_world)" by code_simp
  have m2: "posix_dirname (reports_db_path dal0) \<in> set (no_mkdir locked_world)" by code_simp
  have anc: "posix_dirname (reports_db_path dal0) # ancestors (posix_dirname (reports_db_path dal0))
               = [''/srv/wolf/data'', ''/'', ''/srv'', ''/srv/wolf'']" by code_simp
  note a = directory_provisioned_before_open[OF h1 h2, of sql_create_reports "[]" False False True,
      THEN conjunct1, rule_format, OF m1]
  note b = directory_provisioned_before_open[OF h1 h3, of sql_create_reports "[]" False False True,
      THEN conjunct2, rule_format, OF m2]
  from a obtain rest where
    ev: "events (snd (execute_query fresh_world (reports_db_path dal0) sql_create_reports []
            False False True)) =
          events fresh_world @ [Makedirs (posix_dirname (reports_db_path dal0)),
            Log INFO ''_execute_query''
              [(''db_path'', reports_db_path dal0), (''action'', ''create_directory'')],
            Connect (reports_db_path dal0)] @ rest"
    by blast
  have e0: "events fresh_world = []" by (simp add: fresh_world_def)
  have t: "take 3 (events (snd (execute_query fresh_world (reports_db_path dal0) sql_create_reports []
                            False False True))) =
       [Makedirs ''/srv/wolf/data'',
        Log INFO ''_execute_query''
          [(''db_path'', reports_db_path dal0), (''action'', ''create_directory'')],
        Connect (reports_db_path dal0)]"
    by (simp add: ev d e0)
  have l: "list_all (path_exists (snd (execute_query fresh_world (reports_db_path dal0)
                                  sql_create_reports [] False False True)))
        [''/srv/wolf/data'', ''/'', ''/srv'', ''/srv/wolf'']"
    using a anc by simp
  have e1: "events locked_world = []" "files locked_world (reports_db_path dal0) = None"
    by (simp_all add: locked_world_def fresh_world_def)
  have h2': "\<not> path_exists fresh_world ''/srv/wolf/data''" using h2 d by simp
  have h3': "\<not> path_exists locked_world ''/srv/wolf/data''" using h3 d by simp
  show ?thesis
    using d h2' h3' t l
    by (simp add: b e1 d)
qed

subsection \<open>The statements, one by one\<close>

lemma exec_select_report_eq:
  "sqlite_execute now c sql_select_report [VInt i] =
     (case reports (c_store c) of
        None \<Rightarrow> Inl (no_such_table ''reports'')
      | Some t \<Rightarrow>
          if \<not> int64 i then Inl OverflowError
          else
          Inr (c, \<lparr>description = report_columns,
                   cur_rows = map report_values (filter (\<lambda>r. r_id r = i) (tbl_rows t))\<rparr>))"
  by (simp add: sqlite_execute_def prepare_simps exec_select_report_def split: option.splits)

lemma exec_update_eq:
  assumes "sqlite_prepare q = Some (UpdateReport cols)" and "length ps = length cols + 1"
  shows "sqlite_execute now c q ps =
     (case reports (c_store c) of
        None \<Rightarrow> Inl (no_such_table ''reports'')
      | Some t \<Rightarrow>
          if \<not> list_all bindable ps then Inl OverflowError
          else if \<not> writable (c_store c) then Inl readonly_database
          else Inr (c\<lparr>c_store := (c_store c)\<lparr>reports :=
                         Some (t\<lparr>tbl_rows := map (update_row now cols ps) (tbl_rows t)\<rparr>)\<rparr>\<rparr>,
                    no_rows))"
  using assms
  by (simp add: sqlite_execute_def exec_update_report_def split: option.splits)

lemma exec_insert_report_eq:
  assumes "list_all bindable [content, sp, md, st]"
  shows "sqlite_execute now c sql_insert_report [VStr fn, content, sp, md, st] =
     (case reports (c_store c) of
        None \<Rightarrow> Inl (no_such_table ''reports'')
      | Some t \<Rightarrow>
          if \<not> writable (c_store c) then Inl readonly_database
          else if \<not> has_room t then Inl database_full
          else Inr (c\<lparr>c_store := (c_store c)\<lparr>reports :=
                         Some \<lparr>tbl_rows = tbl_rows t @ [added_report now t (VStr fn) content sp md st],
                               tbl_seq = next_rowid (map r_id (tbl_rows t)) (tbl_seq t)\<rparr>\<rparr>,
                      c_last_rowid := next_rowid (map r_id (tbl_rows t)) (tbl_seq t)\<rparr>,
                    no_rows))"
  using assms
  by (simp add: sqlite_execute_def prepare_simps exec_insert_report_def Let_def has_room_def
      added_report_def split: option.splits)

lemma sql_eq_str: "sql_eq v (VStr s) = (v = VStr s)"
  by (auto simp: sql_eq_def)

lemma exec_exists_eq:
  "sqlite_execute now c sql_exists_source_path [VStr sp] =
     (case reports (c_store c) of
        None \<Rightarrow> Inl (no_such_table ''reports'')
      | Some t \<Rightarrow>
          Inr (c, \<lparr>description = [''1''],
                   cur_rows = take 1 (map (\<lambda>r. [VInt 1])
                                (filter (\<lambda>r. r_source_path r = VStr sp) (tbl_rows t)))\<rparr>))"
  by (simp add: sqlite_execute_def prepare_simps exec_exists_source_path_def sql_eq_str
      split: option.splits)

lemma exec_list_prompts_eq:
  "sqlite_execute now c sql_list_prompts [VInt l, VInt off] =
     (case prompt_templates (c_store c) of
        None \<Rightarrow> Inl (no_such_table ''prompt_templates'')
      | Some t \<Rightarrow>
          if \<not> (int64 l \<and> int64 off) then Inl OverflowError
          else
          Inr (c, \<lparr>description = listing_columns,
                   cur_rows = map listing_values
                                (limit_offset l off (order_by_updated_desc (tbl_rows t)))\<rparr>))"
  by (simp add: sqlite_execute_def prepare_simps exec_list_prompts_def split: option.splits)

lemma not_autocommitted:
  "autocommitted lib sql_select_report = False"
  "autocommitted lib sql_list_prompts = False"
  "autocommitted lib sql_select_prompt = False"
  "autocommitted lib sql_exists_source_path = False"
  by (simp_all add: autocommitted_def prepare_simps)

subsection \<open>The direct reads\<close>

lemma connect_and_execute_eq:
  "connect_and_execute w p q ps =
     (if \<not> dir_there w p then
        (Inl (OperationalError ''unable to open database file''),
         w\<lparr>events := events w @ [Connect p]\<rparr>)
      else
        (case sqlite_execute (clock w) (opened w p) q ps of
           Inl e \<Rightarrow>
             (Inl e, w\<lparr>events := events w @ [Connect p, Execute p q, Close p],
                       files := (files w)(p \<mapsto> store_at w p)\<rparr>)
         | Inr (db, cur) \<Rightarrow>
             (Inr cur,
              w\<lparr>events := events w @ [Connect p, Execute p q, Close p],
                files := (files w)(p \<mapsto> (if autocommitted (sqlite3 w) q then c_store db else store_at w p))\<rparr>)))"
proof (cases "dir_there w p")
  case False
  then show ?thesis
    by (simp add: connect_and_execute_def connect_not_there)
next
  case True
  show ?thesis
  proof (cases "sqlite_execute (clock w) (opened w p) q ps")
    case (Inl e)
    with True show ?thesis
      by (simp add: connect_and_execute_def connect_there db_execute_def db_close_def emit_def
          opened_def Let_def)
  next
    case (Inr r)
    obtain db cur where r: "r = (db, cur)" by (cases r)
    have path: "c_path db = p"
      using sqlite_execute_path[of "clock w" "opened w p" q ps db cur] Inr r
      by (simp add: opened_def)
    show ?thesis
      using True Inr r path
      by (simp add: connect_and_execute_def connect_there db_execute_def db_close_def emit_def
          opened_def Let_def)
  qed
qed

text \<open>The row a key selects: the first one that carries it.\<close>

lemma filter_first_find:
  "(case filter P xs of [] \<Rightarrow> None | x # ys \<Rightarrow> Some x) = find P xs"
  by (induction xs) auto

text \<open>No row carries a key that is no 64-bit integer.\<close>

lemma no_row_out_of_range:
  assumes "\<not> int64 i"
  shows "filter (\<lambda>r. r_id r = i) rows = []"
    and "find (\<lambda>r. r_id r = i) rows = None"
    and "i \<notin> set (map r_id rows)"
  using assms by (auto simp: filter_empty_conv find_None_iff)

lemma get_report_by_id_eq:
  "fst (get_report_by_id self w i) =
     Inr (if dir_there w (reports_db_path self) then
            (case reports (store_at w (reports_db_path self)) of
               None \<Rightarrow> None
             | Some t \<Rightarrow> map_option (\<lambda>r. zip report_columns (report_values r))
                          (find (\<lambda>r. r_id r = i) (tbl_rows t)))
          else None)"
proof (cases "int64 i")
  case True
  then show ?thesis
    by (auto simp: get_report_by_id_def connect_and_execute_eq exec_select_report_eq opened_def
        fetchone_def row_dict_def report_values_def filter_first_find[symmetric]
        split: option.splits list.splits)
next
  case False
  then show ?thesis
    by (auto simp: get_report_by_id_def connect_and_execute_eq exec_select_report_eq opened_def
        no_row_out_of_range split: option.splits)
qed

lemma get_report_by_id_world:
  "dirs (snd (get_report_by_id self w i)) = dirs w"
  "clock (snd (get_report_by_id self w i)) = clock w"
  "no_mkdir (snd (get_report_by_id self w i)) = no_mkdir w"
  "store_at (snd (get_report_by_id self w i)) p = store_at w p"
  "sqlite3 (snd (get_report_by_id self w i)) = sqlite3 w"
  by (auto simp: get_report_by_id_def connect_and_execute_eq exec_select_report_eq opened_def
      fetchone_def emit_def not_autocommitted store_at_def
      split: option.splits list.splits)

subsection \<open>The write methods of the report repository\<close>

lemma update_report_status_unfold:
  "update_report_status self w report_id status processed_content =
     (case execute_query w (reports_db_path self) (status_statement processed_content)
             (status_params status processed_content report_id) False False True of
        (Inr r, w1) \<Rightarrow>
          (Inr True,
           emit w1 (Log INFO ''update_report_status''
                     [(''new_status'', status), (''operation'', ''update_report_status''),
                      (''db_operation_status'', ''success'')]))
      | (Inl e, w1) \<Rightarrow>
          (Inr False,
           emit w1 (Log ERROR ''update_report_status''
                     [(''new_status'', status), (''operation'', ''update_report_status''),
                      (''db_operation_status'', ''failure''), (''error_message'', error_str e)])))"
  by (cases processed_content)
     (simp_all add: update_report_status_def status_statement_def status_params_def
        sql_update_status_def sql_update_status_content_def Let_def
        split: prod.splits sum.splits)

lemma status_prepare:
  "sqlite_prepare (status_statement processed_content) =
     Some (UpdateReport (status_columns processed_content))"
  "length (status_params status processed_content report_id) =
     length (status_columns processed_content) + 1"
  "is_insert (status_statement processed_content) = False"
  by (cases processed_content;
      simp add: status_statement_def status_columns_def status_params_def prepare_simps
        is_insert_simps)+

lemma update_row_status:
  "update_row now (status_columns processed_content)
     (status_params status processed_content report_id) r =
     (if r_id r = report_id
      then r\<lparr>r_status := VStr status,
             r_content := (case processed_content of None \<Rightarrow> r_content r | Some c \<Rightarrow> VStr c),
             r_processed_at := now\<rparr>
      else r)"
  by (cases processed_content)
     (simp_all add: update_row_def status_columns_def status_params_def)

lemma update_row_analysis:
  "update_row now [AnalysisJson, Status] [VStr analysis_data, VStr status, VInt report_id] r =
     (if r_id r = report_id
      then r\<lparr>r_analysis_json := VStr analysis_data, r_status := VStr status,
             r_processed_at := now\<rparr>
      else r)"
  by (simp add: update_row_def)

lemma update_row_metadata:
  "update_row now [Metadata] [VStr m, VInt report_id] r =
     (if r_id r = report_id then r\<lparr>r_metadata := VStr m, r_processed_at := now\<rparr> else r)"
  by (simp add: update_row_def)

lemma with_rows_untouched:
  assumes "reports st = Some t" and "\<And>r. r \<in> set (tbl_rows t) \<Longrightarrow> f r = r"
  shows "with_rows st f = st"
proof -
  have "map f (tbl_rows t) = tbl_rows t"
    using assms(2) by (simp add: map_idI)
  then show ?thesis
    using assms(1) by (simp add: with_rows_def)
qed

lemma status_bindable:
  "list_all bindable (status_params status processed_content report_id) = int64 report_id"
  by (cases processed_content) (simp_all add: status_params_def)

text \<open>An \<^verbatim>\<open>UPDATE\<close> through the executor: it runs when the directory can be provisioned,
  the table exists and the file can be written, and then rewrites the rows with the key.\<close>

lemma execute_update_eq:
  assumes "sqlite_prepare q = Some (UpdateReport cols)" and "length ps = length cols + 1"
    and "is_insert q = False"
  shows "fst (execute_query w p q ps False False True) =
           (if \<not> dir_ready w p then Inl OSError
            else case reports (store_at w p) of
                   None \<Rightarrow> Inl (no_such_table ''reports'')
                 | Some t \<Rightarrow> if \<not> list_all bindable ps then Inl OverflowError
                             else if \<not> writable (store_at w p) then Inl readonly_database
                             else Inr (Scalar VNone))"
    and "store_at (snd (execute_query w p q ps False False True)) p =
           (if reports_writable w p \<and> list_all bindable ps
            then with_rows (store_at w p) (update_row (clock w) cols ps)
            else store_at w p)"
    and "dir_ready w p \<Longrightarrow> dir_there (snd (execute_query w p q ps False False True)) p"
    and "clock (snd (execute_query w p q ps False False True)) = clock w"
proof -
  note ex = exec_update_eq[OF assms(1,2)]
  show "fst (execute_query w p q ps False False True) =
           (if \<not> dir_ready w p then Inl OSError
            else case reports (store_at w p) of
                   None \<Rightarrow> Inl (no_such_table ''reports'')
                 | Some t \<Rightarrow> if \<not> list_all bindable ps then Inl OverflowError
                             else if \<not> writable (store_at w p) then Inl readonly_database
                             else Inr (Scalar VNone))"
    by (simp add: execute_query_eq ex assms(3) returned_def opened_def split: option.splits)
  show "store_at (snd (execute_query w p q ps False False True)) p =
           (if reports_writable w p \<and> list_all bindable ps
            then with_rows (store_at w p) (update_row (clock w) cols ps)
            else store_at w p)"
    by (auto simp: execute_query_eq ex opened_def reports_writable_def with_rows_def store_at_def
        split: option.splits)
  show "dir_ready w p \<Longrightarrow> dir_there (snd (execute_query w p q ps False False True)) p"
    using provisioned_there[of w p]
    by (auto simp: execute_query_eq ex opened_def dir_there_def path_exists_def
        split: option.splits)
  show "clock (snd (execute_query w p q ps False False True)) = clock w"
    by (auto simp: execute_query_eq ex opened_def split: option.splits)
qed

lemma emit_frame [simp]:
  "store_at (emit w e) p = store_at w p"
  "dir_there (emit w e) p = dir_there w p"
  "dir_ready (emit w e) p = dir_ready w p"
  "clock (emit w e) = clock w"
  "dirs (emit w e) = dirs w"
  "files (emit w e) = files w"
  "sqlite3 (emit w e) = sqlite3 w"
  "events (emit w e) = events w @ [e]"
  by (simp_all add: emit_def store_at_def dir_there_def dir_ready_def path_exists_def)

lemma update_report_status_eq:
  "fst (update_report_status self w report_id status processed_content) =
     Inr (reports_writable w (reports_db_path self) \<and> int64 report_id)"
  "store_at (snd (update_report_status self w report_id status processed_content))
     (reports_db_path self) =
     (if reports_writable w (reports_db_path self)
      then with_rows (store_at w (reports_db_path self))
             (update_row (clock w) (status_columns processed_content)
                (status_params status processed_content report_id))
      else store_at w (reports_db_path self))"
  "dir_ready w (reports_db_path self) \<Longrightarrow>
     dir_there (snd (update_report_status self w report_id status processed_content))
       (reports_db_path self)"
proof -
  note e = execute_update_eq[of "status_statement processed_content"
      "status_columns processed_content" "status_params status processed_content report_id"
      w "reports_db_path self", OF status_prepare]
  obtain r w1 where x: "execute_query w (reports_db_path self) (status_statement processed_content)
             (status_params status processed_content report_id) False False True = (r, w1)"
    by (cases "execute_query w (reports_db_path self) (status_statement processed_content)
             (status_params status processed_content report_id) False False True")
  show "fst (update_report_status self w report_id status processed_content) =
     Inr (reports_writable w (reports_db_path self) \<and> int64 report_id)"
    using e(1) x
    by (auto simp: update_report_status_unfold reports_writable_def status_bindable
        split: sum.splits option.splits if_splits)
  have same: "with_rows (store_at w (reports_db_path self))
             (update_row (clock w) (status_columns processed_content)
                (status_params status processed_content report_id)) =
           store_at w (reports_db_path self)"
    if "\<not> int64 report_id" and "reports_writable w (reports_db_path self)"
  proof -
    from that(2) obtain t where t: "reports (store_at w (reports_db_path self)) = Some t"
      by (auto simp: reports_writable_def)
    have "r_id x \<noteq> report_id" for x
      using that(1) int64_r_id[of x] by auto
    then show ?thesis
      by (intro with_rows_untouched[OF t]) (simp add: update_row_status)
  qed
  show "store_at (snd (update_report_status self w report_id status processed_content))
     (reports_db_path self) =
     (if reports_writable w (reports_db_path self)
      then with_rows (store_at w (reports_db_path self))
             (update_row (clock w) (status_columns processed_content)
                (status_params status processed_content report_id))
      else store_at w (reports_db_path self))"
    using e(2) x same
    by (auto simp: update_report_status_unfold status_bindable split: sum.splits)
  show "dir_ready w (reports_db_path self) \<Longrightarrow>
     dir_there (snd (update_report_status self w report_id status processed_content))
       (reports_db_path self)"
    using e(3) x
    by (auto simp: update_report_status_unfold split: sum.splits)
qed

lemma update_report_analysis_eq:
  "fst (update_report_analysis self w report_id analysis_data status) =
     Inr (reports_writable w (reports_db_path self) \<and> int64 report_id)"
  "store_at (snd (update_report_analysis self w report_id analysis_data status))
     (reports_db_path self) =
     (if reports_writable w (reports_db_path self)
      then with_rows (store_at w (reports_db_path self))
             (update_row (clock w) [AnalysisJson, Status]
                [VStr analysis_data, VStr status, VInt report_id])
      else store_at w (reports_db_path self))"
proof -
  have l: "length [VStr analysis_data, VStr status, VInt report_id] = length [AnalysisJson, Status] + 1"
    by simp
  note e = execute_update_eq[OF prepare_simps(7) l is_insert_simps(5), of w "reports_db_path self"]
  obtain r w1 where x: "execute_query w (reports_db_path self) sql_update_analysis
             [VStr analysis_data, VStr status, VInt report_id] False False True = (r, w1)"
    by (cases "execute_query w (reports_db_path self) sql_update_analysis
             [VStr analysis_data, VStr status, VInt report_id] False False True")
  show "fst (update_report_analysis self w report_id analysis_data status) =
     Inr (reports_writable w (reports_db_path self) \<and> int64 report_id)"
    using e(1) x
    by (auto simp: update_report_analysis_def reports_writable_def Let_def
        split: sum.splits option.splits if_splits)
  have same: "with_rows (store_at w (reports_db_path self))
             (update_row (clock w) [AnalysisJson, Status]
                [VStr analysis_data, VStr status, VInt report_id]) =
           store_at w (reports_db_path self)"
    if "\<not> int64 report_id" and "reports_writable w (reports_db_path self)"
  proof -
    from that(2) obtain t where t: "reports (store_at w (reports_db_path self)) = Some t"
      by (auto simp: reports_writable_def)
    have "r_id x \<noteq> report_id" for x
      using that(1) int64_r_id[of x] by auto
    then show ?thesis
      by (intro with_rows_untouched[OF t]) (simp add: update_row_analysis)
  qed
  show "store_at (snd (update_report_analysis self w report_id analysis_data status))
     (reports_db_path self) =
     (if reports_writable w (reports_db_path self)
      then with_rows (store_at w (reports_db_path self))
             (update_row (clock w) [AnalysisJson, Status]
                [VStr analysis_data, VStr status, VInt report_id])
      else store_at w (reports_db_path self))"
    using e(2) x same
    by (auto simp: update_report_analysis_def Let_def split: sum.splits)
qed

lemma find_map_key:
  assumes "\<And>r. r_id (f r) = r_id r"
  shows "find (\<lambda>r. r_id r = i) (map f rs) = map_option f (find (\<lambda>r. r_id r = i) rs)"
  by (induction rs) (simp_all add: assms)

lemma report_dict_get:
  "dict_get (zip report_columns (report_values r)) ''id'' = VInt (r_id r)"
  "dict_get (zip report_columns (report_values r)) ''original_filename'' = r_original_filename r"
  "dict_get (zip report_columns (report_values r)) ''content'' = r_content r"
  "dict_get (zip report_columns (report_values r)) ''source_path'' = r_source_path r"
  "dict_get (zip report_columns (report_values r)) ''processed_at'' = VTime (r_processed_at r)"
  "dict_get (zip report_columns (report_values r)) ''status'' = r_status r"
  "dict_get (zip report_columns (report_values r)) ''metadata'' = r_metadata r"
  "dict_get (zip report_columns (report_values r)) ''analysis_json'' = r_analysis_json r"
  by (simp_all add: dict_get_def report_columns_def report_values_def)

subsection \<open>Updates of a report that is not there\<close>

text \<open>
  Claim C10, as the code has it. \<^verbatim>\<open>update_report_status\<close> and \<^verbatim>\<open>update_report_analysis\<close>
  return \<^verbatim>\<open>True\<close> exactly when their statement ran: the directory could be provisioned,
  the table exists, the file can be written and the id is a 64-bit integer, which is
  what \<^verbatim>\<open>sqlite3\<close> can bind. Where that is so, for an id that no row of the table
  carries they return \<^verbatim>\<open>True\<close> all the same and leave the store as it was.
\<close>

theorem update_of_missing_report_succeeds:
  assumes "reports_writable w (reports_db_path self)"
    and "reports (store_at w (reports_db_path self)) = Some t"
    and "report_id \<notin> set (map r_id (tbl_rows t))"
    and "int64 report_id"
  shows "fst (update_report_status self w report_id status processed_content) = Inr True
       \<and> fst (update_report_analysis self w report_id analysis_data status) = Inr True
       \<and> store_at (snd (update_report_status self w report_id status processed_content))
           (reports_db_path self) = store_at w (reports_db_path self)
       \<and> store_at (snd (update_report_analysis self w report_id analysis_data status))
           (reports_db_path self) = store_at w (reports_db_path self)
       \<and> fst (update_report_status self w' any_id status processed_content) =
           Inr (reports_writable w' (reports_db_path self) \<and> int64 any_id)
       \<and> fst (update_report_analysis self w' any_id analysis_data status) =
           Inr (reports_writable w' (reports_db_path self) \<and> int64 any_id)"
proof -
  have miss: "\<And>r. r \<in> set (tbl_rows t) \<Longrightarrow> r_id r \<noteq> report_id"
    using assms(3) by auto
  have a: "with_rows (store_at w (reports_db_path self))
             (update_row (clock w) (status_columns processed_content)
                (status_params status processed_content report_id)) =
           store_at w (reports_db_path self)"
    by (rule with_rows_untouched[OF assms(2)]) (simp add: update_row_status miss)
  have b: "with_rows (store_at w (reports_db_path self))
             (update_row (clock w) [AnalysisJson, Status]
                [VStr analysis_data, VStr status, VInt report_id]) =
           store_at w (reports_db_path self)"
    by (rule with_rows_untouched[OF assms(2)]) (simp add: update_row_analysis miss)
  show ?thesis
    using assms(1,4) a b
    by (simp add: update_report_status_eq update_report_analysis_eq)
qed

theorem update_of_missing_report_succeeds_witness:
  "reports_writable world1 (reports_db_path dal0)
   \<and> reports (store_at world1 (reports_db_path dal0)) = Some \<lparr>tbl_rows = [report1], tbl_seq = 1\<rparr>
   \<and> (42::int) \<notin> set (map r_id [report1])
   \<and> int64 42
   \<and> fst (update_report_status dal0 world1 42 ''done'' None) = Inr True
   \<and> fst (update_report_analysis dal0 world1 42 ''{}'' ''done'') = Inr True
   \<and> store_at (snd (update_report_status dal0 world1 42 ''done'' None)) (reports_db_path dal0)
       = store1
   \<and> store_at (snd (update_report_analysis dal0 world1 42 ''{}'' ''done'')) (reports_db_path dal0)
       = store1
   \<and> fst (update_report_status dal0 fresh_world 42 ''done'' None) = Inr False
   \<and> fst (update_report_analysis dal0 world1 (- 9223372036854775809) ''{}'' ''done'') = Inr False"
proof -
  have h1: "reports_writable world1 (reports_db_path dal0)" by code_simp
  have h2: "reports (store_at world1 (reports_db_path dal0)) =
              Some \<lparr>tbl_rows = [report1], tbl_seq = 1\<rparr>" by code_simp
  have h3: "(42::int) \<notin> set (map r_id (tbl_rows \<lparr>tbl_rows = [report1], tbl_seq = 1\<rparr>))"
    by code_simp
  have h4: "int64 42" by code_simp
  have s: "store_at world1 (reports_db_path dal0) = store1" by code_simp
  have n: "\<not> reports_writable fresh_world (reports_db_path dal0)" by code_simp
  have o: "\<not> int64 (- 9223372036854775809)" by code_simp
  note t = update_of_missing_report_succeeds[OF h1 h2 h3 h4, of "''done''" None "''{}''"]
  show ?thesis
    using h1 h2 h3 h4 t[of fresh_world 42] t[of world1 "- 9223372036854775809"] s n o by simp
qed

text \<open>The claim as stated covers every id that no row carries. An id beyond SQLite's
  64-bit integers is such an id, and for it the methods return \<^verbatim>\<open>False\<close>: \<^verbatim>\<open>sqlite3\<close>
  raises \<^verbatim>\<open>OverflowError\<close> when the id is bound, \<^verbatim>\<open>_execute_query\<close> raises it again, and
  the handler of the method returns \<^verbatim>\<open>False\<close>.\<close>

theorem update_of_unbindable_id_counterexample:
  "reports_writable world1 (reports_db_path dal0)
   \<and> reports (store_at world1 (reports_db_path dal0)) = Some \<lparr>tbl_rows = [report1], tbl_seq = 1\<rparr>
   \<and> (9223372036854775808::int) \<notin> set (map r_id [report1])
   \<and> fst (execute_query world1 (reports_db_path dal0) sql_update_status
            [VStr ''done'', VInt 9223372036854775808] False False True) = Inl OverflowError
   \<and> fst (update_report_status dal0 world1 9223372036854775808 ''done'' None) = Inr False
   \<and> fst (update_report_analysis dal0 world1 9223372036854775808 ''{}'' ''done'') = Inr False"
proof -
  have h1: "reports_writable world1 (reports_db_path dal0)" by code_simp
  have h2: "reports (store_at world1 (reports_db_path dal0)) =
              Some \<lparr>tbl_rows = [report1], tbl_seq = 1\<rparr>" by code_simp
  have h3: "(9223372036854775808::int) \<notin> set (map r_id [report1])" by code_simp
  have o: "\<not> int64 9223372036854775808" by code_simp
  have l: "length [VStr ''done'', VInt 9223372036854775808] = length [Status] + 1" by simp
  have x: "fst (execute_query world1 (reports_db_path dal0) sql_update_status
            [VStr ''done'', VInt 9223372036854775808] False False True) = Inl OverflowError"
    using h1 h2 o
    by (simp add: execute_update_eq(1)[OF prepare_simps(5) l is_insert_simps(3)]
        reports_writable_def)
  show ?thesis
    using h1 h2 h3 o x by (simp add: update_report_status_eq update_report_analysis_eq)
qed

lemma fold_max_ge: "(a::int) \<le> fold max xs a"
proof (induction xs arbitrary: a)
  case Nil
  then show ?case by simp
next
  case (Cons x xs)
  have "a \<le> max x a" by simp
  also have "\<dots> \<le> fold max xs (max x a)" by (rule Cons.IH)
  finally show ?case by simp
qed

lemma fold_max_mem: "(x::int) \<in> set xs \<Longrightarrow> x \<le> fold max xs a"
proof (induction xs arbitrary: a)
  case Nil
  then show ?case by simp
next
  case (Cons y ys)
  show ?case
  proof (cases "x = y")
    case True
    have "x \<le> max y a" using True by simp
    also have "\<dots> \<le> fold max ys (max y a)" by (rule fold_max_ge)
    finally show ?thesis by simp
  next
    case False
    with Cons.prems have "x \<in> set ys" by simp
    then show ?thesis using Cons.IH by simp
  qed
qed

lemma next_rowid_fresh: "x \<in> set ids \<Longrightarrow> x < next_rowid ids seq"
  using fold_max_mem[of x ids seq] by (simp add: next_rowid_def)

lemma execute_insert_report_eq:
  assumes b: "list_all bindable [content, sp, md, st]"
  shows "fst (execute_query w p sql_insert_report [VStr fn, content, sp, md, st] False False True) =
     (if \<not> dir_ready w p then Inl OSError
      else case reports (store_at w p) of
             None \<Rightarrow> Inl (no_such_table ''reports'')
           | Some t \<Rightarrow>
               if \<not> writable (store_at w p) then Inl readonly_database
               else if \<not> has_room t then Inl database_full
               else Inr (Scalar (VInt (next_rowid (map r_id (tbl_rows t)) (tbl_seq t)))))"
  and "store_at (snd (execute_query w p sql_insert_report [VStr fn, content, sp, md, st]
                   False False True)) p =
     (case reports (store_at w p) of
        None \<Rightarrow> store_at w p
      | Some t \<Rightarrow>
          if reports_writable w p \<and> has_room t
          then with_report (store_at w p) (added_report (clock w) t (VStr fn) content sp md st)
          else store_at w p)"
  and "dir_ready w p \<Longrightarrow>
     dir_there (snd (execute_query w p sql_insert_report [VStr fn, content, sp, md, st]
                       False False True)) p"
  and "clock (snd (execute_query w p sql_insert_report [VStr fn, content, sp, md, st]
                       False False True)) = clock w"
proof -
  note ex = exec_insert_report_eq[OF b]
  show "fst (execute_query w p sql_insert_report [VStr fn, content, sp, md, st] False False True) =
     (if \<not> dir_ready w p then Inl OSError
      else case reports (store_at w p) of
             None \<Rightarrow> Inl (no_such_table ''reports'')
           | Some t \<Rightarrow>
               if \<not> writable (store_at w p) then Inl readonly_database
               else if \<not> has_room t then Inl database_full
               else Inr (Scalar (VInt (next_rowid (map r_id (tbl_rows t)) (tbl_seq t)))))"
    by (simp add: execute_query_eq ex is_insert_simps returned_def opened_def
        split: option.splits)
  show "store_at (snd (execute_query w p sql_insert_report [VStr fn, content, sp, md, st]
                   False False True)) p =
     (case reports (store_at w p) of
        None \<Rightarrow> store_at w p
      | Some t \<Rightarrow>
          if reports_writable w p \<and> has_room t
          then with_report (store_at w p) (added_report (clock w) t (VStr fn) content sp md st)
          else store_at w p)"
  proof (cases "reports (store_at w p)")
    case None
    then show ?thesis
      by (auto simp: execute_query_eq ex opened_def store_at_def split: option.splits)
  next
    case (Some t)
    show ?thesis
    proof (cases "reports_writable w p \<and> has_room t")
      case True
      then have k: "r_id (added_report (clock w) t (VStr fn) content sp md st) =
                      next_rowid (map r_id (tbl_rows t)) (tbl_seq t)"
        by (simp add: r_id_added_report)
      from True Some show ?thesis
        by (simp add: execute_query_eq ex opened_def reports_writable_def with_report_def k
            store_at_def)
    next
      case False
      with Some show ?thesis
        by (auto simp: execute_query_eq ex opened_def reports_writable_def store_at_def
            split: option.splits)
    qed
  qed
  show "dir_ready w p \<Longrightarrow>
     dir_there (snd (execute_query w p sql_insert_report [VStr fn, content, sp, md, st]
                       False False True)) p"
    using provisioned_there[of w p]
    by (auto simp: execute_query_eq ex opened_def dir_there_def path_exists_def
        split: option.splits)
  show "clock (snd (execute_query w p sql_insert_report [VStr fn, content, sp, md, st]
                       False False True)) = clock w"
    by (auto simp: execute_query_eq ex opened_def split: option.splits)
qed

lemma insert_report_data_eq:
  "fst (insert_report_data js self w fn content sp md status) =
     Inr (case reports (store_at w (reports_db_path self)) of
            None \<Rightarrow> Scalar VNone
          | Some t \<Rightarrow>
              if reports_writable w (reports_db_path self) \<and> has_room t
              then Scalar (VInt (next_rowid (map r_id (tbl_rows t)) (tbl_seq t)))
              else Scalar VNone)"
  "store_at (snd (insert_report_data js self w fn content sp md status)) (reports_db_path self) =
     (case reports (store_at w (reports_db_path self)) of
        None \<Rightarrow> store_at w (reports_db_path self)
      | Some t \<Rightarrow>
          if reports_writable w (reports_db_path self) \<and> has_room t
          then with_report (store_at w (reports_db_path self))
                 (added_report (clock w) t (VStr fn) (opt_str content) (VStr sp)
                    (metadata_text js md) (VStr status))
          else store_at w (reports_db_path self))"
  "dir_ready w (reports_db_path self) \<Longrightarrow>
     dir_there (snd (insert_report_data js self w fn content sp md status)) (reports_db_path self)"
  "clock (snd (insert_report_data js self w fn content sp md status)) = clock w"
proof -
  have b: "list_all bindable [opt_str content, VStr sp, metadata_text js md, VStr status]"
    by simp
  note e = execute_insert_report_eq[OF b, of w "reports_db_path self" fn]
  obtain r w1 where x: "execute_query w (reports_db_path self) sql_insert_report
        [VStr fn, opt_str content, VStr sp, metadata_text js md, VStr status] False False True
        = (r, w1)"
    by (cases "execute_query w (reports_db_path self) sql_insert_report
        [VStr fn, opt_str content, VStr sp, metadata_text js md, VStr status] False False True")
  show "fst (insert_report_data js self w fn content sp md status) =
     Inr (case reports (store_at w (reports_db_path self)) of
            None \<Rightarrow> Scalar VNone
          | Some t \<Rightarrow>
              if reports_writable w (reports_db_path self) \<and> has_room t
              then Scalar (VInt (next_rowid (map r_id (tbl_rows t)) (tbl_seq t)))
              else Scalar VNone)"
    using e(1) x
    by (auto simp: insert_report_data_def Let_def reports_writable_def
        split: sum.splits option.splits if_splits)
  show "store_at (snd (insert_report_data js self w fn content sp md status)) (reports_db_path self) =
     (case reports (store_at w (reports_db_path self)) of
        None \<Rightarrow> store_at w (reports_db_path self)
      | Some t \<Rightarrow>
          if reports_writable w (reports_db_path self) \<and> has_room t
          then with_report (store_at w (reports_db_path self))
                 (added_report (clock w) t (VStr fn) (opt_str content) (VStr sp)
                    (metadata_text js md) (VStr status))
          else store_at w (reports_db_path self))"
    using e(2) x
    by (auto simp: insert_report_data_def Let_def split: sum.splits)
  show "dir_ready w (reports_db_path self) \<Longrightarrow>
     dir_there (snd (insert_report_data js self w fn content sp md status)) (reports_db_path self)"
    using e(3) x
    by (auto simp: insert_report_data_def Let_def split: sum.splits)
  show "clock (snd (insert_report_data js self w fn content sp md status)) = clock w"
    using e(4) x
    by (auto simp: insert_report_data_def Let_def split: sum.splits)
qed

lemma first_row_found:
  "((case take 1 (map f xs) of [] \<Rightarrow> Scalar VNone | row # rest \<Rightarrow> Row row) \<noteq> Scalar VNone)
     = (xs \<noteq> [])"
  by (cases xs) simp_all

lemma check_report_exists_eq:
  "fst (check_report_exists_by_source_path self w source_path) =
     Inr (dir_ready w (reports_db_path self) \<and>
          (case reports (store_at w (reports_db_path self)) of
             None \<Rightarrow> False
           | Some t \<Rightarrow> list_ex (\<lambda>r. r_source_path r = VStr source_path) (tbl_rows t)))"
proof (cases "dir_ready w (reports_db_path self)")
  case False
  then show ?thesis
    by (simp add: check_report_exists_by_source_path_def execute_query_eq Let_def)
next
  case True
  show ?thesis
  proof (cases "reports (store_at w (reports_db_path self))")
    case None
    with True show ?thesis
      by (simp add: check_report_exists_by_source_path_def execute_query_eq exec_exists_eq
          opened_def Let_def)
  next
    case (Some t)
    have ne: "(filter (\<lambda>r. r_source_path r = VStr source_path) (tbl_rows t) \<noteq> []) =
              list_ex (\<lambda>r. r_source_path r = VStr source_path) (tbl_rows t)"
      by (simp add: list_ex_iff filter_empty_conv)
    from True Some show ?thesis
      by (simp add: check_report_exists_by_source_path_def execute_query_eq exec_exists_eq
          opened_def Let_def returned_def first_row_found ne del: One_nat_def)
  qed
qed

lemma find_append_fresh:
  assumes "\<And>x. x \<in> set xs \<Longrightarrow> \<not> P x"
  shows "find P (xs @ ys) = find P ys"
  using assms by (induction xs) simp_all

lemma insert_report_data_success:
  assumes "fst (insert_report_data js self w fn content sp md status) = Inr (Scalar (VInt i))"
  obtains t where "reports (store_at w (reports_db_path self)) = Some t"
    and "reports_writable w (reports_db_path self)"
    and "i = next_rowid (map r_id (tbl_rows t)) (tbl_seq t)"
    and "has_room t"
  using assms
  by (auto simp: insert_report_data_eq split: option.splits if_splits)

subsection \<open>The existence check\<close>

text \<open>
  Claim C8. \<^verbatim>\<open>check_report_exists_by_source_path\<close> never raises. Where the check runs
  (the directory can be provisioned and the table exists) it returns \<^verbatim>\<open>True\<close> if and only
  if some stored row has exactly that \<^verbatim>\<open>source_path\<close>: so it is \<^verbatim>\<open>True\<close> right after
  \<^verbatim>\<open>insert_report_data\<close> returned an id for that path, and \<^verbatim>\<open>False\<close> for a path no row
  has. Where the executor raises it returns \<^verbatim>\<open>False\<close> as well, the same value as for no
  match.
\<close>

theorem exists_by_source_path:
  "fst (check_report_exists_by_source_path self w source_path) =
     Inr (dir_ready w (reports_db_path self) \<and>
          (case reports (store_at w (reports_db_path self)) of
             None \<Rightarrow> False
           | Some t \<Rightarrow> list_ex (\<lambda>r. r_source_path r = VStr source_path) (tbl_rows t)))
   \<and> (fst (insert_report_data js self w fn content source_path md status) = Inr (Scalar (VInt i))
        \<longrightarrow> fst (check_report_exists_by_source_path self
                   (snd (insert_report_data js self w fn content source_path md status))
                   source_path) = Inr True)
   \<and> (reports (store_at w (reports_db_path self)) = Some t
        \<and> VStr source_path \<notin> set (map r_source_path (tbl_rows t))
        \<longrightarrow> fst (check_report_exists_by_source_path self w source_path) = Inr False)
   \<and> (fst (execute_query w (reports_db_path self) sql_exists_source_path [VStr source_path]
             True False False) = Inl e
        \<longrightarrow> fst (check_report_exists_by_source_path self w source_path) = Inr False)"
proof (intro conjI impI)
  show "fst (check_report_exists_by_source_path self w source_path) =
     Inr (dir_ready w (reports_db_path self) \<and>
          (case reports (store_at w (reports_db_path self)) of
             None \<Rightarrow> False
           | Some t \<Rightarrow> list_ex (\<lambda>r. r_source_path r = VStr source_path) (tbl_rows t)))"
    by (rule check_report_exists_eq)
next
  assume a: "fst (insert_report_data js self w fn content source_path md status)
               = Inr (Scalar (VInt i))"
  let ?w' = "snd (insert_report_data js self w fn content source_path md status)"
  from a obtain t where t: "reports (store_at w (reports_db_path self)) = Some t"
    and rw: "reports_writable w (reports_db_path self)"
    and room: "has_room t"
    by (rule insert_report_data_success)
  have ready: "dir_ready ?w' (reports_db_path self)"
    using rw by (simp add: insert_report_data_eq reports_writable_def dir_ready_def)
  have "reports (store_at ?w' (reports_db_path self)) =
          Some \<lparr>tbl_rows = tbl_rows t @
                   [added_report (clock w) t (VStr fn) (opt_str content) (VStr source_path)
                      (metadata_text js md) (VStr status)],
                tbl_seq = r_id (added_report (clock w) t (VStr fn) (opt_str content)
                      (VStr source_path) (metadata_text js md) (VStr status))\<rparr>"
    using t rw room by (simp add: insert_report_data_eq with_report_def)
  then show "fst (check_report_exists_by_source_path self ?w' source_path) = Inr True"
    using ready by (simp add: check_report_exists_eq added_report_def)
next
  assume "reports (store_at w (reports_db_path self)) = Some t
        \<and> VStr source_path \<notin> set (map r_source_path (tbl_rows t))"
  then have t: "reports (store_at w (reports_db_path self)) = Some t"
    and none: "\<not> list_ex (\<lambda>r. r_source_path r = VStr source_path) (tbl_rows t)"
    by (auto simp: list_ex_iff intro: rev_image_eqI)
  show "fst (check_report_exists_by_source_path self w source_path) = Inr False"
    by (simp add: check_report_exists_eq t none)
next
  assume "fst (execute_query w (reports_db_path self) sql_exists_source_path [VStr source_path]
             True False False) = Inl e"
  then show "fst (check_report_exists_by_source_path self w source_path) = Inr False"
    by (cases "execute_query w (reports_db_path self) sql_exists_source_path [VStr source_path]
             True False False")
       (simp add: check_report_exists_by_source_path_def Let_def)
qed

theorem exists_by_source_path_witness:
  "fst (check_report_exists_by_source_path dal0 world1 ''/drive/wolf_in/weekly.docx'') = Inr True
   \<and> fst (check_report_exists_by_source_path dal0 world1 ''/drive/wolf_in/weekly.doc'') = Inr False
   \<and> fst (insert_report_data mini_json dal0 world1 ''monthly.pdf'' None
            ''/drive/wolf_in/monthly.pdf'' None ''new'') = Inr (Scalar (VInt 2))
   \<and> fst (check_report_exists_by_source_path dal0
            (snd (insert_report_data mini_json dal0 world1 ''monthly.pdf'' None
                    ''/drive/wolf_in/monthly.pdf'' None ''new''))
            ''/drive/wolf_in/monthly.pdf'') = Inr True
   \<and> fst (check_report_exists_by_source_path dal0 world1 ''/drive/wolf_in/monthly.pdf'') = Inr False
   \<and> fst (execute_query locked_world (reports_db_path dal0) sql_exists_source_path
            [VStr ''/drive/wolf_in/weekly.docx''] True False False) = Inl OSError
   \<and> fst (check_report_exists_by_source_path dal0 locked_world ''/drive/wolf_in/weekly.docx'')
       = Inr False"
proof -
  note main = exists_by_source_path
  have r1: "dir_ready world1 (reports_db_path dal0)" by code_simp
  have s1: "store_at world1 (reports_db_path dal0) = store1" by code_simp
  have ins: "fst (insert_report_data mini_json dal0 world1 ''monthly.pdf'' None
            ''/drive/wolf_in/monthly.pdf'' None ''new'') = Inr (Scalar (VInt 2))"
    by (simp add: insert_report_data_eq s1) code_simp
  have raised: "fst (execute_query locked_world (reports_db_path dal0) sql_exists_source_path
            [VStr ''/drive/wolf_in/weekly.docx''] True False False) = Inl OSError"
    by code_simp
  have a: "fst (check_report_exists_by_source_path dal0 world1 ''/drive/wolf_in/weekly.docx'')
             = Inr True"
    unfolding main[THEN conjunct1] by code_simp
  have b: "fst (check_report_exists_by_source_path dal0 world1 ''/drive/wolf_in/weekly.doc'')
             = Inr False"
    unfolding main[THEN conjunct1] by code_simp
  have c: "fst (check_report_exists_by_source_path dal0 world1 ''/drive/wolf_in/monthly.pdf'')
             = Inr False"
    unfolding main[THEN conjunct1] by code_simp
  note d = main[THEN conjunct2, THEN conjunct1, rule_format, OF ins]
  note e = main[THEN conjunct2, THEN conjunct2, THEN conjunct2, rule_format, OF raised]
  show ?thesis
    using a b c ins d raised e by simp
qed

subsection \<open>An empty metadata dictionary\<close>

text \<open>
  Claim C9. \<^verbatim>\<open>insert_report_data\<close> with the empty dictionary as metadata does exactly
  what it does with no metadata: the same outcome and the same world, the column bound
  to NULL, since the dictionary is serialised only when it is true. Where the insert
  returned an id, \<^verbatim>\<open>get_report_by_id\<close> of that id returns a record whose metadata is
  \<^verbatim>\<open>None\<close>.
\<close>

theorem empty_metadata_stored_as_null:
  "insert_report_data js self w fn content sp (Some []) status =
     insert_report_data js self w fn content sp None status
   \<and> metadata_text js (Some []) = VNone
   \<and> (fst (insert_report_data js self w fn content sp (Some []) status) = Inr (Scalar (VInt i))
        \<longrightarrow> (\<exists>d. fst (get_report_by_id self
                         (snd (insert_report_data js self w fn content sp (Some []) status)) i)
                     = Inr (Some d)
                 \<and> dict_get d ''metadata'' = VNone
                 \<and> dict_get d ''id'' = VInt i))"
proof (intro conjI impI)
  show "insert_report_data js self w fn content sp (Some []) status =
          insert_report_data js self w fn content sp None status"
    by (simp add: insert_report_data_def metadata_text_def)
  show "metadata_text js (Some []) = VNone"
    by (simp add: metadata_text_def)
next
  assume a: "fst (insert_report_data js self w fn content sp (Some []) status)
               = Inr (Scalar (VInt i))"
  let ?w' = "snd (insert_report_data js self w fn content sp (Some []) status)"
  let ?p = "reports_db_path self"
  from a obtain t where t: "reports (store_at w ?p) = Some t"
    and rw: "reports_writable w ?p"
    and i: "i = next_rowid (map r_id (tbl_rows t)) (tbl_seq t)"
    and room: "has_room t"
    by (rule insert_report_data_success)
  let ?r = "added_report (clock w) t (VStr fn) (opt_str content) (VStr sp) VNone (VStr status)"
  have there: "dir_there ?w' ?p"
    using rw by (simp add: insert_report_data_eq reports_writable_def)
  have tbl: "reports (store_at ?w' ?p) = Some \<lparr>tbl_rows = tbl_rows t @ [?r], tbl_seq = r_id ?r\<rparr>"
    using t rw room by (simp add: insert_report_data_eq with_report_def metadata_text_def)
  have old: "\<And>x. x \<in> set (tbl_rows t) \<Longrightarrow> \<not> r_id x = i"
    using next_rowid_fresh[of _ "map r_id (tbl_rows t)" "tbl_seq t"] i by fastforce
  have new: "r_id ?r = i"
    using room by (simp add: r_id_added_report i)
  have "find (\<lambda>x. r_id x = i) (tbl_rows t @ [?r]) = Some ?r"
    using find_append_fresh[of "tbl_rows t" "\<lambda>x. r_id x = i" "[?r]"] old new by simp
  then have "fst (get_report_by_id self ?w' i) = Inr (Some (zip report_columns (report_values ?r)))"
    using there tbl by (simp add: get_report_by_id_eq)
  moreover have "dict_get (zip report_columns (report_values ?r)) ''metadata'' = VNone"
    by (simp add: report_dict_get added_report_def)
  moreover have "dict_get (zip report_columns (report_values ?r)) ''id'' = VInt i"
    using new by (simp add: report_dict_get)
  ultimately show "\<exists>d. fst (get_report_by_id self ?w' i) = Inr (Some d)
                 \<and> dict_get d ''metadata'' = VNone \<and> dict_get d ''id'' = VInt i"
    by blast
qed

theorem empty_metadata_stored_as_null_witness:
  "fst (insert_report_data mini_json dal0 world1 ''monthly.pdf'' None
          ''/drive/wolf_in/monthly.pdf'' (Some []) ''new'') = Inr (Scalar (VInt 2))
   \<and> (\<exists>d. fst (get_report_by_id dal0
                 (snd (insert_report_data mini_json dal0 world1 ''monthly.pdf'' None
                         ''/drive/wolf_in/monthly.pdf'' (Some []) ''new'')) 2) = Inr (Some d)
          \<and> dict_get d ''metadata'' = VNone \<and> dict_get d ''id'' = VInt 2)"
proof -
  have s1: "store_at world1 (reports_db_path dal0) = store1" by code_simp
  have ins: "fst (insert_report_data mini_json dal0 world1 ''monthly.pdf'' None
            ''/drive/wolf_in/monthly.pdf'' (Some []) ''new'') = Inr (Scalar (VInt 2))"
    by (simp add: insert_report_data_eq s1) code_simp
  note t = empty_metadata_stored_as_null[THEN conjunct2, THEN conjunct2, rule_format, OF ins]
  show ?thesis
    using ins t by simp
qed

subsection \<open>What a call of the executor leaves untouched\<close>

lemma execute_query_frame:
  "clock (snd (execute_query w p q ps f1 fa c)) = clock w"
  "no_mkdir (snd (execute_query w p q ps f1 fa c)) = no_mkdir w"
  "sqlite3 (snd (execute_query w p q ps f1 fa c)) = sqlite3 w"
  "p' \<noteq> p \<Longrightarrow> store_at (snd (execute_query w p q ps f1 fa c)) p' = store_at w p'"
  "dirs (snd (execute_query w p q ps f1 fa c)) =
     (if dir_ready w p then dirs (provisioned w p) else dirs w)"
  by (auto simp: execute_query_eq store_at_def split: sum.splits)

lemma execute_query_there:
  assumes "dir_ready w p" and "posix_dirname p' = posix_dirname p"
  shows "dir_there (snd (execute_query w p q ps f1 fa c)) p'"
  using provisioned_there[OF assms(1)] assms
  by (simp add: execute_query_frame dir_there_def path_exists_def)

lemma execute_query_keeps_dir:
  assumes "dir_there w p'"
  shows "dir_there (snd (execute_query w p q ps f1 fa c)) p'"
  using assms provisioned_dirs[of w p]
  by (auto simp: execute_query_frame dir_there_def path_exists_def)

subsection \<open>The schema initialiser\<close>

lemma exec_create_eq:
  "sqlite_execute now c sql_create_reports [] =
     (case reports (c_store c) of
        Some t \<Rightarrow> Inr (c, no_rows)
      | None \<Rightarrow>
          if \<not> writable (c_store c) then Inl readonly_database
          else Inr (c\<lparr>c_store := (c_store c)\<lparr>reports := Some \<lparr>tbl_rows = [], tbl_seq = 0\<rparr>\<rparr>\<rparr>,
                    no_rows))"
  "sqlite_execute now c sql_create_prompts [] =
     (case prompt_templates (c_store c) of
        Some t \<Rightarrow> Inr (c, no_rows)
      | None \<Rightarrow>
          if \<not> writable (c_store c) then Inl readonly_database
          else Inr (c\<lparr>c_store := (c_store c)\<lparr>prompt_templates := Some \<lparr>tbl_rows = [], tbl_seq = 0\<rparr>\<rparr>\<rparr>,
                    no_rows))"
  by (simp_all add: sqlite_execute_def prepare_simps exec_create_reports_def
      exec_create_prompts_def)

lemma case_outcome:
  "fst (case x of (Inl e, w1) \<Rightarrow> f e w1 | (Inr r, w1) \<Rightarrow> g r w1) =
     (case fst x of Inl e \<Rightarrow> fst (f e (snd x)) | Inr r \<Rightarrow> fst (g r (snd x)))"
  "snd (case x of (Inl e, w1) \<Rightarrow> f e w1 | (Inr r, w1) \<Rightarrow> g r w1) =
     (case fst x of Inl e \<Rightarrow> snd (f e (snd x)) | Inr r \<Rightarrow> snd (g r (snd x)))"
  by (cases x; cases "fst x"; simp)+

lemma create_query_store:
  "store_at (snd (execute_query w p sql_create_reports [] False False True)) p =
      (if dir_ready w p \<and> reports (store_at w p) = None \<and> writable (store_at w p)
       then (store_at w p)\<lparr>reports := Some \<lparr>tbl_rows = [], tbl_seq = 0\<rparr>\<rparr>
       else store_at w p)"
  "store_at (snd (execute_query w p sql_create_prompts [] False False True)) p =
      (if dir_ready w p \<and> prompt_templates (store_at w p) = None \<and> writable (store_at w p)
       then (store_at w p)\<lparr>prompt_templates := Some \<lparr>tbl_rows = [], tbl_seq = 0\<rparr>\<rparr>
       else store_at w p)"
  by (auto simp: execute_query_eq exec_create_eq opened_def store_at_def
      autocommitted_def prepare_simps split: option.splits)

lemma create_reports_table_eq:
  "fst (create_reports_table self w) =
     (if \<not> dir_ready w (reports_db_path self) then Inl OSError
      else if reports (store_at w (reports_db_path self)) = None
              \<and> \<not> writable (store_at w (reports_db_path self))
      then Inl readonly_database else Inr ())"
  "store_at (snd (create_reports_table self w)) p =
     (if p = reports_db_path self \<and> dir_ready w p \<and> reports (store_at w p) = None
         \<and> writable (store_at w p)
      then (store_at w p)\<lparr>reports := Some \<lparr>tbl_rows = [], tbl_seq = 0\<rparr>\<rparr>
      else store_at w p)"
  "clock (snd (create_reports_table self w)) = clock w"
  "dir_ready w (reports_db_path self) \<Longrightarrow> posix_dirname p = posix_dirname (reports_db_path self)
     \<Longrightarrow> dir_there (snd (create_reports_table self w)) p"
proof -
  show "fst (create_reports_table self w) =
     (if \<not> dir_ready w (reports_db_path self) then Inl OSError
      else if reports (store_at w (reports_db_path self)) = None
              \<and> \<not> writable (store_at w (reports_db_path self))
      then Inl readonly_database else Inr ())"
    by (auto simp: create_reports_table_def Let_def case_outcome execute_query_eq exec_create_eq
        opened_def split: sum.splits option.splits)
  show "store_at (snd (create_reports_table self w)) p =
     (if p = reports_db_path self \<and> dir_ready w p \<and> reports (store_at w p) = None
         \<and> writable (store_at w p)
      then (store_at w p)\<lparr>reports := Some \<lparr>tbl_rows = [], tbl_seq = 0\<rparr>\<rparr>
      else store_at w p)"
    by (cases "p = reports_db_path self")
       (simp_all add: create_reports_table_def Let_def case_outcome execute_query_frame
          create_query_store split: sum.splits)
  show "clock (snd (create_reports_table self w)) = clock w"
    by (simp add: create_reports_table_def Let_def case_outcome execute_query_frame
        split: sum.splits)
  show "dir_ready w (reports_db_path self) \<Longrightarrow> posix_dirname p = posix_dirname (reports_db_path self)
     \<Longrightarrow> dir_there (snd (create_reports_table self w)) p"
    by (simp add: create_reports_table_def Let_def case_outcome execute_query_there
        split: sum.splits)
qed

lemma create_prompts_table_eq:
  "fst (create_prompts_table self w) =
     (if \<not> dir_ready w (prompts_db_path self) then Inl OSError
      else if prompt_templates (store_at w (prompts_db_path self)) = None
              \<and> \<not> writable (store_at w (prompts_db_path self))
      then Inl readonly_database else Inr ())"
  "store_at (snd (create_prompts_table self w)) p =
     (if p = prompts_db_path self \<and> dir_ready w p \<and> prompt_templates (store_at w p) = None
         \<and> writable (store_at w p)
      then (store_at w p)\<lparr>prompt_templates := Some \<lparr>tbl_rows = [], tbl_seq = 0\<rparr>\<rparr>
      else store_at w p)"
  "clock (snd (create_prompts_table self w)) = clock w"
  "dir_there w p \<Longrightarrow> dir_there (snd (create_prompts_table self w)) p"
  "dir_ready w (prompts_db_path self) \<Longrightarrow>
     dir_there (snd (create_prompts_table self w)) (prompts_db_path self)"
proof -
  show "fst (create_prompts_table self w) =
     (if \<not> dir_ready w (prompts_db_path self) then Inl OSError
      else if prompt_templates (store_at w (prompts_db_path self)) = None
              \<and> \<not> writable (store_at w (prompts_db_path self))
      then Inl readonly_database else Inr ())"
    by (auto simp: create_prompts_table_def Let_def case_outcome execute_query_eq exec_create_eq
        opened_def split: sum.splits option.splits)
  show "store_at (snd (create_prompts_table self w)) p =
     (if p = prompts_db_path self \<and> dir_ready w p \<and> prompt_templates (store_at w p) = None
         \<and> writable (store_at w p)
      then (store_at w p)\<lparr>prompt_templates := Some \<lparr>tbl_rows = [], tbl_seq = 0\<rparr>\<rparr>
      else store_at w p)"
    by (cases "p = prompts_db_path self")
       (simp_all add: create_prompts_table_def Let_def case_outcome execute_query_frame
          create_query_store split: sum.splits)
  show "clock (snd (create_prompts_table self w)) = clock w"
    by (simp add: create_prompts_table_def Let_def case_outcome execute_query_frame
        split: sum.splits)
  show "dir_there w p \<Longrightarrow> dir_there (snd (create_prompts_table self w)) p"
    by (simp add: create_prompts_table_def Let_def case_outcome execute_query_keeps_dir
        split: sum.splits)
  show "dir_ready w (prompts_db_path self) \<Longrightarrow>
     dir_there (snd (create_prompts_table self w)) (prompts_db_path self)"
    by (simp add: create_prompts_table_def Let_def case_outcome execute_query_there
        split: sum.splits)
qed

lemma initialize_databases_fresh:
  "fst (initialize_databases dal0 fresh_world) = Inr ()"
  "store_at (snd (initialize_databases dal0 fresh_world)) (reports_db_path dal0) =
     \<lparr>writable = True, reports = Some \<lparr>tbl_rows = [], tbl_seq = 0\<rparr>, prompt_templates = None\<rparr>"
  "store_at (snd (initialize_databases dal0 fresh_world)) (prompts_db_path dal0) =
     \<lparr>writable = True, reports = None, prompt_templates = Some \<lparr>tbl_rows = [], tbl_seq = 0\<rparr>\<rparr>"
  "dir_there (snd (initialize_databases dal0 fresh_world)) (reports_db_path dal0)"
  "dir_there (snd (initialize_databases dal0 fresh_world)) (prompts_db_path dal0)"
  "clock (snd (initialize_databases dal0 fresh_world)) = 1000"
proof -
  have r: "dir_ready fresh_world (reports_db_path dal0)"
    by (simp add: dir_ready_def fresh_world_def)
  have s: "store_at fresh_world p = empty_store" for p
    by (simp add: store_at_def fresh_world_def)
  have ne: "prompts_db_path dal0 \<noteq> reports_db_path dal0"
    by (simp add: dal0_def)
  have d: "posix_dirname (prompts_db_path dal0) = posix_dirname (reports_db_path dal0)"
    by (simp add: dal0_def posix_dirname_def)
  let ?w1 = "snd (create_reports_table dal0 fresh_world)"
  have f1: "fst (create_reports_table dal0 fresh_world) = Inr ()"
    using r by (simp add: create_reports_table_eq s empty_store_def)
  have t1: "dir_there ?w1 (reports_db_path dal0)" "dir_there ?w1 (prompts_db_path dal0)"
    using r d by (simp_all add: create_reports_table_eq)
  have r1: "dir_ready ?w1 (prompts_db_path dal0)"
    using t1 by (simp add: dir_ready_def)
  have s1: "store_at ?w1 (reports_db_path dal0) =
              \<lparr>writable = True, reports = Some \<lparr>tbl_rows = [], tbl_seq = 0\<rparr>, prompt_templates = None\<rparr>"
    "store_at ?w1 (prompts_db_path dal0) = empty_store"
    using r ne by (simp_all add: create_reports_table_eq s empty_store_def)
  have f2: "fst (create_prompts_table dal0 ?w1) = Inr ()"
    using r1 by (simp add: create_prompts_table_eq s1 empty_store_def)
  show "fst (initialize_databases dal0 fresh_world) = Inr ()"
    using f1 f2 by (simp add: initialize_databases_def case_outcome split: sum.splits)
  have w: "snd (initialize_databases dal0 fresh_world) =
             emit (snd (create_prompts_table dal0 ?w1))
               (Log INFO ''initialize_databases''
                 [(''operation'', ''initialize_databases''), (''status'', ''completed'')])"
    using f1 f2 by (simp add: initialize_databases_def case_outcome split: sum.splits)
  show "store_at (snd (initialize_databases dal0 fresh_world)) (reports_db_path dal0) =
     \<lparr>writable = True, reports = Some \<lparr>tbl_rows = [], tbl_seq = 0\<rparr>, prompt_templates = None\<rparr>"
    using ne by (simp add: w create_prompts_table_eq s1)
  show "store_at (snd (initialize_databases dal0 fresh_world)) (prompts_db_path dal0) =
     \<lparr>writable = True, reports = None, prompt_templates = Some \<lparr>tbl_rows = [], tbl_seq = 0\<rparr>\<rparr>"
    using r1 by (simp add: w create_prompts_table_eq s1 empty_store_def)
  show "dir_there (snd (initialize_databases dal0 fresh_world)) (reports_db_path dal0)"
    using t1 by (simp add: w create_prompts_table_eq)
  show "dir_there (snd (initialize_databases dal0 fresh_world)) (prompts_db_path dal0)"
    using r1 by (simp add: w create_prompts_table_eq)
  show "clock (snd (initialize_databases dal0 fresh_world)) = 1000"
  proof -
    have "clock fresh_world = 1000" by (simp add: fresh_world_def)
    then show ?thesis by (simp add: w create_prompts_table_eq create_reports_table_eq)
  qed
qed

subsection \<open>Status and timestamp\<close>

lemma initialized_world_facts:
  "store_at initialized_world (reports_db_path dal0) =
     \<lparr>writable = True, reports = Some \<lparr>tbl_rows = [], tbl_seq = 0\<rparr>, prompt_templates = None\<rparr>"
  "store_at initialized_world (prompts_db_path dal0) =
     \<lparr>writable = True, reports = None, prompt_templates = Some \<lparr>tbl_rows = [], tbl_seq = 0\<rparr>\<rparr>"
  "dir_there initialized_world (reports_db_path dal0)"
  "dir_there initialized_world (prompts_db_path dal0)"
  "clock initialized_world = 1000"
  by (simp_all add: initialized_world_def initialize_databases_fresh)

lemma inserted_world_store:
  "store_at inserted_world (reports_db_path dal0) = store1"
  "clock inserted_world = 1000"
  "dir_there inserted_world (reports_db_path dal0)"
proof -
  note i = initialized_world_facts
  have rw: "reports_writable initialized_world (reports_db_path dal0)"
    using i by (simp add: reports_writable_def dir_ready_def)
  have m: \<open>metadata_text mini_json (Some [(''a'', JInt 1), (''b'', JInt 2)]) = VStr ''{"a": 1, "b": 2}''\<close>
    by code_simp
  show "store_at inserted_world (reports_db_path dal0) = store1"
    using i rw
    by (simp add: inserted_world_def insert_report_data_eq with_report_def added_report_def
        next_rowid_def store1_def report1_def opt_str_def m has_room_def int64_def r_id_def)
  show "clock inserted_world = 1000"
    using i by (simp add: inserted_world_def insert_report_data_eq)
  show "dir_there inserted_world (reports_db_path dal0)"
    using rw by (simp add: inserted_world_def insert_report_data_eq reports_writable_def)
qed

text \<open>
  Claim C7, as the code has it. For a report that exists in a writable store,
  \<^verbatim>\<open>update_report_status\<close> returns \<^verbatim>\<open>True\<close>, and \<^verbatim>\<open>get_report_by_id\<close> then returns the
  new status and, as \<^verbatim>\<open>processed_at\<close>, the second the store's clock read at the update:
  strictly later than the value read before the call exactly when the clock has moved
  past that value (two calls within one second leave it equal). The content is the new
  one where a content was given and the one read before otherwise.
\<close>

theorem status_update_then_read:
  assumes "dir_there w (reports_db_path self)"
    and "writable (store_at w (reports_db_path self))"
    and "reports (store_at w (reports_db_path self)) = Some t"
    and "find (\<lambda>r. r_id r = report_id) (tbl_rows t) = Some r"
  shows "fst (update_report_status self w report_id status processed_content) = Inr True
     \<and> (\<exists>before after.
          fst (get_report_by_id self w report_id) = Inr (Some before)
        \<and> fst (get_report_by_id self
                 (snd (update_report_status self w report_id status processed_content))
                 report_id) = Inr (Some after)
        \<and> dict_get after ''status'' = VStr status
        \<and> dict_get before ''processed_at'' = VTime (r_processed_at r)
        \<and> dict_get after ''processed_at'' = VTime (clock w)
        \<and> later (dict_get after ''processed_at'') (dict_get before ''processed_at'')
            = (r_processed_at r < clock w)
        \<and> dict_get after ''content'' =
            (case processed_content of None \<Rightarrow> dict_get before ''content'' | Some c \<Rightarrow> VStr c))"
proof -
  let ?p = "reports_db_path self"
  let ?w' = "snd (update_report_status self w report_id status processed_content)"
  let ?f = "update_row (clock w) (status_columns processed_content)
              (status_params status processed_content report_id)"
  have rw: "reports_writable w ?p"
    using assms(1,2,3) by (simp add: reports_writable_def dir_ready_def)
  have key: "r_id r = report_id"
    using assms(4) by (auto simp: find_Some_iff)
  have i64: "int64 report_id"
    using key int64_r_id[of r] by simp
  have keep: "\<And>x. r_id (?f x) = r_id x"
    by (simp add: update_row_status)
  have st: "store_at ?w' ?p = with_rows (store_at w ?p) ?f"
    using rw by (simp add: update_report_status_eq)
  have there: "dir_there ?w' ?p"
    using rw by (simp add: update_report_status_eq reports_writable_def)
  have before: "fst (get_report_by_id self w report_id) =
                  Inr (Some (zip report_columns (report_values r)))"
    using assms by (simp add: get_report_by_id_eq)
  have after: "fst (get_report_by_id self ?w' report_id) =
                 Inr (Some (zip report_columns (report_values (?f r))))"
    using there assms(3,4)
    by (simp add: get_report_by_id_eq st with_rows_def find_map_key[OF keep])
  have fr: "?f r = r\<lparr>r_status := VStr status,
                     r_content := (case processed_content of None \<Rightarrow> r_content r | Some c \<Rightarrow> VStr c),
                     r_processed_at := clock w\<rparr>"
    using key by (simp add: update_row_status)
  show ?thesis
    using rw before after i64
    by (auto simp: update_report_status_eq report_dict_get fr split: option.splits)
qed

theorem status_update_then_read_witness:
  "dir_there (world1\<lparr>clock := 1060\<rparr>) (reports_db_path dal0)
   \<and> writable (store_at (world1\<lparr>clock := 1060\<rparr>) (reports_db_path dal0))
   \<and> reports (store_at (world1\<lparr>clock := 1060\<rparr>) (reports_db_path dal0)) =
       Some \<lparr>tbl_rows = [report1], tbl_seq = 1\<rparr>
   \<and> find (\<lambda>r. r_id r = 1) [report1] = Some report1
   \<and> fst (update_report_status dal0 (world1\<lparr>clock := 1060\<rparr>) 1 ''done'' None) = Inr True
   \<and> (\<exists>before after.
          fst (get_report_by_id dal0 (world1\<lparr>clock := 1060\<rparr>) 1) = Inr (Some before)
        \<and> fst (get_report_by_id dal0
                 (snd (update_report_status dal0 (world1\<lparr>clock := 1060\<rparr>) 1 ''done'' None)) 1)
            = Inr (Some after)
        \<and> dict_get after ''status'' = VStr ''done''
        \<and> dict_get before ''processed_at'' = VTime 1000
        \<and> dict_get after ''processed_at'' = VTime 1060
        \<and> later (dict_get after ''processed_at'') (dict_get before ''processed_at'')
        \<and> dict_get after ''content'' = dict_get before ''content'')"
proof -
  have h1: "dir_there (world1\<lparr>clock := 1060\<rparr>) (reports_db_path dal0)" by code_simp
  have h2: "writable (store_at (world1\<lparr>clock := 1060\<rparr>) (reports_db_path dal0))" by code_simp
  have h3: "reports (store_at (world1\<lparr>clock := 1060\<rparr>) (reports_db_path dal0)) =
              Some \<lparr>tbl_rows = [report1], tbl_seq = 1\<rparr>" by code_simp
  have h4: "find (\<lambda>r. r_id r = 1) (tbl_rows \<lparr>tbl_rows = [report1], tbl_seq = 1\<rparr>) = Some report1"
    by code_simp
  have t: "r_processed_at report1 = 1000" by code_simp
  note s = status_update_then_read[OF h1 h2 h3 h4, of "''done''" None]
  show ?thesis
    using h1 h2 h3 h4 s t by simp
qed

text \<open>The claim as stated asks for a strictly greater \<^verbatim>\<open>processed_at\<close> after every
  successful update. A report inserted and updated within the same second keeps its
  timestamp: the update succeeds, the status is the new one, and \<^verbatim>\<open>processed_at\<close> reads
  the same second before and after.\<close>

theorem status_update_same_second_counterexample:
  \<open>fst (get_report_by_id dal0 inserted_world 1) =
     Inr (Some [(''id'', VInt 1), (''original_filename'', VStr ''weekly.docx''),
                (''content'', VStr ''first draft''),
                (''source_path'', VStr ''/drive/wolf_in/weekly.docx''),
                (''processed_at'', VTime 1000), (''status'', VStr ''parsed''),
                (''metadata'', VStr ''{"a": 1, "b": 2}''), (''analysis_json'', VNone)])
   \<and> fst (update_report_status dal0 inserted_world 1 ''done'' None) = Inr True
   \<and> fst (get_report_by_id dal0 (snd (update_report_status dal0 inserted_world 1 ''done'' None)) 1) =
     Inr (Some [(''id'', VInt 1), (''original_filename'', VStr ''weekly.docx''),
                (''content'', VStr ''first draft''),
                (''source_path'', VStr ''/drive/wolf_in/weekly.docx''),
                (''processed_at'', VTime 1000), (''status'', VStr ''done''),
                (''metadata'', VStr ''{"a": 1, "b": 2}''), (''analysis_json'', VNone)])
   \<and> \<not> later (VTime 1000) (VTime 1000)\<close>
proof -
  note i = inserted_world_store
  have rw: "reports_writable inserted_world (reports_db_path dal0)"
    using i by (simp add: reports_writable_def dir_ready_def store1_def)
  have there: "dir_there (snd (update_report_status dal0 inserted_world 1 ''done'' None))
                 (reports_db_path dal0)"
    using rw by (simp add: update_report_status_eq reports_writable_def)
  show ?thesis
    using i rw there
    by (simp add: get_report_by_id_eq update_report_status_eq with_rows_def update_row_status
        store1_def report1_def report_columns_def report_values_def int64_def r_id_def)
qed

subsection \<open>Listing the prompt templates\<close>

lemma get_all_prompt_templates_eq:
  "fst (get_all_prompt_templates self w limit offset) =
     Inr (if int64 limit \<and> int64 offset
          then map listing_dict (limit_offset limit offset (listed w (prompts_db_path self)))
          else [])"
proof (cases "dir_there w (prompts_db_path self)")
  case False
  then show ?thesis
    by (simp add: get_all_prompt_templates_def connect_and_execute_eq Let_def listed_def
        limit_offset_def)
next
  case True
  show ?thesis
  proof (cases "prompt_templates (store_at w (prompts_db_path self))")
    case None
    with True show ?thesis
      by (simp add: get_all_prompt_templates_def connect_and_execute_eq exec_list_prompts_eq
          opened_def Let_def listed_def limit_offset_def)
  next
    case (Some t)
    have d: "row_dict \<lparr>description = listing_columns, cur_rows = rs\<rparr> (listing_values r)
               = listing_dict r" for rs r
      by (simp add: row_dict_def listing_columns_def listing_values_def listing_dict_def)
    from True Some show ?thesis
      by (auto simp: get_all_prompt_templates_def connect_and_execute_eq exec_list_prompts_eq
          opened_def Let_def listed_def fetchall_def d comp_def)
  qed
qed

lemma listed_sorted:
  "sorted_wrt (\<lambda>a b. p_updated_at b \<le> p_updated_at a) (listed w p)"
proof -
  have "sorted (map (\<lambda>r. - int (p_updated_at r)) (order_by_updated_desc rs))" for rs
    by (simp add: order_by_updated_desc_def)
  then have "sorted_wrt (\<lambda>a b. p_updated_at b \<le> p_updated_at a) (order_by_updated_desc rs)" for rs
    by (simp add: sorted_map)
  then show ?thesis
    by (simp add: listed_def split: option.splits)
qed

lemma limit_offset_sorted:
  "sorted_wrt R xs \<Longrightarrow> sorted_wrt R (limit_offset l off xs)"
  by (simp add: limit_offset_def sorted_wrt_take sorted_wrt_drop)

lemma pages_of_five:
  assumes "length xs = 5"
  shows "length (limit_offset 2 0 xs) = 2" "length (limit_offset 2 2 xs) = 2"
    "length (limit_offset 2 4 xs) = 1"
    "limit_offset 2 0 xs @ limit_offset 2 2 xs @ limit_offset 2 4 xs = xs"
proof -
  show "length (limit_offset 2 0 xs) = 2" "length (limit_offset 2 2 xs) = 2"
    "length (limit_offset 2 4 xs) = 1"
    using assms by (simp_all add: limit_offset_def)
  have "take 2 xs @ take 2 (drop 2 xs) @ take 2 (drop 4 xs) =
          take 2 xs @ take 2 (drop 2 xs) @ take 2 (drop 2 (drop 2 xs))"
    by simp
  also have "\<dots> = take 2 xs @ take 4 (drop 2 xs)"
    using take_add[of 2 2 "drop 2 xs"] by simp
  also have "\<dots> = take 6 xs"
    using take_add[of 2 4 xs] by simp
  also have "\<dots> = xs"
    using assms by simp
  finally show "limit_offset 2 0 xs @ limit_offset 2 2 xs @ limit_offset 2 4 xs = xs"
    by (simp add: limit_offset_def)
qed

lemma listed_rows:
  assumes "dir_there w p" and "prompt_templates (store_at w p) = Some t"
  shows "set (listed w p) = set (tbl_rows t)" "length (listed w p) = length (tbl_rows t)"
    "distinct (map p_id (tbl_rows t)) \<Longrightarrow> distinct (map p_id (listed w p))"
  using assms
  by (simp_all add: listed_def order_by_updated_desc_def distinct_map)

text \<open>
  Claim C6. \<^verbatim>\<open>get_all_prompt_templates\<close> never raises; it returns, for the rows of the
  prompt table ordered by \<^verbatim>\<open>updated_at\<close> with the latest first, the records of those
  from \<open>offset\<close> on, at most \<open>limit\<close> of them, each with exactly the fields \<^verbatim>\<open>id\<close>,
  \<^verbatim>\<open>name\<close>, \<^verbatim>\<open>category\<close> and \<^verbatim>\<open>updated_at\<close>; the list holds every row of the table once;
  the result is empty where the table is empty and where the read fails (no directory,
  no table, a limit or an offset that is no 64-bit integer, which \<^verbatim>\<open>sqlite3\<close> refuses
  to bind). Over a table of five rows the pages of size two at offsets 0, 2 and 4 have
  two, two and one record and, one after the other, are the whole listing, so that no
  record is left out and, the ids being distinct, none comes twice.
\<close>

theorem prompt_listing_pages:
  "fst (get_all_prompt_templates self w limit offset) =
     Inr (if int64 limit \<and> int64 offset
          then map listing_dict (limit_offset limit offset (listed w (prompts_db_path self)))
          else [])
   \<and> map fst (listing_dict r) = [''id'', ''name'', ''category'', ''updated_at'']
   \<and> sorted_wrt (\<lambda>a b. p_updated_at b \<le> p_updated_at a)
        (limit_offset limit offset (listed w (prompts_db_path self)))
   \<and> (0 \<le> limit \<and> 0 \<le> offset \<longrightarrow>
        limit_offset limit offset (listed w (prompts_db_path self)) =
          take (nat limit) (drop (nat offset) (listed w (prompts_db_path self))))
   \<and> (dir_there w (prompts_db_path self)
        \<and> prompt_templates (store_at w (prompts_db_path self)) = Some t \<longrightarrow>
        set (listed w (prompts_db_path self)) = set (tbl_rows t)
        \<and> length (listed w (prompts_db_path self)) = length (tbl_rows t))
   \<and> (\<not> dir_there w (prompts_db_path self)
        \<or> prompt_templates (store_at w (prompts_db_path self)) = None
        \<or> prompt_templates (store_at w (prompts_db_path self)) = Some \<lparr>tbl_rows = [], tbl_seq = n\<rparr>
        \<or> \<not> int64 limit \<or> \<not> int64 offset
        \<longrightarrow> fst (get_all_prompt_templates self w limit offset) = Inr [])
   \<and> (dir_there w (prompts_db_path self)
        \<and> prompt_templates (store_at w (prompts_db_path self)) = Some t
        \<and> length (tbl_rows t) = 5 \<and> distinct (map p_id (tbl_rows t)) \<longrightarrow>
        (\<exists>a b c. fst (get_all_prompt_templates self w 2 0) = Inr a
                \<and> fst (get_all_prompt_templates self w 2 2) = Inr b
                \<and> fst (get_all_prompt_templates self w 2 4) = Inr c
                \<and> length a = 2 \<and> length b = 2 \<and> length c = 1
                \<and> a @ b @ c = map listing_dict (listed w (prompts_db_path self))
                \<and> distinct (map (\<lambda>d. dict_get d ''id'') (a @ b @ c))))"
proof (intro conjI impI)
  show "fst (get_all_prompt_templates self w limit offset) =
     Inr (if int64 limit \<and> int64 offset
          then map listing_dict (limit_offset limit offset (listed w (prompts_db_path self)))
          else [])"
    by (rule get_all_prompt_templates_eq)
  show "map fst (listing_dict r) = [''id'', ''name'', ''category'', ''updated_at'']"
    by (simp add: listing_dict_def)
  show "sorted_wrt (\<lambda>a b. p_updated_at b \<le> p_updated_at a)
        (limit_offset limit offset (listed w (prompts_db_path self)))"
    by (rule limit_offset_sorted[OF listed_sorted])
next
  assume "0 \<le> limit \<and> 0 \<le> offset"
  then show "limit_offset limit offset (listed w (prompts_db_path self)) =
          take (nat limit) (drop (nat offset) (listed w (prompts_db_path self)))"
    by (simp add: limit_offset_def)
next
  assume a: "dir_there w (prompts_db_path self)
        \<and> prompt_templates (store_at w (prompts_db_path self)) = Some t"
  then show "set (listed w (prompts_db_path self)) = set (tbl_rows t)"
    and "length (listed w (prompts_db_path self)) = length (tbl_rows t)"
    by (simp_all add: listed_rows)
next
  assume "\<not> dir_there w (prompts_db_path self)
        \<or> prompt_templates (store_at w (prompts_db_path self)) = None
        \<or> prompt_templates (store_at w (prompts_db_path self)) = Some \<lparr>tbl_rows = [], tbl_seq = n\<rparr>
        \<or> \<not> int64 limit \<or> \<not> int64 offset"
  then have "listed w (prompts_db_path self) = [] \<or> \<not> (int64 limit \<and> int64 offset)"
    by (auto simp: listed_def order_by_updated_desc_def)
  then show "fst (get_all_prompt_templates self w limit offset) = Inr []"
    by (auto simp: get_all_prompt_templates_eq limit_offset_def)
next
  assume a: "dir_there w (prompts_db_path self)
        \<and> prompt_templates (store_at w (prompts_db_path self)) = Some t
        \<and> length (tbl_rows t) = 5 \<and> distinct (map p_id (tbl_rows t))"
  let ?xs = "listed w (prompts_db_path self)"
  have len: "length ?xs = 5" and dist: "distinct (map p_id ?xs)"
    using a by (simp_all add: listed_rows)
  note pg = pages_of_five[OF len]
  have cat: "map listing_dict (limit_offset 2 0 ?xs) @ map listing_dict (limit_offset 2 2 ?xs)
               @ map listing_dict (limit_offset 2 4 ?xs) = map listing_dict ?xs"
    using pg(4) by (metis map_append)
  have ids: "map (\<lambda>d. dict_get d ''id'') (map listing_dict ?xs) = map (\<lambda>r. VInt (p_id r)) ?xs"
    by (simp add: listing_dict_def dict_get_def)
  have "distinct (map (\<lambda>r. VInt (p_id r)) ?xs)"
    using dist by (simp add: distinct_map inj_on_def)
  then have d: "distinct (map (\<lambda>d. dict_get d ''id'') (map listing_dict ?xs))"
    by (simp only: ids)
  let ?a = "map listing_dict (limit_offset 2 0 ?xs)"
  let ?b = "map listing_dict (limit_offset 2 2 ?xs)"
  let ?c = "map listing_dict (limit_offset 2 4 ?xs)"
  have r: "fst (get_all_prompt_templates self w 2 0) = Inr ?a"
    "fst (get_all_prompt_templates self w 2 2) = Inr ?b"
    "fst (get_all_prompt_templates self w 2 4) = Inr ?c"
    by (simp_all add: get_all_prompt_templates_eq int64_def)
  have l: "length ?a = 2" "length ?b = 2" "length ?c = 1"
    using pg(1,2,3) by simp_all
  have dc: "distinct (map (\<lambda>d. dict_get d ''id'') (?a @ ?b @ ?c))"
    using d by (simp only: cat)
  show "\<exists>a b c. fst (get_all_prompt_templates self w 2 0) = Inr a
                \<and> fst (get_all_prompt_templates self w 2 2) = Inr b
                \<and> fst (get_all_prompt_templates self w 2 4) = Inr c
                \<and> length a = 2 \<and> length b = 2 \<and> length c = 1
                \<and> a @ b @ c = map listing_dict (listed w (prompts_db_path self))
                \<and> distinct (map (\<lambda>d. dict_get d ''id'') (a @ b @ c))"
    using r l cat dc by blast
qed

theorem prompt_listing_pages_witness:
  "dir_there prompts_world (prompts_db_path dal0)
   \<and> prompt_templates (store_at prompts_world (prompts_db_path dal0)) =
       Some \<lparr>tbl_rows = prompt_rows, tbl_seq = 5\<rparr>
   \<and> length prompt_rows = 5 \<and> distinct (map p_id prompt_rows)
   \<and> fst (get_all_prompt_templates dal0 prompts_world 2 0) =
       Inr [[(''id'', VInt 5), (''name'', VStr ''tone''), (''category'', VStr ''style''),
             (''updated_at'', VTime 1050)],
            [(''id'', VInt 2), (''name'', VStr ''risks''), (''category'', VNone),
             (''updated_at'', VTime 1040)]]
   \<and> fst (get_all_prompt_templates dal0 prompts_world 2 2) =
       Inr [[(''id'', VInt 4), (''name'', VStr ''title''), (''category'', VNone),
             (''updated_at'', VTime 1040)],
            [(''id'', VInt 3), (''name'', VStr ''actions''), (''category'', VStr ''report''),
             (''updated_at'', VTime 1020)]]
   \<and> fst (get_all_prompt_templates dal0 prompts_world 2 4) =
       Inr [[(''id'', VInt 1), (''name'', VStr ''summary''), (''category'', VStr ''report''),
             (''updated_at'', VTime 1000)]]
   \<and> fst (get_all_prompt_templates dal0 prompts_world 2 6) = Inr []
   \<and> fst (get_all_prompt_templates dal0 fresh_world 100 0) = Inr []
   \<and> fst (get_all_prompt_templates dal0 prompts_world 9223372036854775808 0) = Inr []
   \<and> fst (get_all_prompt_templates dal0 prompts_world 2 (- 9223372036854775809)) = Inr []
   \<and> (\<exists>a b c. fst (get_all_prompt_templates dal0 prompts_world 2 0) = Inr a
              \<and> fst (get_all_prompt_templates dal0 prompts_world 2 2) = Inr b
              \<and> fst (get_all_prompt_templates dal0 prompts_world 2 4) = Inr c
              \<and> length a = 2 \<and> length b = 2 \<and> length c = 1
              \<and> a @ b @ c = map listing_dict (listed prompts_world (prompts_db_path dal0))
              \<and> distinct (map (\<lambda>d. dict_get d ''id'') (a @ b @ c)))"
proof -
  have h1: "dir_there prompts_world (prompts_db_path dal0)" by code_simp
  have h2: "prompt_templates (store_at prompts_world (prompts_db_path dal0)) =
              Some \<lparr>tbl_rows = prompt_rows, tbl_seq = 5\<rparr>" by code_simp
  have h3: "length prompt_rows = 5" by code_simp
  have h4: "distinct (map p_id prompt_rows)" by code_simp
  have h: "dir_there prompts_world (prompts_db_path dal0)
        \<and> prompt_templates (store_at prompts_world (prompts_db_path dal0)) =
            Some \<lparr>tbl_rows = prompt_rows, tbl_seq = 5\<rparr>
        \<and> length (tbl_rows \<lparr>tbl_rows = prompt_rows, tbl_seq = 5\<rparr>) = 5
        \<and> distinct (map p_id (tbl_rows \<lparr>tbl_rows = prompt_rows, tbl_seq = 5\<rparr>))"
    using h1 h2 h3 h4 by simp
  note e = prompt_listing_pages[THEN conjunct2, THEN conjunct2, THEN conjunct2, THEN conjunct2,
      THEN conjunct2, THEN conjunct2, rule_format, OF h]
  have pages: "fst (get_all_prompt_templates dal0 prompts_world 2 0) =
       Inr [[(''id'', VInt 5), (''name'', VStr ''tone''), (''category'', VStr ''style''),
             (''updated_at'', VTime 1050)],
            [(''id'', VInt 2), (''name'', VStr ''risks''), (''category'', VNone),
             (''updated_at'', VTime 1040)]]
   \<and> fst (get_all_prompt_templates dal0 prompts_world 2 2) =
       Inr [[(''id'', VInt 4), (''name'', VStr ''title''), (''category'', VNone),
             (''updated_at'', VTime 1040)],
            [(''id'', VInt 3), (''name'', VStr ''actions''), (''category'', VStr ''report''),
             (''updated_at'', VTime 1020)]]
   \<and> fst (get_all_prompt_templates dal0 prompts_world 2 4) =
       Inr [[(''id'', VInt 1), (''name'', VStr ''summary''), (''category'', VStr ''report''),
             (''updated_at'', VTime 1000)]]
   \<and> fst (get_all_prompt_templates dal0 prompts_world 2 6) = Inr []
   \<and> fst (get_all_prompt_templates dal0 fresh_world 100 0) = Inr []
   \<and> fst (get_all_prompt_templates dal0 prompts_world 9223372036854775808 0) = Inr []
   \<and> fst (get_all_prompt_templates dal0 prompts_world 2 (- 9223372036854775809)) = Inr []"
    unfolding prompt_listing_pages[THEN conjunct1] by code_simp
  show ?thesis
    using h1 h2 h3 h4 pages e by blast
qed

subsection \<open>Merging metadata\<close>

lemma dict_setitem_map_of: "map_of (dict_setitem d k v) = (map_of d)(k \<mapsto> v)"
  by (induction d) (auto simp: fun_upd_twist)

lemma map_of_rev_distinct:
  assumes "distinct (map fst xs)"
  shows "map_of (rev xs) = map_of xs"
  using assms
proof (induction xs)
  case Nil
  then show ?case by simp
next
  case (Cons kv xs)
  obtain k v where kv: "kv = (k, v)" by (cases kv)
  from Cons.prems kv have fresh: "k \<notin> fst ` set xs" and d: "distinct (map fst xs)"
    by simp_all
  have "map_of (rev (kv # xs)) = [k \<mapsto> v] ++ map_of (rev xs)"
    by (simp add: kv)
  also have "\<dots> = [k \<mapsto> v] ++ map_of xs"
    using Cons.IH[OF d] by simp
  also have "\<dots> = map_of xs ++ [k \<mapsto> v]"
    using fresh by (intro map_add_comm) (auto simp: dom_map_of_conv_image_fst)
  finally show ?case
    by (simp add: kv)
qed

lemma dict_update_fold:
  "map_of (fold (\<lambda>(k, v) acc. dict_setitem acc k v) u d) = map_of d ++ map_of (rev u)"
proof (induction u arbitrary: d)
  case Nil
  then show ?case by simp
next
  case (Cons kv u)
  obtain k v where kv: "kv = (k, v)" by (cases kv)
  have "map_of (fold (\<lambda>(k, v) acc. dict_setitem acc k v) (kv # u) d) =
          map_of (dict_setitem d k v) ++ map_of (rev u)"
    using Cons.IH[of "dict_setitem d k v"] kv by simp
  also have "\<dots> = (map_of d ++ [k \<mapsto> v]) ++ map_of (rev u)"
    by (simp add: dict_setitem_map_of)
  also have "\<dots> = map_of d ++ map_of (rev (kv # u))"
    by (simp add: kv)
  finally show ?case .
qed

text \<open>A shallow merge: a key of the update takes the update's value, every other key keeps
  the value it had.\<close>

lemma dict_update_map_of:
  assumes "distinct (map fst u)"
  shows "map_of (dict_update d u) = map_of d ++ map_of u"
  using dict_update_fold[of u d] map_of_rev_distinct[OF assms]
  by (simp add: dict_update_def)

lemma get_report_by_id_current:
  "fst (get_report_by_id self w report_id) =
     Inr (map_option (\<lambda>r. zip report_columns (report_values r))
            (current_report w (reports_db_path self) report_id))"
  by (simp add: get_report_by_id_eq current_report_def split: option.splits)

lemma get_report_by_id_there:
  "dir_there (snd (get_report_by_id self w i)) p = dir_there w p"
  "dir_ready (snd (get_report_by_id self w i)) p = dir_ready w p"
  by (simp_all add: dir_there_def dir_ready_def path_exists_def get_report_by_id_world)

lemma merged_metadata_stored:
  assumes "stored_metadata js m = Some old"
  shows "merged_metadata js m upd = Inr (dumps js (JDict (dict_update old upd)))"
  using assms
  by (auto simp: stored_metadata_def merged_metadata_def split: if_splits sum.splits json.splits)

lemma merged_metadata_malformed:
  assumes "m = VStr s" and "s \<noteq> []" and "loads js s = None"
  shows "merged_metadata js m upd = Inl JSONDecodeError"
  using assms by (simp add: merged_metadata_def json_loads_def)

lemma update_report_metadata_absent:
  assumes "current_report w (reports_db_path self) report_id = None"
  shows "update_report_metadata js self w report_id upd =
           (Inr False,
            emit (snd (get_report_by_id self w report_id))
              (Log ERROR ''update_report_metadata''
                 [(''operation'', ''update_report_metadata''), (''error'', ''report_not_found'')]))"
proof -
  obtain x w1 where g: "get_report_by_id self w report_id = (x, w1)"
    by (cases "get_report_by_id self w report_id")
  have "x = Inr None"
    using get_report_by_id_current[of self w report_id] g assms by simp
  then show ?thesis
    using g by (simp add: update_report_metadata_def)
qed

lemma update_report_metadata_present:
  assumes "current_report w (reports_db_path self) report_id = Some r"
  shows "update_report_metadata js self w report_id upd =
    (case (case merged_metadata js (r_metadata r) upd of
             Inl e \<Rightarrow> (Inl e, snd (get_report_by_id self w report_id))
           | Inr new_metadata_str \<Rightarrow>
               execute_query (snd (get_report_by_id self w report_id)) (reports_db_path self)
                 sql_update_metadata [VStr new_metadata_str, VInt report_id] False False True) of
       (Inr u, w2) \<Rightarrow>
         (Inr True,
          emit w2 (Log INFO ''update_report_metadata''
                    [(''operation'', ''update_report_metadata''),
                     (''db_operation_status'', ''success'')]))
     | (Inl e, w2) \<Rightarrow>
         (Inr False,
          emit w2 (Log ERROR ''update_report_metadata''
                    (if e = JSONDecodeError
                     then [(''operation'', ''update_report_metadata''),
                           (''error'', ''json_decode_error''), (''error_message'', error_str e)]
                     else [(''operation'', ''update_report_metadata''),
                           (''db_operation_status'', ''failure''),
                           (''error_message'', error_str e)]))))"
proof -
  obtain x w1 where g: "get_report_by_id self w report_id = (x, w1)"
    by (cases "get_report_by_id self w report_id")
  have x: "x = Inr (Some (zip report_columns (report_values r)))"
    using get_report_by_id_current[of self w report_id] g assms by simp
  have ne: "zip report_columns (report_values r) \<noteq> []"
    by (simp add: report_columns_def report_values_def)
  show ?thesis
    using g x ne
    by (simp add: update_report_metadata_def report_dict_get
        split: sum.splits prod.splits)
qed

lemma update_report_metadata_written:
  assumes "current_report w (reports_db_path self) report_id = Some r"
    and "stored_metadata js (r_metadata r) = Some old"
    and "writable (store_at w (reports_db_path self))"
  shows "fst (update_report_metadata js self w report_id upd) = Inr True"
    and "store_at (snd (update_report_metadata js self w report_id upd)) (reports_db_path self) =
           with_rows (store_at w (reports_db_path self))
             (set_metadata report_id (dumps js (JDict (dict_update old upd))) (clock w))"
    and "dir_there (snd (update_report_metadata js self w report_id upd)) (reports_db_path self)"
proof -
  let ?p = "reports_db_path self"
  let ?w1 = "snd (get_report_by_id self w report_id)"
  let ?s = "dumps js (JDict (dict_update old upd))"
  from assms(1) have there: "dir_there w ?p" and tbl: "reports (store_at w ?p) \<noteq> None"
    by (auto simp: current_report_def split: if_splits option.splits)
  have rw: "reports_writable ?w1 ?p"
    using there tbl assms(3)
    by (simp add: reports_writable_def dir_ready_def get_report_by_id_there
        get_report_by_id_world)
  have i64: "int64 report_id"
    using assms(1) int64_r_id[of r]
    by (auto simp: current_report_def find_Some_iff split: if_splits option.splits)
  have l: "length [VStr ?s, VInt report_id] = length [Metadata] + 1" by simp
  note e = execute_update_eq[OF prepare_simps(8) l is_insert_simps(6), of ?w1 ?p]
  have ok: "fst (execute_query ?w1 ?p sql_update_metadata [VStr ?s, VInt report_id]
                   False False True) = Inr (Scalar VNone)"
    using rw i64 by (auto simp: e(1) reports_writable_def split: option.splits)
  have f: "update_row (clock w) [Metadata] [VStr ?s, VInt report_id] =
             set_metadata report_id ?s (clock w)"
    by (rule ext) (simp add: update_row_metadata set_metadata_def)
  have st: "store_at (snd (execute_query ?w1 ?p sql_update_metadata [VStr ?s, VInt report_id]
                   False False True)) ?p =
              with_rows (store_at w ?p) (set_metadata report_id ?s (clock w))"
    using rw i64 by (simp add: e(2) get_report_by_id_world f)
  have th: "dir_there (snd (execute_query ?w1 ?p sql_update_metadata [VStr ?s, VInt report_id]
                   False False True)) ?p"
    using rw by (simp add: e(3) reports_writable_def)
  note u = update_report_metadata_present[OF assms(1), of js upd]
  show "fst (update_report_metadata js self w report_id upd) = Inr True"
    using ok by (simp add: u merged_metadata_stored[OF assms(2)] case_outcome)
  show "store_at (snd (update_report_metadata js self w report_id upd)) ?p =
           with_rows (store_at w ?p) (set_metadata report_id ?s (clock w))"
    using ok st by (simp add: u merged_metadata_stored[OF assms(2)] case_outcome)
  show "dir_there (snd (update_report_metadata js self w report_id upd)) ?p"
    using ok th by (simp add: u merged_metadata_stored[OF assms(2)] case_outcome)
qed

text \<open>
  Claim C4. \<^verbatim>\<open>update_report_metadata\<close> reads the record as \<^verbatim>\<open>get_report_by_id\<close> does.
  Where there is none it returns \<^verbatim>\<open>False\<close> and logs \<^verbatim>\<open>report_not_found\<close>. Where there is
  one whose stored metadata stands for a dictionary (the empty one for NULL) and the
  store can be written, it returns \<^verbatim>\<open>True\<close> and the rows of that id hold the serialised
  merge and the current second as \<^verbatim>\<open>processed_at\<close>; the record read afterwards
  deserialises to the merge wherever the codec reads back what it wrote. The merge is
  shallow: the keys of the update take the update's values, the others keep theirs;
  \<^verbatim>\<open>{"a":1,"b":2}\<close> updated with \<^verbatim>\<open>{"b":3,"c":4}\<close> is \<^verbatim>\<open>{"a":1,"b":3,"c":4}\<close>. Where the
  stored text does not parse it returns \<^verbatim>\<open>False\<close> and logs \<^verbatim>\<open>json_decode_error\<close>, a
  record of its own kind.
\<close>

theorem metadata_update_merges:
  "fst (get_report_by_id self w report_id) =
     Inr (map_option (\<lambda>r. zip report_columns (report_values r))
            (current_report w (reports_db_path self) report_id))
   \<and> (current_report w (reports_db_path self) report_id = None \<longrightarrow>
        fst (update_report_metadata js self w report_id upd) = Inr False
        \<and> last (events (snd (update_report_metadata js self w report_id upd))) =
            Log ERROR ''update_report_metadata''
              [(''operation'', ''update_report_metadata''), (''error'', ''report_not_found'')])
   \<and> (current_report w (reports_db_path self) report_id = Some r
        \<and> stored_metadata js (r_metadata r) = Some old
        \<and> writable (store_at w (reports_db_path self)) \<longrightarrow>
        fst (update_report_metadata js self w report_id upd) = Inr True
        \<and> store_at (snd (update_report_metadata js self w report_id upd)) (reports_db_path self) =
            with_rows (store_at w (reports_db_path self))
              (set_metadata report_id (dumps js (JDict (dict_update old upd))) (clock w))
        \<and> current_report (snd (update_report_metadata js self w report_id upd))
             (reports_db_path self) report_id =
            Some (r\<lparr>r_metadata := VStr (dumps js (JDict (dict_update old upd))),
                    r_processed_at := clock w\<rparr>)
        \<and> (loads js (dumps js (JDict (dict_update old upd))) = Some (JDict (dict_update old upd))
             \<and> dumps js (JDict (dict_update old upd)) \<noteq> [] \<longrightarrow>
             stored_metadata js (VStr (dumps js (JDict (dict_update old upd))))
               = Some (dict_update old upd)))
   \<and> stored_metadata js VNone = Some []
   \<and> (distinct (map fst upd) \<longrightarrow> map_of (dict_update old upd) = map_of old ++ map_of upd)
   \<and> dict_update [(''a'', JInt 1), (''b'', JInt 2)] [(''b'', JInt 3), (''c'', JInt 4)] =
       [(''a'', JInt 1), (''b'', JInt 3), (''c'', JInt 4)]
   \<and> (current_report w (reports_db_path self) report_id = Some r
        \<and> r_metadata r = VStr s \<and> s \<noteq> [] \<and> loads js s = None \<longrightarrow>
        fst (update_report_metadata js self w report_id upd) = Inr False
        \<and> last (events (snd (update_report_metadata js self w report_id upd))) =
            Log ERROR ''update_report_metadata''
              [(''operation'', ''update_report_metadata''), (''error'', ''json_decode_error''),
               (''error_message'', error_str JSONDecodeError)])"
proof (intro conjI impI)
  show "fst (get_report_by_id self w report_id) =
     Inr (map_option (\<lambda>r. zip report_columns (report_values r))
            (current_report w (reports_db_path self) report_id))"
    by (rule get_report_by_id_current)
  show "stored_metadata js VNone = Some []"
    by (simp add: stored_metadata_def)
  show "dict_update [(''a'', JInt 1), (''b'', JInt 2)] [(''b'', JInt 3), (''c'', JInt 4)] =
       [(''a'', JInt 1), (''b'', JInt 3), (''c'', JInt 4)]"
    by (simp add: dict_update_def)
next
  assume a: "current_report w (reports_db_path self) report_id = None"
  show "fst (update_report_metadata js self w report_id upd) = Inr False"
    and "last (events (snd (update_report_metadata js self w report_id upd))) =
            Log ERROR ''update_report_metadata''
              [(''operation'', ''update_report_metadata''), (''error'', ''report_not_found'')]"
    by (simp_all add: update_report_metadata_absent[OF a])
next
  assume a: "current_report w (reports_db_path self) report_id = Some r
        \<and> stored_metadata js (r_metadata r) = Some old
        \<and> writable (store_at w (reports_db_path self))"
  let ?p = "reports_db_path self"
  let ?s = "dumps js (JDict (dict_update old upd))"
  let ?w' = "snd (update_report_metadata js self w report_id upd)"
  note wr = update_report_metadata_written[of w self report_id r js old upd]
  show "fst (update_report_metadata js self w report_id upd) = Inr True"
    using a by (simp add: wr)
  show st: "store_at ?w' ?p = with_rows (store_at w ?p) (set_metadata report_id ?s (clock w))"
    using a by (simp add: wr)
  from a have there: "dir_there w ?p"
    by (auto simp: current_report_def split: if_splits)
  then obtain t where t: "reports (store_at w ?p) = Some t"
    and f: "find (\<lambda>r. r_id r = report_id) (tbl_rows t) = Some r"
    using a by (auto simp: current_report_def split: option.splits)
  have key: "r_id r = report_id"
    using f by (auto simp: find_Some_iff)
  have keep: "\<And>x. r_id (set_metadata report_id ?s (clock w) x) = r_id x"
    by (simp add: set_metadata_def)
  have "current_report ?w' ?p report_id = Some (set_metadata report_id ?s (clock w) r)"
    using a t f by (simp add: current_report_def wr st with_rows_def find_map_key[OF keep])
  then show "current_report ?w' ?p report_id =
               Some (r\<lparr>r_metadata := VStr ?s, r_processed_at := clock w\<rparr>)"
    using key by (simp add: set_metadata_def)
next
  assume "loads js (dumps js (JDict (dict_update old upd))) = Some (JDict (dict_update old upd))
             \<and> dumps js (JDict (dict_update old upd)) \<noteq> []"
  then show "stored_metadata js (VStr (dumps js (JDict (dict_update old upd))))
               = Some (dict_update old upd)"
    by (simp add: stored_metadata_def json_loads_def)
next
  assume "distinct (map fst upd)"
  then show "map_of (dict_update old upd) = map_of old ++ map_of upd"
    by (rule dict_update_map_of)
next
  assume a: "current_report w (reports_db_path self) report_id = Some r
        \<and> r_metadata r = VStr s \<and> s \<noteq> [] \<and> loads js s = None"
  then have m: "merged_metadata js (r_metadata r) upd = Inl JSONDecodeError"
    by (simp add: merged_metadata_malformed)
  from a have c: "current_report w (reports_db_path self) report_id = Some r" by simp
  show "fst (update_report_metadata js self w report_id upd) = Inr False"
    and "last (events (snd (update_report_metadata js self w report_id upd))) =
            Log ERROR ''update_report_metadata''
              [(''operation'', ''update_report_metadata''), (''error'', ''json_decode_error''),
               (''error_message'', error_str JSONDecodeError)]"
    by (simp_all add: update_report_metadata_present[OF c] m)
qed

theorem metadata_update_merges_witness:
  \<open>current_report world1 (reports_db_path dal0) 1 = Some report1
   \<and> stored_metadata mini_json (r_metadata report1) = Some [(''a'', JInt 1), (''b'', JInt 2)]
   \<and> writable (store_at world1 (reports_db_path dal0))
   \<and> fst (update_report_metadata mini_json dal0 world1 1 [(''b'', JInt 3), (''c'', JInt 4)])
       = Inr True
   \<and> current_report
        (snd (update_report_metadata mini_json dal0 world1 1 [(''b'', JInt 3), (''c'', JInt 4)]))
        (reports_db_path dal0) 1 =
       Some (report1\<lparr>r_metadata := VStr ''{"a": 1, "b": 3, "c": 4}'', r_processed_at := 1000\<rparr>)
   \<and> loads mini_json ''{"a": 1, "b": 3, "c": 4}'' =
       Some (JDict [(''a'', JInt 1), (''b'', JInt 3), (''c'', JInt 4)])
   \<and> current_report world1 (reports_db_path dal0) 42 = None
   \<and> fst (update_report_metadata mini_json dal0 world1 42 [(''b'', JInt 3), (''c'', JInt 4)])
       = Inr False
   \<and> current_report broken_world (reports_db_path dal0) 1 =
       Some (report1\<lparr>r_metadata := VStr ''{"a": 1, ''\<rparr>)
   \<and> loads mini_json ''{"a": 1, '' = None
   \<and> fst (update_report_metadata mini_json dal0 broken_world 1 [(''b'', JInt 3), (''c'', JInt 4)])
       = Inr False
   \<and> last (events (snd (update_report_metadata mini_json dal0 broken_world 1
                           [(''b'', JInt 3), (''c'', JInt 4)]))) =
       Log ERROR ''update_report_metadata''
         [(''operation'', ''update_report_metadata''), (''error'', ''json_decode_error''),
          (''error_message'', ''Expecting value'')]\<close>
proof -
  have h1: "current_report world1 (reports_db_path dal0) 1 = Some report1" by code_simp
  have h2: "stored_metadata mini_json (r_metadata report1) = Some [(''a'', JInt 1), (''b'', JInt 2)]"
    by code_simp
  have h3: "writable (store_at world1 (reports_db_path dal0))" by code_simp
  have h4: "current_report world1 (reports_db_path dal0) 42 = None" by code_simp
  have h5: \<open>current_report broken_world (reports_db_path dal0) 1 =
              Some (report1\<lparr>r_metadata := VStr ''{"a": 1, ''\<rparr>)\<close> by code_simp
  have h6: \<open>r_metadata (report1\<lparr>r_metadata := VStr ''{"a": 1, ''\<rparr>) = VStr ''{"a": 1, ''\<close>
    by simp
  have h7: \<open>''{"a": 1, '' \<noteq> []\<close> by simp
  have h8: \<open>loads mini_json ''{"a": 1, '' = None\<close> by code_simp
  have d: \<open>dumps mini_json (JDict (dict_update [(''a'', JInt 1), (''b'', JInt 2)]
                                     [(''b'', JInt 3), (''c'', JInt 4)])) =
           ''{"a": 1, "b": 3, "c": 4}''\<close> by code_simp
  have l: \<open>loads mini_json ''{"a": 1, "b": 3, "c": 4}'' =
       Some (JDict [(''a'', JInt 1), (''b'', JInt 3), (''c'', JInt 4)])\<close> by code_simp
  have c: "clock world1 = 1000" by code_simp
  note m = metadata_update_merges[where js = mini_json and self = dal0 and
      upd = "[(''b'', JInt 3), (''c'', JInt 4)]"]
  note present = m[where w = world1 and report_id = 1 and r = report1 and
      old = "[(''a'', JInt 1), (''b'', JInt 2)]",
      THEN conjunct2, THEN conjunct2, THEN conjunct1, rule_format, OF conjI[OF h1 conjI[OF h2 h3]]]
  note absent = m[where w = world1 and report_id = 42,
      THEN conjunct2, THEN conjunct1, rule_format, OF h4]
  note broken = m[where w = broken_world and report_id = 1,
      THEN conjunct2, THEN conjunct2, THEN conjunct2, THEN conjunct2, THEN conjunct2,
      THEN conjunct2, rule_format, OF conjI[OF h5 conjI[OF h6 conjI[OF h7 h8]]]]
  show ?thesis
    using h1 h2 h3 h4 h5 h8 l present absent broken
    by (simp add: d c)
qed

subsection \<open>Errors: raised by the executor, returned by the repositories\<close>

lemma execute_query_raises_logged:
  assumes "fst (execute_query w p q ps f1 fa c) = Inl e"
  shows "\<exists>props. last (events (snd (execute_query w p q ps f1 fa c))) =
           Log ERROR ''_execute_query'' ((''db_path'', p) # props @ [(''error'', error_str e)])"
proof (cases "dir_ready w p")
  case False
  with assms have "e = OSError" by (simp add: execute_query_eq)
  then have "last (events (snd (execute_query w p q ps f1 fa c))) =
           Log ERROR ''_execute_query'' ((''db_path'', p) # [] @ [(''error'', error_str e)])"
    using False by (simp add: execute_query_eq)
  then show ?thesis by blast
next
  case True
  with assms have x: "sqlite_execute (clock w) (opened w p) q ps = Inl e"
    by (auto simp: execute_query_eq split: sum.splits)
  have "last (events (snd (execute_query w p q ps f1 fa c))) =
           Log ERROR ''_execute_query''
             ((''db_path'', p) # [(''query_snippet'', take 100 q)] @ [(''error'', error_str e)])"
    using True x by (simp add: execute_query_eq)
  then show ?thesis by blast
qed

lemma insert_report_data_outcome:
  "fst (insert_report_data js self w fn content sp md status) =
     (case fst (execute_query w (reports_db_path self) sql_insert_report
                  [VStr fn, opt_str content, VStr sp, metadata_text js md, VStr status]
                  False False True) of
        Inl e \<Rightarrow> Inr (Scalar VNone)
      | Inr last_row_id \<Rightarrow> Inr last_row_id)"
  "last (events (snd (insert_report_data js self w fn content sp md status))) =
     (case fst (execute_query w (reports_db_path self) sql_insert_report
                  [VStr fn, opt_str content, VStr sp, metadata_text js md, VStr status]
                  False False True) of
        Inl e \<Rightarrow>
          Log ERROR ''insert_report_data''
            [(''original_filename'', fn), (''source_path'', sp), (''status'', status),
             (''operation'', ''insert_report''), (''db_operation_status'', ''failure''),
             (''error_message'', error_str e)]
      | Inr last_row_id \<Rightarrow>
          Log INFO ''insert_report_data''
            [(''original_filename'', fn), (''source_path'', sp), (''status'', status),
             (''operation'', ''insert_report''), (''db_operation_status'', ''success'')])"
  by (simp_all add: insert_report_data_def Let_def case_outcome split: sum.splits)

lemma update_report_status_outcome:
  "fst (update_report_status self w report_id status processed_content) =
     (case fst (execute_query w (reports_db_path self) (status_statement processed_content)
                  (status_params status processed_content report_id) False False True) of
        Inl e \<Rightarrow> Inr False
      | Inr r \<Rightarrow> Inr True)"
  "last (events (snd (update_report_status self w report_id status processed_content))) =
     (case fst (execute_query w (reports_db_path self) (status_statement processed_content)
                  (status_params status processed_content report_id) False False True) of
        Inl e \<Rightarrow>
          Log ERROR ''update_report_status''
            [(''new_status'', status), (''operation'', ''update_report_status''),
             (''db_operation_status'', ''failure''), (''error_message'', error_str e)]
      | Inr r \<Rightarrow>
          Log INFO ''update_report_status''
            [(''new_status'', status), (''operation'', ''update_report_status''),
             (''db_operation_status'', ''success'')])"
  by (simp_all add: update_report_status_unfold case_outcome split: sum.splits)

lemma update_report_analysis_outcome:
  "fst (update_report_analysis self w report_id analysis_data status) =
     (case fst (execute_query w (reports_db_path self) sql_update_analysis
                  [VStr analysis_data, VStr status, VInt report_id] False False True) of
        Inl e \<Rightarrow> Inr False
      | Inr r \<Rightarrow> Inr True)"
  "last (events (snd (update_report_analysis self w report_id analysis_data status))) =
     (case fst (execute_query w (reports_db_path self) sql_update_analysis
                  [VStr analysis_data, VStr status, VInt report_id] False False True) of
        Inl e \<Rightarrow>
          Log ERROR ''update_report_analysis''
            [(''new_status'', status), (''operation'', ''update_report_analysis''),
             (''db_operation_status'', ''failure''), (''error_message'', error_str e)]
      | Inr r \<Rightarrow>
          Log INFO ''update_report_analysis''
            [(''new_status'', status), (''operation'', ''update_report_analysis''),
             (''db_operation_status'', ''success'')])"
  by (simp_all add: update_report_analysis_def Let_def case_outcome split: sum.splits)

lemma insert_prompt_template_outcome:
  "fst (insert_prompt_template self w name template_text category) =
     (case fst (execute_query w (prompts_db_path self) sql_insert_prompt
                  [VStr name, VStr template_text, opt_str category] False False True) of
        Inl e \<Rightarrow> Inr (Scalar VNone)
      | Inr last_row_id \<Rightarrow> Inr last_row_id)"
  "last (events (snd (insert_prompt_template self w name template_text category))) =
     (case fst (execute_query w (prompts_db_path self) sql_insert_prompt
                  [VStr name, VStr template_text, opt_str category] False False True) of
        Inl e \<Rightarrow>
          Log ERROR ''insert_prompt_template''
            [(''prompt_name'', name), (''operation'', ''insert_prompt_template''),
             (''db_operation_status'', ''failure''), (''error_message'', error_str e)]
      | Inr last_row_id \<Rightarrow>
          Log INFO ''insert_prompt_template''
            [(''prompt_name'', name), (''operation'', ''insert_prompt_template''),
             (''db_operation_status'', ''success'')])"
  by (simp_all add: insert_prompt_template_def Let_def case_outcome split: sum.splits)

lemma update_report_metadata_outcome:
  "\<exists>b. fst (update_report_metadata js self w report_id upd) = Inr b"
  "fst (update_report_metadata js self w report_id upd) = Inr False \<Longrightarrow>
     \<exists>props. last (events (snd (update_report_metadata js self w report_id upd))) =
       Log ERROR ''update_report_metadata'' props"
proof -
  show "\<exists>b. fst (update_report_metadata js self w report_id upd) = Inr b"
  proof (cases "current_report w (reports_db_path self) report_id")
    case None
    then show ?thesis by (auto simp: update_report_metadata_absent)
  next
    case (Some r)
    then show ?thesis
      by (auto simp: update_report_metadata_present case_outcome split: sum.splits)
  qed
  show "fst (update_report_metadata js self w report_id upd) = Inr False \<Longrightarrow>
     \<exists>props. last (events (snd (update_report_metadata js self w report_id upd))) =
       Log ERROR ''update_report_metadata'' props"
  proof (cases "current_report w (reports_db_path self) report_id")
    case None
    then show ?thesis by (simp add: update_report_metadata_absent)
  next
    case (Some r)
    assume "fst (update_report_metadata js self w report_id upd) = Inr False"
    then show ?thesis
      using Some
      by (auto simp: update_report_metadata_present case_outcome split: sum.splits)
  qed
qed

lemma not_ready_not_there: "\<not> dir_ready w p \<Longrightarrow> \<not> dir_there w p"
  by (simp add: dir_ready_def)

text \<open>
  Claim C2, as the code has it. An error inside \<^verbatim>\<open>_execute_query\<close> is never swallowed:
  a failed directory creation and a failed store operation both leave the call raising
  that error, with an error record of the executor as the last thing logged. Each of the
  five write methods never raises: whenever its executor call raises, whatever the
  error, it returns \<^verbatim>\<open>None\<close> (the inserts) or \<^verbatim>\<open>False\<close> (the updates) and its own
  error record is the last thing logged. A directory that cannot be provisioned is no
  exception: the five methods return \<^verbatim>\<open>None\<close> or \<^verbatim>\<open>False\<close> for it too. Only
  \<^verbatim>\<open>initialize_databases\<close>, which has no handler, lets it through.
\<close>

theorem errors_logged_and_contained:
  "(fst (execute_query w p q ps f1 fa c) = Inl e \<longrightarrow>
      (\<exists>props. last (events (snd (execute_query w p q ps f1 fa c))) =
         Log ERROR ''_execute_query'' ((''db_path'', p) # props @ [(''error'', error_str e)])))
   \<and> (dir_ready w p \<and> sqlite_execute (clock w) (opened w p) q ps = Inl e \<longrightarrow>
        fst (execute_query w p q ps f1 fa c) = Inl e)
   \<and> (\<not> dir_ready w p \<longrightarrow> fst (execute_query w p q ps f1 fa c) = Inl OSError)
   \<and> (\<exists>v. fst (insert_report_data js self w fn content sp md status) = Inr v)
   \<and> (\<exists>b. fst (update_report_status self w report_id status processed_content) = Inr b)
   \<and> (\<exists>b. fst (update_report_analysis self w report_id analysis_data status) = Inr b)
   \<and> (\<exists>b. fst (update_report_metadata js self w report_id upd) = Inr b)
   \<and> (\<exists>v. fst (insert_prompt_template self w name template_text category) = Inr v)
   \<and> (fst (execute_query w (reports_db_path self) sql_insert_report
             [VStr fn, opt_str content, VStr sp, metadata_text js md, VStr status]
             False False True) = Inl e \<longrightarrow>
        fst (insert_report_data js self w fn content sp md status) = Inr (Scalar VNone)
        \<and> (\<exists>props. last (events (snd (insert_report_data js self w fn content sp md status))) =
              Log ERROR ''insert_report_data'' props))
   \<and> (fst (execute_query w (reports_db_path self) (status_statement processed_content)
             (status_params status processed_content report_id) False False True) = Inl e \<longrightarrow>
        fst (update_report_status self w report_id status processed_content) = Inr False
        \<and> (\<exists>props. last (events (snd (update_report_status self w report_id status
                                        processed_content))) =
              Log ERROR ''update_report_status'' props))
   \<and> (fst (execute_query w (reports_db_path self) sql_update_analysis
             [VStr analysis_data, VStr status, VInt report_id] False False True) = Inl e \<longrightarrow>
        fst (update_report_analysis self w report_id analysis_data status) = Inr False
        \<and> (\<exists>props. last (events (snd (update_report_analysis self w report_id analysis_data
                                        status))) =
              Log ERROR ''update_report_analysis'' props))
   \<and> (fst (execute_query w (prompts_db_path self) sql_insert_prompt
             [VStr name, VStr template_text, opt_str category] False False True) = Inl e \<longrightarrow>
        fst (insert_prompt_template self w name template_text category) = Inr (Scalar VNone)
        \<and> (\<exists>props. last (events (snd (insert_prompt_template self w name template_text
                                        category))) =
              Log ERROR ''insert_prompt_template'' props))
   \<and> (fst (update_report_metadata js self w report_id upd) = Inr False \<longrightarrow>
        (\<exists>props. last (events (snd (update_report_metadata js self w report_id upd))) =
           Log ERROR ''update_report_metadata'' props))
   \<and> (\<not> dir_ready w (reports_db_path self) \<longrightarrow>
        fst (insert_report_data js self w fn content sp md status) = Inr (Scalar VNone)
        \<and> fst (update_report_status self w report_id status processed_content) = Inr False
        \<and> fst (update_report_analysis self w report_id analysis_data status) = Inr False
        \<and> fst (update_report_metadata js self w report_id upd) = Inr False
        \<and> fst (initialize_databases self w) = Inl OSError)
   \<and> (\<not> dir_ready w (prompts_db_path self) \<longrightarrow>
        fst (insert_prompt_template self w name template_text category) = Inr (Scalar VNone))"
proof (intro conjI impI)
  assume "fst (execute_query w p q ps f1 fa c) = Inl e"
  then show "\<exists>props. last (events (snd (execute_query w p q ps f1 fa c))) =
         Log ERROR ''_execute_query'' ((''db_path'', p) # props @ [(''error'', error_str e)])"
    by (rule execute_query_raises_logged)
next
  assume "dir_ready w p \<and> sqlite_execute (clock w) (opened w p) q ps = Inl e"
  then show "fst (execute_query w p q ps f1 fa c) = Inl e"
    by (simp add: execute_query_eq)
next
  assume "\<not> dir_ready w p"
  then show "fst (execute_query w p q ps f1 fa c) = Inl OSError"
    by (simp add: execute_query_eq)
next
  show "\<exists>v. fst (insert_report_data js self w fn content sp md status) = Inr v"
    by (auto simp: insert_report_data_outcome split: sum.splits)
  show "\<exists>b. fst (update_report_status self w report_id status processed_content) = Inr b"
    by (auto simp: update_report_status_outcome split: sum.splits)
  show "\<exists>b. fst (update_report_analysis self w report_id analysis_data status) = Inr b"
    by (auto simp: update_report_analysis_outcome split: sum.splits)
  show "\<exists>b. fst (update_report_metadata js self w report_id upd) = Inr b"
    by (rule update_report_metadata_outcome)
  show "\<exists>v. fst (insert_prompt_template self w name template_text category) = Inr v"
    by (auto simp: insert_prompt_template_outcome split: sum.splits)
next
  assume "fst (execute_query w (reports_db_path self) sql_insert_report
             [VStr fn, opt_str content, VStr sp, metadata_text js md, VStr status]
             False False True) = Inl e"
  then show "fst (insert_report_data js self w fn content sp md status) = Inr (Scalar VNone)"
    and "\<exists>props. last (events (snd (insert_report_data js self w fn content sp md status))) =
              Log ERROR ''insert_report_data'' props"
    by (simp_all add: insert_report_data_outcome)
next
  assume "fst (execute_query w (reports_db_path self) (status_statement processed_content)
             (status_params status processed_content report_id) False False True) = Inl e"
  then show "fst (update_report_status self w report_id status processed_content) = Inr False"
    and "\<exists>props. last (events (snd (update_report_status self w report_id status
                                        processed_content))) =
              Log ERROR ''update_report_status'' props"
    by (simp_all add: update_report_status_outcome)
next
  assume "fst (execute_query w (reports_db_path self) sql_update_analysis
             [VStr analysis_data, VStr status, VInt report_id] False False True) = Inl e"
  then show "fst (update_report_analysis self w report_id analysis_data status) = Inr False"
    and "\<exists>props. last (events (snd (update_report_analysis self w report_id analysis_data
                                        status))) =
              Log ERROR ''update_report_analysis'' props"
    by (simp_all add: update_report_analysis_outcome)
next
  assume "fst (execute_query w (prompts_db_path self) sql_insert_prompt
             [VStr name, VStr template_text, opt_str category] False False True) = Inl e"
  then show "fst (insert_prompt_template self w name template_text category) = Inr (Scalar VNone)"
    and "\<exists>props. last (events (snd (insert_prompt_template self w name template_text
                                        category))) =
              Log ERROR ''insert_prompt_template'' props"
    by (simp_all add: insert_prompt_template_outcome)
next
  assume "fst (update_report_metadata js self w report_id upd) = Inr False"
  then show "\<exists>props. last (events (snd (update_report_metadata js self w report_id upd))) =
           Log ERROR ''update_report_metadata'' props"
    by (rule update_report_metadata_outcome)
next
  assume n: "\<not> dir_ready w (reports_db_path self)"
  show "fst (insert_report_data js self w fn content sp md status) = Inr (Scalar VNone)"
    using n by (simp add: insert_report_data_outcome execute_query_eq)
  show "fst (update_report_status self w report_id status processed_content) = Inr False"
    using n by (simp add: update_report_status_outcome execute_query_eq)
  show "fst (update_report_analysis self w report_id analysis_data status) = Inr False"
    using n by (simp add: update_report_analysis_outcome execute_query_eq)
  have "current_report w (reports_db_path self) report_id = None"
    using not_ready_not_there[OF n] by (simp add: current_report_def)
  then show "fst (update_report_metadata js self w report_id upd) = Inr False"
    by (simp add: update_report_metadata_absent)
  show "fst (initialize_databases self w) = Inl OSError"
    using n by (simp add: initialize_databases_def case_outcome create_reports_table_eq)
next
  assume "\<not> dir_ready w (prompts_db_path self)"
  then show "fst (insert_prompt_template self w name template_text category) = Inr (Scalar VNone)"
    by (simp add: insert_prompt_template_outcome execute_query_eq)
qed

theorem errors_logged_and_contained_witness:
  "fst (execute_query prompts_world (prompts_db_path dal0) sql_insert_prompt
         [VStr ''summary'', VStr ''Summarise again'', opt_str None] False False True)
     = Inl (IntegrityError ''UNIQUE constraint failed: prompt_templates.name'')
   \<and> (\<exists>props. last (events (snd (execute_query prompts_world (prompts_db_path dal0)
                 sql_insert_prompt [VStr ''summary'', VStr ''Summarise again'', opt_str None]
                 False False True))) =
          Log ERROR ''_execute_query'' ((''db_path'', prompts_db_path dal0) # props @
            [(''error'', error_str (IntegrityError
                 ''UNIQUE constraint failed: prompt_templates.name''))]))
   \<and> fst (insert_prompt_template dal0 prompts_world ''summary'' ''Summarise again'' None)
       = Inr (Scalar VNone)
   \<and> (\<exists>props. last (events (snd (insert_prompt_template dal0 prompts_world ''summary''
                 ''Summarise again'' None))) = Log ERROR ''insert_prompt_template'' props)
   \<and> fst (execute_query locked_world (reports_db_path dal0) sql_insert_report
         [VStr ''weekly.docx'', opt_str None, VStr ''/drive/wolf_in/weekly.docx'',
          metadata_text mini_json None, VStr ''new''] False False True) = Inl OSError
   \<and> (\<exists>props. last (events (snd (execute_query locked_world (reports_db_path dal0)
         sql_insert_report
         [VStr ''weekly.docx'', opt_str None, VStr ''/drive/wolf_in/weekly.docx'',
          metadata_text mini_json None, VStr ''new''] False False True))) =
          Log ERROR ''_execute_query'' ((''db_path'', reports_db_path dal0) # props @
            [(''error'', error_str OSError)]))
   \<and> fst (insert_report_data mini_json dal0 locked_world ''weekly.docx'' None
            ''/drive/wolf_in/weekly.docx'' None ''new'') = Inr (Scalar VNone)
   \<and> (\<exists>props. last (events (snd (insert_report_data mini_json dal0 locked_world ''weekly.docx''
            None ''/drive/wolf_in/weekly.docx'' None ''new''))) =
          Log ERROR ''insert_report_data'' props)
   \<and> fst (update_report_status dal0 locked_world 1 ''new'' None) = Inr False
   \<and> (\<exists>props. last (events (snd (update_report_status dal0 locked_world 1 ''new'' None))) =
          Log ERROR ''update_report_status'' props)
   \<and> fst (update_report_analysis dal0 locked_world 1 ''{}'' ''new'') = Inr False
   \<and> (\<exists>props. last (events (snd (update_report_analysis dal0 locked_world 1 ''{}'' ''new''))) =
          Log ERROR ''update_report_analysis'' props)
   \<and> fst (update_report_metadata mini_json dal0 locked_world 1 [(''a'', JInt 1)]) = Inr False
   \<and> (\<exists>props. last (events (snd (update_report_metadata mini_json dal0 locked_world 1
            [(''a'', JInt 1)]))) = Log ERROR ''update_report_metadata'' props)
   \<and> fst (insert_prompt_template dal0 locked_world ''summary'' ''Summarise: {text}'' None)
       = Inr (Scalar VNone)
   \<and> (\<exists>props. last (events (snd (insert_prompt_template dal0 locked_world ''summary''
            ''Summarise: {text}'' None))) = Log ERROR ''insert_prompt_template'' props)
   \<and> fst (initialize_databases dal0 locked_world) = Inl OSError"
proof -
  let ?dup = "[VStr ''summary'', VStr ''Summarise again'', opt_str None]"
  let ?ins = "[VStr ''weekly.docx'', opt_str None, VStr ''/drive/wolf_in/weekly.docx'',
               metadata_text mini_json None, VStr ''new'']"
  have ready: "dir_ready prompts_world (prompts_db_path dal0)"
    by code_simp
  have "case sqlite_execute (clock prompts_world) (opened prompts_world (prompts_db_path dal0))
               sql_insert_prompt ?dup of
          Inl e \<Rightarrow> e = IntegrityError ''UNIQUE constraint failed: prompt_templates.name''
        | Inr r \<Rightarrow> False"
    by code_simp
  then have fails: "sqlite_execute (clock prompts_world)
                      (opened prompts_world (prompts_db_path dal0)) sql_insert_prompt ?dup
               = Inl (IntegrityError ''UNIQUE constraint failed: prompt_templates.name'')"
    by (auto split: sum.splits)
  have nr: "\<not> dir_ready locked_world (reports_db_path dal0)"
    by code_simp
  have np: "\<not> dir_ready locked_world (prompts_db_path dal0)"
    by code_simp
  note stored = errors_logged_and_contained
    [where w = prompts_world and p = "prompts_db_path dal0" and q = sql_insert_prompt
       and ps = ?dup and ?f1.0 = False and fa = False and c = True
       and e = "IntegrityError ''UNIQUE constraint failed: prompt_templates.name''"
       and self = dal0 and name = "''summary''" and template_text = "''Summarise again''"
       and category = None]
  note locked = errors_logged_and_contained
    [where w = locked_world and p = "reports_db_path dal0" and q = sql_insert_report
       and ps = ?ins and ?f1.0 = False and fa = False and c = True and e = OSError
       and js = mini_json and self = dal0 and fn = "''weekly.docx''" and content = None
       and sp = "''/drive/wolf_in/weekly.docx''" and md = None and status = "''new''"
       and report_id = 1 and processed_content = None and analysis_data = "''{}''"
       and upd = "[(''a'', JInt 1)]" and name = "''summary''"
       and template_text = "''Summarise: {text}''" and category = None]
  have s1: "fst (execute_query prompts_world (prompts_db_path dal0) sql_insert_prompt ?dup
                   False False True)
            = Inl (IntegrityError ''UNIQUE constraint failed: prompt_templates.name'')"
    using stored ready fails by blast
  have l1: "fst (execute_query locked_world (reports_db_path dal0) sql_insert_report ?ins
                   False False True) = Inl OSError"
    using locked nr by blast
  have l2: "fst (execute_query locked_world (reports_db_path dal0) (status_statement None)
                   (status_params ''new'' None 1) False False True) = Inl OSError"
    using nr by (simp add: execute_query_eq)
  have l3: "fst (execute_query locked_world (reports_db_path dal0) sql_update_analysis
                   [VStr ''{}'', VStr ''new'', VInt 1] False False True) = Inl OSError"
    using nr by (simp add: execute_query_eq)
  have l4: "fst (execute_query locked_world (prompts_db_path dal0) sql_insert_prompt
                   [VStr ''summary'', VStr ''Summarise: {text}'', opt_str None]
                   False False True) = Inl OSError"
    using np by (simp add: execute_query_eq)
  show ?thesis
    using stored locked s1 l1 l2 l3 l4 nr np by blast
qed

text \<open>The claim as stated lets a directory-provisioning failure propagate out of the
  repository methods. On a machine where the directory cannot be created the executor
  raises \<^verbatim>\<open>OSError\<close>, and \<^verbatim>\<open>insert_report_data\<close>, whose handler catches every
  \<^verbatim>\<open>Exception\<close>, returns \<^verbatim>\<open>None\<close>.\<close>

theorem provisioning_failure_contained_counterexample:
  "fst (execute_query locked_world (reports_db_path dal0) sql_insert_report
         [VStr ''weekly.docx'', opt_str None, VStr ''/drive/wolf_in/weekly.docx'',
          metadata_text mini_json None, VStr ''new''] False False True) = Inl OSError
   \<and> fst (insert_report_data mini_json dal0 locked_world ''weekly.docx'' None
            ''/drive/wolf_in/weekly.docx'' None ''new'') = Inr (Scalar VNone)
   \<and> fst (update_report_status dal0 locked_world 1 ''done'' None) = Inr False"
proof -
  have n: "\<not> dir_ready locked_world (reports_db_path dal0)" by code_simp
  show ?thesis
    using n
    by (simp add: insert_report_data_outcome update_report_status_outcome execute_query_eq)
qed

subsection \<open>The reads that open their own connection\<close>

lemma direct_read_dirs:
  "dirs (snd (connect_and_execute w p q ps)) = dirs w"
  by (auto simp: connect_and_execute_eq split: sum.splits)

lemma connect_and_execute_events:
  "\<exists>tr. events (snd (connect_and_execute w p q ps)) = events w @ Connect p # tr"
  by (auto simp: connect_and_execute_eq split: sum.splits)

lemma get_prompt_template_by_name_world:
  "dirs (snd (get_prompt_template_by_name self w name)) = dirs w"
  "take 1 (drop (length (events w)) (events (snd (get_prompt_template_by_name self w name))))
     = [Connect (prompts_db_path self)]"
proof -
  let ?r = "connect_and_execute w (prompts_db_path self) sql_select_prompt [VStr name]"
  obtain tr where tr: "events (snd ?r) = events w @ Connect (prompts_db_path self) # tr"
    using connect_and_execute_events by blast
  obtain x w1 where r: "?r = (x, w1)" by (cases ?r)
  have d: "dirs w1 = dirs w" using direct_read_dirs[of w "prompts_db_path self"
      sql_select_prompt "[VStr name]"] r by simp
  have e: "events w1 = events w @ Connect (prompts_db_path self) # tr" using tr r by simp
  show "dirs (snd (get_prompt_template_by_name self w name)) = dirs w"
    using r d
    by (auto simp: get_prompt_template_by_name_def emit_def Let_def
        split: sum.splits option.splits)
  show "take 1 (drop (length (events w)) (events (snd (get_prompt_template_by_name self w name))))
     = [Connect (prompts_db_path self)]"
    using r e
    by (auto simp: get_prompt_template_by_name_def emit_def Let_def
        split: sum.splits option.splits)
qed

lemma get_all_prompt_templates_world:
  "dirs (snd (get_all_prompt_templates self w limit offset)) = dirs w"
  "take 1 (drop (length (events w)) (events (snd (get_all_prompt_templates self w limit offset))))
     = [Connect (prompts_db_path self)]"
proof -
  let ?r = "connect_and_execute w (prompts_db_path self) sql_list_prompts
              [VInt limit, VInt offset]"
  obtain tr where tr: "events (snd ?r) = events w @ Connect (prompts_db_path self) # tr"
    using connect_and_execute_events by blast
  obtain x w1 where r: "?r = (x, w1)" by (cases ?r)
  have d: "dirs w1 = dirs w" using direct_read_dirs[of w "prompts_db_path self"
      sql_list_prompts "[VInt limit, VInt offset]"] r by simp
  have e: "events w1 = events w @ Connect (prompts_db_path self) # tr" using tr r by simp
  show "dirs (snd (get_all_prompt_templates self w limit offset)) = dirs w"
    using r d
    by (auto simp: get_all_prompt_templates_def emit_def Let_def
        split: sum.splits option.splits)
  show "take 1 (drop (length (events w))
                  (events (snd (get_all_prompt_templates self w limit offset))))
     = [Connect (prompts_db_path self)]"
    using r e
    by (auto simp: get_all_prompt_templates_def emit_def Let_def
        split: sum.splits option.splits)
qed

lemma get_report_by_id_first_event:
  "take 1 (drop (length (events w)) (events (snd (get_report_by_id self w report_id))))
     = [Connect (reports_db_path self)]"
proof -
  let ?r = "connect_and_execute w (reports_db_path self) sql_select_report [VInt report_id]"
  obtain tr where tr: "events (snd ?r) = events w @ Connect (reports_db_path self) # tr"
    using connect_and_execute_events by blast
  obtain x w1 where r: "?r = (x, w1)" by (cases ?r)
  have e: "events w1 = events w @ Connect (reports_db_path self) # tr" using tr r by simp
  show ?thesis
    using r e
    by (auto simp: get_report_by_id_def emit_def Let_def split: sum.splits option.splits)
qed

text \<open>
  Claim C5 against the code. \<^verbatim>\<open>get_report_by_id\<close>, \<^verbatim>\<open>get_prompt_template_by_name\<close> and
  \<^verbatim>\<open>get_all_prompt_templates\<close> do not pass through \<^verbatim>\<open>_execute_query\<close>: on every machine
  they leave the set of directories as it was, and the first thing each does is open
  the connection. On a machine where the store directory does not exist (and could be
  created) each of them fails to open the store, logs its own record and returns the
  absent value; the executor, given the statement of \<^verbatim>\<open>get_report_by_id\<close> on the same
  machine, creates the directory first and raises the store's own error with the
  executor's record.
\<close>

theorem direct_reads_bypass_executor:
  "dirs (snd (get_report_by_id self w report_id)) = dirs w
   \<and> dirs (snd (get_prompt_template_by_name self w name)) = dirs w
   \<and> dirs (snd (get_all_prompt_templates self w limit offset)) = dirs w
   \<and> take 1 (drop (length (events w)) (events (snd (get_report_by_id self w report_id))))
       = [Connect (reports_db_path self)]
   \<and> take 1 (drop (length (events w)) (events (snd (get_prompt_template_by_name self w name))))
       = [Connect (prompts_db_path self)]
   \<and> take 1 (drop (length (events w))
               (events (snd (get_all_prompt_templates self w limit offset))))
       = [Connect (prompts_db_path self)]
   \<and> get_report_by_id dal0 fresh_world 1 =
       (Inr None,
        fresh_world\<lparr>events :=
          [Connect ''/srv/wolf/data/reports.sqlite'',
           Log ERROR ''get_report_by_id''
             [(''operation'', ''get_report_by_id''),
              (''error'', ''unable to open database file'')]]\<rparr>)
   \<and> get_prompt_template_by_name dal0 fresh_world ''summary'' =
       (Inr None,
        fresh_world\<lparr>events :=
          [Connect ''/srv/wolf/data/prompts.sqlite'',
           Log ERROR ''get_prompt_template_by_name''
             [(''prompt_name'', ''summary''), (''operation'', ''get_prompt_by_name''),
              (''error'', ''unable to open database file'')]]\<rparr>)
   \<and> get_all_prompt_templates dal0 fresh_world 100 0 =
       (Inr [],
        fresh_world\<lparr>events :=
          [Connect ''/srv/wolf/data/prompts.sqlite'',
           Log ERROR ''get_all_prompt_templates''
             [(''operation'', ''get_all_prompts''),
              (''error'', ''unable to open database file'')]]\<rparr>)
   \<and> fst (execute_query fresh_world (reports_db_path dal0) sql_select_report [VInt 1]
             True False False) = Inl (OperationalError ''no such table: reports'')
   \<and> dirs (snd (execute_query fresh_world (reports_db_path dal0) sql_select_report [VInt 1]
             True False False)) = [''/srv/wolf/data'', ''/'', ''/srv'', ''/srv/wolf'']
   \<and> take 3 (events (snd (execute_query fresh_world (reports_db_path dal0) sql_select_report
             [VInt 1] True False False))) =
       [Makedirs ''/srv/wolf/data'',
        Log INFO ''_execute_query''
          [(''db_path'', ''/srv/wolf/data/reports.sqlite''), (''action'', ''create_directory'')],
        Connect ''/srv/wolf/data/reports.sqlite'']
   \<and> last (events (snd (execute_query fresh_world (reports_db_path dal0) sql_select_report
             [VInt 1] True False False))) =
       Log ERROR ''_execute_query''
         [(''db_path'', ''/srv/wolf/data/reports.sqlite''),
          (''query_snippet'', take 100 sql_select_report),
          (''error'', ''no such table: reports'')]"
proof -
  have nr: "\<not> dir_there fresh_world (reports_db_path dal0)"
    and np: "\<not> dir_there fresh_world (prompts_db_path dal0)"
    by code_simp+
  have ev: "events fresh_world = []"
    by (simp add: fresh_world_def)
  have paths: "reports_db_path dal0 = ''/srv/wolf/data/reports.sqlite''"
    "prompts_db_path dal0 = ''/srv/wolf/data/prompts.sqlite''"
    by (simp_all add: dal0_def)
  have a: "get_report_by_id dal0 fresh_world 1 =
       (Inr None,
        fresh_world\<lparr>events :=
          [Connect ''/srv/wolf/data/reports.sqlite'',
           Log ERROR ''get_report_by_id''
             [(''operation'', ''get_report_by_id''),
              (''error'', ''unable to open database file'')]]\<rparr>)"
    using nr by (simp add: get_report_by_id_def connect_and_execute_eq emit_def ev paths)
  have b: "get_prompt_template_by_name dal0 fresh_world ''summary'' =
       (Inr None,
        fresh_world\<lparr>events :=
          [Connect ''/srv/wolf/data/prompts.sqlite'',
           Log ERROR ''get_prompt_template_by_name''
             [(''prompt_name'', ''summary''), (''operation'', ''get_prompt_by_name''),
              (''error'', ''unable to open database file'')]]\<rparr>)"
    using np by (simp add: get_prompt_template_by_name_def connect_and_execute_eq emit_def ev paths)
  have c: "get_all_prompt_templates dal0 fresh_world 100 0 =
       (Inr [],
        fresh_world\<lparr>events :=
          [Connect ''/srv/wolf/data/prompts.sqlite'',
           Log ERROR ''get_all_prompt_templates''
             [(''operation'', ''get_all_prompts''),
              (''error'', ''unable to open database file'')]]\<rparr>)"
    using np by (simp add: get_all_prompt_templates_def connect_and_execute_eq emit_def ev paths)
  have d: "fst (execute_query fresh_world (reports_db_path dal0) sql_select_report [VInt 1]
             True False False) = Inl (OperationalError ''no such table: reports'')"
    by code_simp
  have e: "dirs (snd (execute_query fresh_world (reports_db_path dal0) sql_select_report [VInt 1]
             True False False)) = [''/srv/wolf/data'', ''/'', ''/srv'', ''/srv/wolf'']"
    by code_simp
  have f: "take 3 (events (snd (execute_query fresh_world (reports_db_path dal0) sql_select_report
             [VInt 1] True False False))) =
       [Makedirs ''/srv/wolf/data'',
        Log INFO ''_execute_query''
          [(''db_path'', ''/srv/wolf/data/reports.sqlite''), (''action'', ''create_directory'')],
        Connect ''/srv/wolf/data/reports.sqlite'']"
    by code_simp
  have g: "last (events (snd (execute_query fresh_world (reports_db_path dal0) sql_select_report
             [VInt 1] True False False))) =
       Log ERROR ''_execute_query''
         [(''db_path'', ''/srv/wolf/data/reports.sqlite''),
          (''query_snippet'', take 100 sql_select_report),
          (''error'', ''no such table: reports'')]"
    by code_simp
  show ?thesis
    by (intro conjI)
      (rule get_report_by_id_world get_prompt_template_by_name_world
         get_all_prompt_templates_world get_report_by_id_first_event a b c d e f g)+
qed

end
